(* ===== verification/Prelude.thy ===== *)
theory Prelude
  imports Main "HOL-Library.Multiset"
begin

text \<open>
  Shared vocabulary of the FocusFlow development: the value semantics of the two
  languages the application is written in (Python for the handlers and the scheduler,
  SQL for the queries that SQLAlchemy emits), the type of timestamps, the exceptions a
  handler can raise, and the generic list lemmas the component theories share.
\<close>

section \<open>Collections of facts\<close>

named_theorems model_defs "unfolding rules of the model's operations"
named_theorems store_simps "rewrite rules for queries over the rows of a table"

section \<open>Timestamps\<close>

text \<open>
  A \<open>datetime\<close> of the application is a naive UTC timestamp, counted in whole seconds.
  Due dates come from a \<open>DateTimeLocalField\<close> with format \<open>%Y-%m-%dT%H:%M\<close>, so
  they are whole minutes; for such a value \<open>d\<close> and a clock reading \<open>r\<close> with
  sub-second precision, \<open>d \<le> r\<close> holds exactly when \<open>d \<le> \<lfloor>r\<rfloor>\<close>, so
  counting the clock in whole seconds loses nothing the comparisons of the code see.
\<close>

type_synonym datetime = int

section \<open>Python values\<close>

text \<open>
  Python's \<open>and\<close> returns its first falsy operand, not a boolean. The only
  non-boolean values that reach a truth test in the modelled code are \<open>None\<close>
  (a NULL column or a missing due date) and booleans.
\<close>

datatype pyval = PyNone | PyBool bool

fun truthy :: "pyval \<Rightarrow> bool" where
  "truthy PyNone = False"
| "truthy (PyBool b) = b"

text \<open>A nullable boolean column read into Python: NULL is \<open>None\<close>.\<close>

fun py_of_column :: "bool option \<Rightarrow> pyval" where
  "py_of_column None = PyNone"
| "py_of_column (Some b) = PyBool b"

lemma truthy_py_of_column [simp]: "truthy (py_of_column c) \<longleftrightarrow> c = Some True"
  by (cases c) auto

text \<open>The exceptions that the modelled code can raise or that escape to its handlers.\<close>

datatype py_exc =
    NameError string
  | ImportError string
  | TypeError string
  | AttributeError string
  | BuildError string
  | ValueError string
  | DatabaseError
  | MailError
  | ConfigError

section \<open>SQL three-valued logic\<close>

text \<open>
  A \<open>WHERE\<close> clause is evaluated in three-valued logic: a comparison with NULL is
  UNKNOWN (\<open>None\<close>), and a row is kept only when the clause is TRUE. SQLAlchemy joins
  the arguments of \<open>filter\<close> with \<open>AND\<close>.
\<close>

type_synonym sql_bool = "bool option"

fun sql_and :: "sql_bool \<Rightarrow> sql_bool \<Rightarrow> sql_bool" where
  "sql_and (Some False) _ = Some False"
| "sql_and _ (Some False) = Some False"
| "sql_and (Some True) (Some True) = Some True"
| "sql_and _ _ = None"

fun sql_cmp :: "('a \<Rightarrow> 'a \<Rightarrow> bool) \<Rightarrow> 'a option \<Rightarrow> 'a option \<Rightarrow> sql_bool" where
  "sql_cmp r (Some a) (Some b) = Some (r a b)"
| "sql_cmp r _ _ = None"

definition sql_where :: "('row \<Rightarrow> sql_bool) \<Rightarrow> 'row list \<Rightarrow> 'row list" where
  "sql_where p rows = filter (\<lambda>r. p r = Some True) rows"

lemma sql_and_True [simp]:
  "sql_and a b = Some True \<longleftrightarrow> a = Some True \<and> b = Some True"
  by (cases "(a, b)" rule: sql_and.cases) auto

lemma sql_cmp_True [simp]:
  "sql_cmp r a b = Some True \<longleftrightarrow> (\<exists>x y. a = Some x \<and> b = Some y \<and> r x y)"
  by (cases "(r, a, b)" rule: sql_cmp.cases) auto

lemma sql_where_cong [store_simps]:
  "(\<And>r. r \<in> set rows \<Longrightarrow> p r = Some True \<longleftrightarrow> Q r) \<Longrightarrow> sql_where p rows = filter Q rows"
  unfolding sql_where_def by (rule filter_cong) auto

section \<open>Rows of a table\<close>

text \<open>
  A table is the list of its rows. \<open>query.filter_by(k = v).first()\<close> on a column with
  a uniqueness constraint finds the one row with that key, if any.
\<close>

definition first_by :: "('row \<Rightarrow> 'k) \<Rightarrow> 'k \<Rightarrow> 'row list \<Rightarrow> 'row option" where
  "first_by key k rows = find (\<lambda>r. key r = k) rows"

lemma first_by_Some [store_simps]:
  "first_by key k rows = Some r \<Longrightarrow> r \<in> set rows \<and> key r = k"
  unfolding first_by_def by (auto simp: find_Some_iff nth_mem)

lemma first_by_None [store_simps]:
  "first_by key k rows = None \<longleftrightarrow> (\<forall>r \<in> set rows. key r \<noteq> k)"
  unfolding first_by_def by (auto simp: find_None_iff)

lemma first_by_unique:
  "distinct (map key rows) \<Longrightarrow> r \<in> set rows \<Longrightarrow> first_by key (key r) rows = Some r"
proof (induction rows)
  case Nil
  then show ?case by simp
next
  case (Cons x xs)
  then show ?case by (auto simp: first_by_def)
qed

lemma first_by_append_fresh [store_simps]:
  "key x \<noteq> k \<Longrightarrow> first_by key k (rows @ [x]) = first_by key k rows"
  unfolding first_by_def by (induction rows) auto

lemma first_by_append_new [store_simps]:
  "\<forall>r \<in> set rows. key r \<noteq> k \<Longrightarrow> key x = k \<Longrightarrow> first_by key k (rows @ [x]) = Some x"
  unfolding first_by_def by (induction rows) auto

text \<open>Replacing the row with a given key, as a \<open>commit\<close> of a mutated ORM object does.\<close>

definition replace_by :: "('row \<Rightarrow> 'k) \<Rightarrow> 'k \<Rightarrow> 'row \<Rightarrow> 'row list \<Rightarrow> 'row list" where
  "replace_by key k r' rows = map (\<lambda>r. if key r = k then r' else r) rows"

lemma replace_by_keys [store_simps]:
  "key r' = k \<Longrightarrow> map key (replace_by key k r' rows) = map key rows"
  unfolding replace_by_def by (induction rows) auto

lemma set_replace_by [store_simps]:
  "set (replace_by key k r' rows) =
     {r \<in> set rows. key r \<noteq> k} \<union> (if k \<in> key ` set rows then {r'} else {})"
  unfolding replace_by_def by auto

lemma length_replace_by [simp]: "length (replace_by key k r' rows) = length rows"
  by (simp add: replace_by_def)

text \<open>
  SQLite assigns the next \<open>INTEGER PRIMARY KEY\<close> of a table declared without
  \<open>AUTOINCREMENT\<close> as one more than the largest key in use, and 1 in an empty table.
\<close>

definition next_rowid :: "int list \<Rightarrow> int" where
  "next_rowid ids = (case ids of [] \<Rightarrow> 1 | i # is \<Rightarrow> foldr max is i + 1)"

lemma foldr_max_ge: "x \<in> set xs \<or> x = m \<Longrightarrow> x \<le> foldr max xs (m::int)"
  by (induction xs) auto

lemma next_rowid_greater [store_simps]: "x \<in> set ids \<Longrightarrow> x < next_rowid ids"
  using foldr_max_ge [of x] by (fastforce simp: next_rowid_def split: list.splits)

lemma next_rowid_fresh [store_simps]: "next_rowid ids \<notin> set ids"
  using next_rowid_greater by blast

lemma next_rowid_map_fresh [store_simps]: "x \<in> set xs \<Longrightarrow> next_rowid (map f xs) \<noteq> f x"
  using next_rowid_fresh [of "map f xs"] by auto

lemma next_rowid_map_notin [store_simps]: "next_rowid (map f xs) \<notin> f ` set xs"
  using next_rowid_fresh [of "map f xs"] by simp

text \<open>
  A table whose key column is unique, read as the map from keys to rows
  (\<open>query.get(k)\<close>); inserting, deleting and replacing rows are the map operations.
\<close>

definition table_map :: "('row \<Rightarrow> 'k) \<Rightarrow> 'row list \<Rightarrow> 'k \<rightharpoonup> 'row" where
  "table_map key rows = map_of (map (\<lambda>r. (key r, r)) rows)"

lemma table_map_Nil [simp]: "table_map key [] = Map.empty"
  by (simp add: table_map_def)

lemma table_map_append [store_simps]:
  "key x \<notin> set (map key rows) \<Longrightarrow> table_map key (rows @ [x]) = (table_map key rows)(key x \<mapsto> x)"
  unfolding table_map_def by (induction rows) (auto simp: fun_upd_twist)

lemma table_map_filter [store_simps]:
  "distinct (map key rows) \<Longrightarrow>
     table_map key (filter (\<lambda>r. key r \<noteq> k) rows) = (table_map key rows)(k := None)"
  unfolding table_map_def
  by (induction rows) (auto simp: fun_upd_twist map_of_eq_None_iff)

lemma table_map_replace_at:
  "key r' = k \<Longrightarrow>
     table_map key (replace_by key k r' rows) x =
       (if x = k \<and> k \<in> set (map key rows) then Some r' else table_map key rows x)"
  unfolding table_map_def replace_by_def by (induction rows) auto

lemma table_map_replace [store_simps]:
  "key r' = k \<Longrightarrow> k \<in> set (map key rows) \<Longrightarrow>
     table_map key (replace_by key k r' rows) = (table_map key rows)(k \<mapsto> r')"
  by (rule ext) (simp add: table_map_replace_at)

lemma table_map_first_by [store_simps]:
  "distinct (map key rows) \<Longrightarrow> table_map key rows k = first_by key k rows"
  unfolding table_map_def first_by_def by (induction rows) auto

lemma dom_table_map [simp]: "dom (table_map key rows) = set (map key rows)"
  by (force simp: table_map_def dom_map_of_conv_image_fst)

end
