(* ===== verification/Models.thy ===== *)
theory Models
  imports Prelude
begin

text \<open>
  The ORM models of \<open>src/focusflow/models.py\<close>: the rows of the tables \<open>user\<close>,
  \<open>todo\<close> and \<open>category\<close>, the derived property \<open>Todo.is_reminder_due\<close> with
  Python's truthiness of \<open>and\<close>, the password helpers of \<open>User\<close>, and the
  database as the three tables together with its integrity constraints.
\<close>

section \<open>Rows\<close>

text \<open>
  \<open>class User\<close> (models.py lines 7--21). Nullable columns are options; \<open>id\<close>
  is \<open>uid\<close> here, because \<open>Todo\<close> has a field \<open>user_id\<close> of its own.
\<close>

record user =
  uid :: int
  email :: string
  password_hash :: string
  email_verified :: "bool option"

text \<open>
  \<open>class Todo\<close> (lines 24--41). \<open>reminder_time\<close> is the lead time in minutes,
  which no code reads.
\<close>

record todo =
  todo_id :: int
  content :: string
  date_created :: datetime
  user_id :: int
  category_id :: "int option"
  due_date :: "datetime option"
  reminder_active :: "bool option"
  reminder_time :: "int option"

text \<open>\<open>class Category\<close> (lines 44--47).\<close>

record category =
  cat_id :: int
  cat_name :: string

section \<open>Derived properties and helpers\<close>

text \<open>
  \<^verbatim>\<open>return self.due_date and self.reminder_active and (self.due_date <= datetime.utcnow())\<close>
  A \<open>datetime\<close> object is always truthy, so the first operand is falsy only when it is
  \<open>None\<close>; the clock reading is the parameter \<open>now\<close>.
\<close>

definition is_reminder_due :: "todo \<Rightarrow> datetime \<Rightarrow> pyval" where
  "is_reminder_due t now =
     (case due_date t of
        None \<Rightarrow> PyNone
      | Some d \<Rightarrow>
          (if \<not> truthy (py_of_column (reminder_active t)) then py_of_column (reminder_active t)
           else PyBool (d \<le> now)))"

text \<open>
  \<open>set_password\<close> and \<open>check_password\<close> (lines 14--18) call Werkzeug's
  \<open>generate_password_hash\<close> and \<open>check_password_hash\<close>, passed in as parameters.
\<close>

definition set_password :: "(string \<Rightarrow> string) \<Rightarrow> user \<Rightarrow> string \<Rightarrow> user" where
  "set_password gen u pw = u\<lparr>password_hash := gen pw\<rparr>"

definition check_password :: "(string \<Rightarrow> string \<Rightarrow> bool) \<Rightarrow> user \<Rightarrow> string \<Rightarrow> bool" where
  "check_password chk u pw = chk (password_hash u) pw"

section \<open>The database\<close>

record db =
  users :: "user list"
  todos :: "todo list"
  categories :: "category list"

definition empty_db :: db where
  "empty_db = \<lparr>users = [], todos = [], categories = []\<rparr>"

text \<open>
  The constraints the schema declares: primary keys, \<open>unique=True\<close> on
  \<open>User.email\<close> and \<open>Category.name\<close>, and the foreign keys \<open>todo.user_id\<close>
  (NOT NULL) and \<open>todo.category_id\<close> (nullable).
\<close>

definition wf_db :: "db \<Rightarrow> bool" where
  "wf_db d \<longleftrightarrow>
     distinct (map uid (users d)) \<and>
     distinct (map email (users d)) \<and>
     distinct (map todo_id (todos d)) \<and>
     distinct (map cat_id (categories d)) \<and>
     distinct (map cat_name (categories d)) \<and>
     list_all (\<lambda>t. user_id t \<in> set (map uid (users d))) (todos d) \<and>
     list_all (\<lambda>t. case category_id t of None \<Rightarrow> True
                    | Some c \<Rightarrow> c \<in> set (map cat_id (categories d))) (todos d)"

lemma wf_empty_db: "wf_db empty_db"
  by (simp add: wf_db_def empty_db_def)

section \<open>Properties\<close>

text \<open>
  C2. The reminder predicate of the model meets the evaluator's contract: its value is
  truthy exactly when the reminder is active, a due date is set, and the due date is
  not after the clock (the boundary is inclusive). A missing due date gives \<open>None\<close>,
  whatever the flag; the lead time \<open>reminder_time\<close> plays no part.
\<close>

theorem is_reminder_due_contract:
  "(truthy (is_reminder_due t now) \<longleftrightarrow>
      reminder_active t = Some True \<and> (\<exists>d. due_date t = Some d \<and> d \<le> now)) \<and>
   is_reminder_due (t\<lparr>due_date := None\<rparr>) now = PyNone \<and>
   is_reminder_due (t\<lparr>reminder_time := m\<rparr>) now = is_reminder_due t now"
  by (auto simp: is_reminder_due_def split: option.splits)

end
