(* ===== verification/Reminders.thy ===== *)
theory Reminders
  imports Models
begin

text \<open>
  The reminder machinery of \<open>src/focusflow/extensions.py\<close>: the batch query for due
  tasks, the job \<open>check_reminders\<close> that the background scheduler runs every minute,
  its fallback \<open>check_reminders_with_current_app\<close>, the unused
  \<open>send_reminder_email\<close>, and the scheduler's life cycle (\<open>start_scheduler\<close>,
  \<open>shutdown_scheduler\<close>). The logger is modelled as the list of entries a call
  appends; the lines printed to standard output duplicate them and are not modelled.
\<close>

section \<open>The due-task query\<close>

text \<open>
  \<^verbatim>\<open>Todo.query.filter(Todo.reminder_active == True, Todo.due_date <= datetime.utcnow())\<close>
  (extensions.py lines 32--35), evaluated by the database in three-valued logic.
\<close>

definition due_filter :: "datetime \<Rightarrow> todo \<Rightarrow> sql_bool" where
  "due_filter now t =
     sql_and (sql_cmp (=) (reminder_active t) (Some True)) (sql_cmp (\<le>) (due_date t) (Some now))"

definition due_query :: "datetime \<Rightarrow> todo list \<Rightarrow> todo list" where
  "due_query now rows = sql_where (due_filter now) rows"

text \<open>
  The contract of the reminder evaluator: a task is due when its reminder is active,
  it has a due date, and the due date is not after the clock.
\<close>

definition is_due_spec :: "todo \<Rightarrow> datetime \<Rightarrow> bool" where
  "is_due_spec t now \<longleftrightarrow>
     reminder_active t = Some True \<and> (case due_date t of None \<Rightarrow> False | Some d \<Rightarrow> d \<le> now)"

lemma due_filter_True [simp]:
  "due_filter now t = Some True \<longleftrightarrow> is_due_spec t now"
  by (auto simp: due_filter_def is_due_spec_def split: option.splits)

lemma is_reminder_due_spec [simp]:
  "truthy (is_reminder_due t now) \<longleftrightarrow> is_due_spec t now"
  by (auto simp: is_reminder_due_def is_due_spec_def split: option.splits)

lemma due_query_spec: "due_query now rows = filter (\<lambda>t. is_due_spec t now) rows"
  unfolding due_query_def by (rule sql_where_cong) simp

lemma is_due_spec_mono: "is_due_spec t now \<Longrightarrow> now \<le> now' \<Longrightarrow> is_due_spec t now'"
  by (auto simp: is_due_spec_def split: option.splits)

section \<open>The log\<close>

datatype log_entry =
    LogReminder string "datetime option"  \<comment> \<open>\<open>Reminder: Task '{content}' is due at {due_date}\<close>\<close>
  | LogProcessed nat                       \<comment> \<open>\<open>Processed {n} due reminders\<close>\<close>
  | LogDatabaseError                       \<comment> \<open>\<open>Database error in check_reminders\<close>\<close>
  | LogSchedulerError                      \<comment> \<open>\<open>Scheduler error in check_reminders\<close>\<close>
  | LogContextError                        \<comment> \<open>\<open>Application context error\<close>\<close>
  | LogReminderEmailSent string
  | LogNoUserEmail string
  | LogSchedulerStarted
  | LogSchedulerAlreadyRunning
  | LogSchedulerShutDown

definition reminder_log :: "todo \<Rightarrow> log_entry" where
  "reminder_log t = LogReminder (content t) (due_date t)"

section \<open>The background scheduler\<close>

text \<open>
  The module-level \<open>BackgroundScheduler\<close> (line 12): whether it runs, its job store
  (job id to job, as APScheduler's memory job store keeps it; the store survives a
  shutdown), and the number of \<open>atexit\<close> hooks registered so far.
\<close>

record job =
  job_func :: string
  job_interval :: int  \<comment> \<open>seconds\<close>

record sched =
  running :: bool
  jobs :: "(string \<times> job) list"
  atexit_hooks :: nat

definition init_sched :: sched where
  "init_sched = \<lparr>running = False, jobs = [], atexit_hooks = 0\<rparr>"

definition reminder_job :: job where
  "reminder_job = \<lparr>job_func = ''check_reminders'', job_interval = 60\<rparr>"

text \<open>\<open>add_job(func=check_reminders, trigger="interval", minutes=1, ...)\<close> (lines 86--92).\<close>

text \<open>\<open>add_job(..., id=i, replace_existing=True)\<close>: a job with the same id is replaced.\<close>

definition add_job :: "string \<Rightarrow> job \<Rightarrow> (string \<times> job) list \<Rightarrow> (string \<times> job) list" where
  "add_job i j js = filter (\<lambda>(k, _). k \<noteq> i) js @ [(i, j)]"

text \<open>
  The interval trigger fires the job at \<open>t0 + k * interval\<close> for \<open>k \<ge> 1\<close>, where
  \<open>t0\<close> is the time the job was added.
\<close>

definition fire_time :: "datetime \<Rightarrow> nat \<Rightarrow> datetime" where
  "fire_time t0 k = t0 + int k * job_interval reminder_job"

text \<open>The index of the first firing at or after a due date \<open>d\<close>.\<close>

definition first_fire :: "datetime \<Rightarrow> datetime \<Rightarrow> nat" where
  "first_fire t0 d =
     max 1 (nat ((d - t0 + job_interval reminder_job - 1) div job_interval reminder_job))"

text \<open>\<open>start_scheduler\<close> (lines 80--104).\<close>

definition start_scheduler :: "sched \<Rightarrow> sched \<times> log_entry list" where
  "start_scheduler s =
     (if \<not> running s then
        (s\<lparr>jobs := add_job ''check_reminders'' reminder_job (jobs s),
           running := True, atexit_hooks := Suc (atexit_hooks s)\<rparr>, [LogSchedulerStarted])
      else (s, [LogSchedulerAlreadyRunning]))"

text \<open>\<open>shutdown_scheduler\<close> (lines 106--113).\<close>

definition shutdown_scheduler :: "sched \<Rightarrow> sched \<times> log_entry list" where
  "shutdown_scheduler s =
     (if running s then (s\<lparr>running := False\<rparr>, [LogSchedulerShutDown]) else (s, []))"

section \<open>One run of the reminder job\<close>

text \<open>
  The faults a run can meet: \<open>create_app()\<close> raising (the outer \<open>except\<close>, line 55),
  or the query raising inside the application context (the inner \<open>except\<close>, line 52).
\<close>

datatype tick_env = TickOk | AppInitFails | QueryFails

text \<open>
  \<open>create_app()\<close> (\<open>__init__.py\<close> lines 17--80) as the job sees it: it either raises
  (the Firebase credentials are read from the environment) or returns after its last
  statement, \<open>start_scheduler(app)\<close>. Its other effects (configuration, extension
  set-up, \<open>db.create_all()\<close>, whose errors it catches itself) keep no state here.
\<close>

definition create_app :: "tick_env \<Rightarrow> sched \<Rightarrow> (sched \<times> log_entry list) option" where
  "create_app env s = (if env = AppInitFails then None else Some (start_scheduler s))"

text \<open>\<open>check_reminders\<close> (lines 19--56), at clock reading \<open>now\<close> over the rows of \<open>todo\<close>.\<close>

definition check_reminders ::
  "tick_env \<Rightarrow> datetime \<Rightarrow> sched \<Rightarrow> todo list \<Rightarrow> sched \<times> log_entry list" where
  "check_reminders env now s rows =
     (case create_app env s of
        None \<Rightarrow> (s, [LogSchedulerError])
      | Some (s', l) \<Rightarrow>
          (if env = QueryFails then (s', l @ [LogDatabaseError])
           else
             (let due_tasks = due_query now rows
              in (s', l @ map reminder_log due_tasks @
                      (if due_tasks \<noteq> [] then [LogProcessed (length due_tasks)] else [])))))"

text \<open>
  \<open>check_reminders_with_current_app\<close> (lines 116--138): inside an application context
  it runs the same query and logs each due task; a query failure is logged as a
  scheduler error; without a context \<open>current_app\<close> raises \<open>RuntimeError\<close> and the
  function falls back to \<open>check_reminders\<close>.
\<close>

definition check_reminders_with_current_app ::
  "bool \<Rightarrow> tick_env \<Rightarrow> datetime \<Rightarrow> sched \<Rightarrow> todo list \<Rightarrow> sched \<times> log_entry list" where
  "check_reminders_with_current_app has_ctx env now s rows =
     (if \<not> has_ctx then
        (let (s', l) = check_reminders env now s rows in (s', LogContextError # l))
      else if env = QueryFails then (s, [LogSchedulerError])
      else (s, map reminder_log (due_query now rows)))"

text \<open>
  \<open>send_reminder_email\<close> (lines 58--78) reads \<open>task.user\<close> guarded by
  \<open>hasattr(task, 'user')\<close>. The attributes of a \<open>Todo\<close> are its columns and the
  relationship backrefs \<open>owner\<close> (from \<open>User.tasks\<close>) and \<open>category\<close>.
\<close>

definition todo_attributes :: "string list" where
  "todo_attributes = [''id'', ''content'', ''date_created'', ''user_id'', ''category_id'',
     ''due_date'', ''reminder_active'', ''reminder_time'', ''is_reminder_due'', ''owner'', ''category'']"

definition send_reminder_email :: "(int \<Rightarrow> user option) \<Rightarrow> todo \<Rightarrow> log_entry" where
  "send_reminder_email owner_of t =
     (let user_email = (if ''user'' \<in> set todo_attributes
                        then map_option email (owner_of (user_id t)) else None)
      in case user_email of
           Some e \<Rightarrow> (if e \<noteq> [] then LogReminderEmailSent e else LogNoUserEmail (content t))
         | None \<Rightarrow> LogNoUserEmail (content t))"

section \<open>Behaviour of one run\<close>

lemma start_scheduler_running [simp]:
  "running s \<Longrightarrow> start_scheduler s = (s, [LogSchedulerAlreadyRunning])"
  by (simp add: start_scheduler_def)

lemma check_reminders_ok:
  "running s \<Longrightarrow> check_reminders TickOk now s rows =
     (s, LogSchedulerAlreadyRunning # map reminder_log (due_query now rows) @
         (if due_query now rows \<noteq> [] then [LogProcessed (length (due_query now rows))] else []))"
  by (simp add: check_reminders_def create_app_def Let_def)

lemma check_reminders_query_fails:
  "running s \<Longrightarrow> check_reminders QueryFails now s rows = (s, [LogSchedulerAlreadyRunning, LogDatabaseError])"
  by (simp add: check_reminders_def create_app_def)

lemma check_reminders_app_fails:
  "check_reminders AppInitFails now s rows = (s, [LogSchedulerError])"
  by (simp add: check_reminders_def create_app_def)

lemma set_check_reminders_log:
  "e \<in> set (snd (check_reminders env now s rows)) \<Longrightarrow>
     e \<in> reminder_log ` set (due_query now rows) \<or> (\<forall>c d. e \<noteq> LogReminder c d)"
  by (auto simp: check_reminders_def create_app_def start_scheduler_def reminder_log_def
                 Let_def split: if_splits option.splits)

section \<open>The scheduler as a system of steps\<close>

text \<open>
  The process: the scheduler, the rows of \<open>todo\<close>, the log, and the clock. Its steps
  interleave freely: the application start (\<open>create_app\<close> from \<open>run.py\<close>, which ends
  in \<open>start_scheduler\<close>), a firing of the job while the scheduler runs, any change
  of the rows by a request handler, the passing of time, and the \<open>atexit\<close> shutdown.
\<close>

record sys =
  sched_of :: sched
  store :: "todo list"
  log :: "log_entry list"
  clock :: datetime

definition init_sys :: "todo list \<Rightarrow> datetime \<Rightarrow> sys" where
  "init_sys rows t = \<lparr>sched_of = init_sched, store = rows, log = [], clock = t\<rparr>"

inductive sys_step :: "sys \<Rightarrow> sys \<Rightarrow> bool" where
  boot: "start_scheduler (sched_of \<sigma>) = (s', l) \<Longrightarrow>
     sys_step \<sigma> (\<sigma>\<lparr>sched_of := s', log := log \<sigma> @ l\<rparr>)"
| fire: "running (sched_of \<sigma>) \<Longrightarrow> (''check_reminders'', j) \<in> set (jobs (sched_of \<sigma>)) \<Longrightarrow>
     check_reminders env (clock \<sigma>) (sched_of \<sigma>) (store \<sigma>) = (s', l) \<Longrightarrow>
     sys_step \<sigma> (\<sigma>\<lparr>sched_of := s', log := log \<sigma> @ l\<rparr>)"
| mutate: "sys_step \<sigma> (\<sigma>\<lparr>store := rows'\<rparr>)"
| advance: "clock \<sigma> \<le> t \<Longrightarrow> sys_step \<sigma> (\<sigma>\<lparr>clock := t\<rparr>)"
| shutdown: "shutdown_scheduler (sched_of \<sigma>) = (s', l) \<Longrightarrow>
     sys_step \<sigma> (\<sigma>\<lparr>sched_of := s', log := log \<sigma> @ l\<rparr>)"

inductive reachable :: "todo list \<Rightarrow> datetime \<Rightarrow> sys \<Rightarrow> bool" for rows t0 where
  init: "reachable rows t0 (init_sys rows t0)"
| step: "reachable rows t0 \<sigma> \<Longrightarrow> sys_step \<sigma> \<sigma>' \<Longrightarrow> reachable rows t0 \<sigma>'"

inductive_cases sys_step_cases: "sys_step \<sigma> \<sigma>'"

text \<open>
  A logged reminder is sound at clock \<open>now\<close> when it names a due date that has
  passed.
\<close>

fun reminder_sound :: "datetime \<Rightarrow> log_entry \<Rightarrow> bool" where
  "reminder_sound now (LogReminder c d) = (case d of None \<Rightarrow> False | Some d' \<Rightarrow> d' \<le> now)"
| "reminder_sound now e = True"

definition sched_inv :: "sched \<Rightarrow> bool" where
  "sched_inv s \<longleftrightarrow>
     distinct (map fst (jobs s)) \<and>
     (running s \<longrightarrow> (''check_reminders'', reminder_job) \<in> set (jobs s) \<and> 0 < atexit_hooks s)"

definition sys_inv :: "sys \<Rightarrow> bool" where
  "sys_inv \<sigma> \<longleftrightarrow> sched_inv (sched_of \<sigma>) \<and> list_all (reminder_sound (clock \<sigma>)) (log \<sigma>)"

lemma distinct_add_job: "distinct (map fst js) \<Longrightarrow> distinct (map fst (add_job i j js))"
  by (auto simp: add_job_def distinct_map_filter)

lemma add_job_member: "(i, j) \<in> set (add_job i j js)"
  by (simp add: add_job_def)

lemma start_scheduler_inv: "sched_inv s \<Longrightarrow> sched_inv (fst (start_scheduler s))"
  by (auto simp: sched_inv_def start_scheduler_def distinct_add_job add_job_member)

lemma shutdown_scheduler_inv: "sched_inv s \<Longrightarrow> sched_inv (fst (shutdown_scheduler s))"
  by (auto simp: sched_inv_def shutdown_scheduler_def)

lemma check_reminders_sched:
  "fst (check_reminders env now s rows) = s \<or> fst (check_reminders env now s rows) = fst (start_scheduler s)"
  by (auto simp: check_reminders_def create_app_def Let_def split: option.splits prod.splits)

lemma reminder_sound_mono: "reminder_sound now e \<Longrightarrow> now \<le> now' \<Longrightarrow> reminder_sound now' e"
  by (cases e) (auto split: option.splits)

lemma check_reminders_sound:
  "list_all (reminder_sound now) (snd (check_reminders env now s rows))"
proof -
  have "reminder_sound now e" if "e \<in> set (snd (check_reminders env now s rows))" for e
    using set_check_reminders_log [OF that]
    by (cases e) (auto simp: reminder_log_def due_query_spec is_due_spec_def split: option.splits)
  then show ?thesis by (simp add: list_all_iff)
qed

lemma sys_step_inv: "sys_step \<sigma> \<sigma>' \<Longrightarrow> sys_inv \<sigma> \<Longrightarrow> sys_inv \<sigma>'"
proof (induction rule: sys_step.induct)
  case (boot \<sigma> s' l)
  then show ?case
    using start_scheduler_inv [of "sched_of \<sigma>"]
    by (auto simp: sys_inv_def start_scheduler_def split: if_splits)
next
  case (fire \<sigma> j env s' l)
  then have "s' = sched_of \<sigma> \<or> s' = fst (start_scheduler (sched_of \<sigma>))"
    using check_reminders_sched [of env "clock \<sigma>" "sched_of \<sigma>" "store \<sigma>"] by simp
  moreover have "list_all (reminder_sound (clock \<sigma>)) l"
    using check_reminders_sound [of "clock \<sigma>" env "sched_of \<sigma>" "store \<sigma>"] fire.hyps(3) by simp
  ultimately show ?case
    using fire.prems start_scheduler_inv [of "sched_of \<sigma>"] by (auto simp: sys_inv_def)
next
  case (mutate \<sigma> rows')
  then show ?case by (simp add: sys_inv_def)
next
  case (advance \<sigma> t)
  then show ?case by (auto simp: sys_inv_def list_all_iff intro: reminder_sound_mono)
next
  case (shutdown \<sigma> s' l)
  then show ?case
    using shutdown_scheduler_inv [of "sched_of \<sigma>"]
    by (auto simp: sys_inv_def shutdown_scheduler_def split: if_splits)
qed

lemma reachable_sys_inv: "reachable rows t0 \<sigma> \<Longrightarrow> sys_inv \<sigma>"
proof (induction rule: reachable.induct)
  case init
  then show ?case by (simp add: sys_inv_def sched_inv_def init_sys_def init_sched_def)
next
  case (step \<sigma> \<sigma>')
  from step.hyps(2) step.IH show ?case by (rule sys_step_inv)
qed

lemma first_fire_props:
  "d \<le> fire_time t0 (first_fire t0 d) \<and> fire_time t0 (first_fire t0 d) \<le> max d t0 + job_interval reminder_job \<and>
   (\<forall>k. 1 \<le> k \<and> k < first_fire t0 d \<longrightarrow> fire_time t0 k < d)"
proof -
  define q where "q = (d - t0 + 59) div 60"
  have q1: "60 * q \<le> d - t0 + 59" and q2: "d - t0 + 59 < 60 * q + 60"
    unfolding q_def by linarith+
  have ff: "first_fire t0 d = max 1 (nat q)"
    by (simp add: first_fire_def q_def reminder_job_def)
  show ?thesis
  proof (cases "q \<le> 1")
    case True
    then have "first_fire t0 d = 1" using ff by simp
    then show ?thesis using q1 q2 True by (auto simp: fire_time_def reminder_job_def)
  next
    case False
    then have f: "first_fire t0 d = nat q" using ff by simp
    have "fire_time t0 k < d" if "k < nat q" for k
    proof -
      have "int k \<le> q - 1" using that by linarith
      then have "60 * int k \<le> 60 * q - 60" by linarith
      then show ?thesis using q1 by (simp add: fire_time_def reminder_job_def)
    qed
    then show ?thesis using f q1 q2 False by (auto simp: fire_time_def reminder_job_def)
  qed
qed

section \<open>Example run\<close>

text \<open>A task due at second 50, and the state after the first firing of the job.\<close>

definition ex_task :: todo where
  "ex_task = \<lparr>todo_id = 1, content = ''pay rent'', date_created = 0, user_id = 1, category_id = None,
              due_date = Some 50, reminder_active = Some True, reminder_time = Some 30\<rparr>"

abbreviation ex_sched :: sched where
  "ex_sched \<equiv> \<lparr>running = True, jobs = [(''check_reminders'', reminder_job)], atexit_hooks = 1\<rparr>"

definition ex_state :: sys where
  "ex_state = \<lparr>sched_of = \<lparr>running = True, jobs = [(''check_reminders'', reminder_job)], atexit_hooks = 1\<rparr>,
     store = [ex_task],
     log = [LogSchedulerStarted, LogSchedulerAlreadyRunning, LogReminder ''pay rent'' (Some 50), LogProcessed 1],
     clock = 60\<rparr>"

lemma ex_state_reachable: "reachable [ex_task] 0 ex_state"
proof -
  let ?s0 = "init_sys [ex_task] 0"
  obtain s1 l1 where b: "start_scheduler (sched_of ?s0) = (s1, l1)"
    by (cases "start_scheduler (sched_of ?s0)")
  have s1: "s1 = sched_of ex_state" and l1: "l1 = [LogSchedulerStarted]"
    using b by (auto simp: init_sys_def init_sched_def start_scheduler_def add_job_def ex_state_def)
  let ?s1 = "?s0\<lparr>sched_of := s1, log := log ?s0 @ l1\<rparr>"
  have r1: "reachable [ex_task] 0 ?s1"
    by (rule reachable.step [OF reachable.init sys_step.boot [OF b]])
  let ?s2 = "?s1\<lparr>clock := 60\<rparr>"
  have r2: "reachable [ex_task] 0 ?s2"
    by (rule reachable.step [OF r1 sys_step.advance]) (simp add: init_sys_def)
  have c: "check_reminders TickOk 60 s1 [ex_task] =
             (s1, [LogSchedulerAlreadyRunning, LogReminder ''pay rent'' (Some 50), LogProcessed 1])"
    using check_reminders_ok [of s1 60 "[ex_task]"]
    by (simp add: s1 ex_state_def due_query_spec is_due_spec_def ex_task_def reminder_log_def)
  have "reachable [ex_task] 0 (?s2\<lparr>sched_of := s1, log := log ?s2 @
          [LogSchedulerAlreadyRunning, LogReminder ''pay rent'' (Some 50), LogProcessed 1]\<rparr>)"
    by (rule reachable.step [OF r2 sys_step.fire [where env = TickOk]])
       (use c in \<open>simp_all add: s1 ex_state_def init_sys_def\<close>)
  then show ?thesis using l1 s1 by (simp add: ex_state_def init_sys_def)
qed

section \<open>Properties\<close>

text \<open>
  C1. The batch query of the job and the model property agree: the rows the database
  returns for \<open>reminder_active == True AND due_date <= now\<close>, in three-valued logic,
  are exactly the rows whose \<open>is_reminder_due\<close> is truthy, in table order. A NULL
  \<open>reminder_active\<close> or \<open>due_date\<close> excludes the row on both sides.
\<close>

theorem due_query_eq_is_reminder_due:
  "due_query now rows = filter (\<lambda>t. truthy (is_reminder_due t now)) rows"
  by (simp add: due_query_spec)

text \<open>
  C5. Soundness of the reminder log: in every state the scheduler can reach, each logged
  reminder names a due date, and that date is not after the clock. No task without a
  due date, and none before its due date, is ever reported.
\<close>

theorem reachable_reminders_sound:
  assumes "reachable rows t0 \<sigma>" and "LogReminder c d \<in> set (log \<sigma>)"
  shows "\<exists>d'. d = Some d' \<and> d' \<le> clock \<sigma>"
proof -
  have "\<forall>e \<in> set (log \<sigma>). reminder_sound (clock \<sigma>) e"
    using reachable_sys_inv [OF assms(1)] by (simp add: sys_inv_def list_all_iff)
  with assms(2) have "reminder_sound (clock \<sigma>) (LogReminder c d)"
    by blast
  then show ?thesis by (simp split: option.splits)
qed

theorem reachable_reminders_sound_witness:
  "reachable [ex_task] 0 ex_state \<and> LogReminder ''pay rent'' (Some 50) \<in> set (log ex_state) \<and>
   (\<exists>d'. Some 50 = Some d' \<and> d' \<le> clock ex_state)"
  using reachable_reminders_sound [OF ex_state_reachable, of "''pay rent''" "Some 50"] ex_state_reachable
  by (simp add: ex_state_def)


text \<open>
  C11. Whenever the scheduler runs, in any reachable state, the reminder job is registered
  with its one-minute interval, job ids are unique (at most one reminder job), and a
  shutdown hook has been registered with \<open>atexit\<close>.
\<close>

theorem reachable_scheduler_job:
  assumes "reachable rows t0 \<sigma>" and "running (sched_of \<sigma>)"
  shows "(''check_reminders'', reminder_job) \<in> set (jobs (sched_of \<sigma>)) \<and>
         0 < atexit_hooks (sched_of \<sigma>) \<and> distinct (map fst (jobs (sched_of \<sigma>)))"
  using reachable_sys_inv [OF assms(1)] assms(2) by (simp add: sys_inv_def sched_inv_def)

theorem reachable_scheduler_job_witness:
  "reachable [ex_task] 0 ex_state \<and> running (sched_of ex_state) \<and>
   (''check_reminders'', reminder_job) \<in> set (jobs (sched_of ex_state)) \<and>
   0 < atexit_hooks (sched_of ex_state) \<and> distinct (map fst (jobs (sched_of ex_state)))"
  using reachable_scheduler_job [OF ex_state_reachable] ex_state_reachable
  by (simp add: ex_state_def)

text \<open>
  C4. Bounded latency: a task with an active reminder and due date \<open>d\<close> is reported at
  the first firing of the job at or after \<open>d\<close>, which comes no later than one
  interval after \<open>d\<close> (or after the job was added, if that is later); no earlier
  firing is at or after \<open>d\<close>.
\<close>

theorem reminder_reported_within_interval:
  assumes "running s" and "t \<in> set rows" and "reminder_active t = Some True" and "due_date t = Some d"
  shows "d \<le> fire_time t0 (first_fire t0 d) \<and>
         fire_time t0 (first_fire t0 d) \<le> max d t0 + job_interval reminder_job \<and>
         (\<forall>k. 1 \<le> k \<and> k < first_fire t0 d \<longrightarrow> fire_time t0 k < d) \<and>
         reminder_log t \<in> set (snd (check_reminders TickOk (fire_time t0 (first_fire t0 d)) s rows))"
proof -
  have "is_due_spec t (fire_time t0 (first_fire t0 d))"
    using assms(3,4) first_fire_props [of d t0] by (simp add: is_due_spec_def)
  then show ?thesis
    using first_fire_props [of d t0] assms(1,2) by (simp add: check_reminders_ok due_query_spec)
qed

theorem reminder_reported_within_interval_witness:
  "running ex_sched \<and> ex_task \<in> set [ex_task] \<and> reminder_active ex_task = Some True \<and>
   due_date ex_task = Some 50 \<and> fire_time 0 (first_fire 0 50) = 60 \<and>
   reminder_log ex_task \<in> set (snd (check_reminders TickOk (fire_time 0 (first_fire 0 50)) ex_sched [ex_task]))"
proof -
  have "fire_time 0 (first_fire 0 50) = 60"
    by (simp add: fire_time_def first_fire_def reminder_job_def)
  moreover note reminder_reported_within_interval [of ex_sched ex_task "[ex_task]" 50 0]
  ultimately show ?thesis by (simp add: ex_task_def)
qed

text \<open>
  C10. No idempotence: a task that is due at some clock reading is reported again by every
  later run of the job, as long as its row is unchanged.
\<close>

theorem due_task_renotified:
  assumes "running s" and "t \<in> set rows" and "truthy (is_reminder_due t now)" and "now \<le> now'"
  shows "reminder_log t \<in> set (snd (check_reminders TickOk now' s rows))"
  using assms is_due_spec_mono [of t now now'] by (simp add: check_reminders_ok due_query_spec)

theorem due_task_renotified_witness:
  "running ex_sched \<and> ex_task \<in> set [ex_task] \<and> truthy (is_reminder_due ex_task 50) \<and> (50::int) \<le> 120 \<and>
   reminder_log ex_task \<in> set (snd (check_reminders TickOk 120 ex_sched [ex_task]))"
  using due_task_renotified [of ex_sched ex_task "[ex_task]" 50 120]
  by (simp add: ex_task_def is_reminder_due_def)

text \<open>
  C3. Functional behaviour of one run of the job while the scheduler runs: it logs
  "already running" (from the nested \<open>create_app\<close>), one reminder per due task in
  table order and the count if there was any; a failing query logs one database error;
  a failing \<open>create_app\<close> logs one scheduler error; the scheduler is unchanged.
\<close>

theorem check_reminders_branches:
  assumes "running s"
  shows "check_reminders TickOk now s rows =
           (s, LogSchedulerAlreadyRunning # map reminder_log (filter (\<lambda>t. truthy (is_reminder_due t now)) rows) @
               (if \<exists>t \<in> set rows. truthy (is_reminder_due t now)
                then [LogProcessed (length (filter (\<lambda>t. truthy (is_reminder_due t now)) rows))] else [])) \<and>
         check_reminders QueryFails now s rows = (s, [LogSchedulerAlreadyRunning, LogDatabaseError]) \<and>
         check_reminders AppInitFails now s rows = (s, [LogSchedulerError])"
  using assms by (simp add: check_reminders_ok check_reminders_query_fails check_reminders_app_fails
                            due_query_spec filter_empty_conv)

theorem check_reminders_branches_witness:
  "running ex_sched \<and>
   check_reminders TickOk 60 ex_sched [ex_task] =
     (ex_sched, [LogSchedulerAlreadyRunning, LogReminder ''pay rent'' (Some 50), LogProcessed 1]) \<and>
   check_reminders QueryFails 60 ex_sched [ex_task] = (ex_sched, [LogSchedulerAlreadyRunning, LogDatabaseError])"
  using check_reminders_branches [of ex_sched 60 "[ex_task]"]
  by (simp add: ex_task_def is_reminder_due_def reminder_log_def)

text \<open>
  Starting the scheduler is idempotent: a second start only logs "already running".
  Shutting it down leaves it stopped, and a second shutdown does nothing.
\<close>

theorem scheduler_start_stop_idempotent:
  "start_scheduler (fst (start_scheduler s)) = (fst (start_scheduler s), [LogSchedulerAlreadyRunning]) \<and>
   running (fst (start_scheduler s)) \<and>
   shutdown_scheduler (fst (shutdown_scheduler s)) = (fst (shutdown_scheduler s), []) \<and>
   \<not> running (fst (shutdown_scheduler s))"
  by (simp add: start_scheduler_def shutdown_scheduler_def)

text \<open>
  C12. The e-mail path of reminders can never send: \<open>send_reminder_email\<close> reads the
  attribute \<open>user\<close>, which a \<open>Todo\<close> does not have (its backref is \<open>owner\<close>), so
  it always logs that no e-mail was found.
\<close>

theorem send_reminder_email_never_sends:
  "send_reminder_email owner_of t = LogNoUserEmail (content t)"
  by (simp add: send_reminder_email_def todo_attributes_def)

text \<open>
  C33. The fallback runner agrees with the job: with an application context,
  \<open>check_reminders_with_current_app\<close> logs exactly the reminders that
  \<open>check_reminders\<close> logs, in the same order, and keeps the scheduler; without a
  context it logs the context error and then runs \<open>check_reminders\<close>.
\<close>

theorem with_current_app_agrees:
  assumes "running s"
  shows "snd (check_reminders TickOk now s rows) =
           LogSchedulerAlreadyRunning # snd (check_reminders_with_current_app True TickOk now s rows) @
           (if due_query now rows \<noteq> [] then [LogProcessed (length (due_query now rows))] else []) \<and>
         fst (check_reminders_with_current_app True env now s rows) = s \<and>
         check_reminders_with_current_app False env now s rows =
           (fst (check_reminders env now s rows), LogContextError # snd (check_reminders env now s rows))"
  using assms
  by (simp add: check_reminders_ok check_reminders_with_current_app_def split: prod.splits)

theorem with_current_app_agrees_witness:
  "running ex_sched \<and>
   snd (check_reminders_with_current_app True TickOk 60 ex_sched [ex_task]) = [LogReminder ''pay rent'' (Some 50)]"
proof -
  have r: "running ex_sched" by simp
  have dq: "due_query 60 [ex_task] = [ex_task]"
    by (auto simp: ex_task_def due_query_def sql_where_def due_filter_def)
  have cr: "snd (check_reminders TickOk 60 ex_sched [ex_task]) =
      [LogSchedulerAlreadyRunning, LogReminder ''pay rent'' (Some 50), LogProcessed 1]"
    by (simp add: check_reminders_ok dq) (simp add: reminder_log_def ex_task_def)
  have "[LogSchedulerAlreadyRunning, LogReminder ''pay rent'' (Some 50), LogProcessed 1] =
      LogSchedulerAlreadyRunning # snd (check_reminders_with_current_app True TickOk 60 ex_sched [ex_task]) @
      [LogProcessed 1]"
    using conjunct1 [OF with_current_app_agrees [OF r, of 60 "[ex_task]" TickOk]] unfolding dq cr by simp
  then show ?thesis using r by simp
qed

end
