(* ===== verification/Tokens.thy ===== *)
theory Tokens
  imports Prelude
begin

text \<open>
  E-mail confirmation tokens: \<open>generate_token\<close> and \<open>confirm_token\<close> of
  \<open>src/focusflow/email_utils.py\<close>, over a symbolic model of the library they call,
  itsdangerous' \<open>URLSafeTimedSerializer\<close>, and the \<open>SECRET_KEY\<close> of
  \<open>src/focusflow/config.py\<close>. The signature is a free constructor term (perfect
  cryptography, in the style of Paulson's protocol models): a signature equals another
  only when key, payload and timestamp agree, and no party computes one without the key.
  The byte-level encoding of a token (base64, JSON, the separators) is not modelled.
\<close>

section \<open>The signing library\<close>

text \<open>
  itsdangerous derives the signing key from the secret and the salt
  (\<open>key_derivation="django-concat"\<close>: a digest of \<open>salt + b"signer" + secret\<close>), and a
  timed signer signs the payload together with the timestamp in whole seconds.
\<close>

datatype key = DerivedKey string string

datatype signature = Mac key string int

record token =
  tok_payload :: string
  tok_ts :: int
  tok_sig :: signature

definition derive_key :: "string \<Rightarrow> string \<Rightarrow> key" where
  "derive_key secret salt = DerivedKey secret salt"

definition sign :: "string \<Rightarrow> string \<Rightarrow> string \<Rightarrow> int \<Rightarrow> signature" where
  "sign secret salt payload ts = Mac (derive_key secret salt) payload ts"

text \<open>\<open>serializer.dumps(obj, salt=salt)\<close> at clock reading \<open>now\<close>.\<close>

definition dumps :: "string \<Rightarrow> string \<Rightarrow> string \<Rightarrow> int \<Rightarrow> token" where
  "dumps secret salt obj now =
     \<lparr>tok_payload = obj, tok_ts = now, tok_sig = sign secret salt obj now\<rparr>"

text \<open>
  \<open>serializer.loads(s, salt=salt, max_age=max_age)\<close>: \<open>BadSignature\<close> unless the
  signature is the one the key gives; then \<open>SignatureExpired\<close> when the age is more than
  \<open>max_age\<close> or negative (\<open>TimestampSigner.unsign\<close>).
\<close>

datatype bad_data = BadSignature | SignatureExpired

definition loads :: "string \<Rightarrow> string \<Rightarrow> int \<Rightarrow> int \<Rightarrow> token \<Rightarrow> bad_data + string" where
  "loads secret salt max_age now tok =
     (if tok_sig tok \<noteq> sign secret salt (tok_payload tok) (tok_ts tok) then Inl BadSignature
      else
        (let age = now - tok_ts tok
         in if age > max_age then Inl SignatureExpired
            else if age < 0 then Inl SignatureExpired
            else Inr (tok_payload tok)))"

section \<open>The application's tokens\<close>

text \<open>
  \<open>SECRET_KEY = os.getenv('SECRET_KEY', '...')\<close> (config.py line 5): the environment's
  value, or a default that is part of the published source.
\<close>

definition default_secret_key :: string where
  "default_secret_key = ''f04ea855c1e38c32165e2c81d97abda5''"

definition config_secret_key :: "(string \<Rightarrow> string option) \<Rightarrow> string" where
  "config_secret_key getenv =
     (case getenv ''SECRET_KEY'' of Some v \<Rightarrow> v | None \<Rightarrow> default_secret_key)"

definition confirmation_salt :: string where
  "confirmation_salt = ''email-confirmation-salt''"

text \<open>\<open>generate_token(email)\<close> (email_utils.py lines 7--10).\<close>

definition generate_token :: "string \<Rightarrow> int \<Rightarrow> string \<Rightarrow> token" where
  "generate_token secret now email = dumps secret confirmation_salt email now"

text \<open>
  \<open>confirm_token(token, expiration=3600)\<close> (lines 13--19): the e-mail, or \<open>False\<close>
  (here \<open>None\<close>) when \<open>loads\<close> raises either exception.
\<close>

definition default_expiration :: int where
  "default_expiration = 3600"

definition confirm_token :: "string \<Rightarrow> int \<Rightarrow> token \<Rightarrow> int \<Rightarrow> string option" where
  "confirm_token secret now tok expiration =
     (case loads secret confirmation_salt expiration now tok of
        Inl _ \<Rightarrow> None
      | Inr email \<Rightarrow> Some email)"

section \<open>Lemmas\<close>

lemma sign_eq_iff [simp]:
  "sign secret salt p ts = sign secret' salt' p' ts' \<longleftrightarrow>
     secret = secret' \<and> salt = salt' \<and> p = p' \<and> ts = ts'"
  by (simp add: sign_def derive_key_def)

lemma loads_dumps:
  "loads secret salt max_age now (dumps secret salt obj t) =
     (if max_age < now - t \<or> now - t < 0 then Inl SignatureExpired else Inr obj)"
  by (simp add: loads_def dumps_def Let_def)

lemma loads_Inr:
  "loads secret salt max_age now tok = Inr p \<Longrightarrow>
     tok = dumps secret salt p (tok_ts tok) \<and> 0 \<le> now - tok_ts tok \<and> now - tok_ts tok \<le> max_age"
  by (auto simp: loads_def dumps_def Let_def split: if_splits)

lemma confirm_token_Some:
  "confirm_token secret now tok exp = Some e \<longleftrightarrow> loads secret confirmation_salt exp now tok = Inr e"
  by (simp add: confirm_token_def split: sum.splits)

lemma confirm_generate:
  "confirm_token secret now (generate_token secret t e) exp =
     (if 0 \<le> now - t \<and> now - t \<le> exp then Some e else None)"
  by (auto simp: confirm_token_def generate_token_def loads_dumps)

section \<open>An attacker without the key\<close>

text \<open>
  Tokens the application has issued, for a list of (e-mail, issue time) pairs, and the
  tokens an attacker can assemble: any payload and timestamp, with a signature copied
  from a token it has seen or computed under a secret it knows.
\<close>

definition issued :: "string \<Rightarrow> (string \<times> int) list \<Rightarrow> token list" where
  "issued secret L = map (\<lambda>(e, t). generate_token secret t e) L"

fun sig_secret :: "signature \<Rightarrow> string" where
  "sig_secret (Mac (DerivedKey s _) _ _) = s"

definition attacker_builds :: "token list \<Rightarrow> string list \<Rightarrow> token \<Rightarrow> bool" where
  "attacker_builds known atk tok \<longleftrightarrow>
     tok_sig tok \<in> set (map tok_sig known) \<or> sig_secret (tok_sig tok) \<in> set atk"

section \<open>Properties\<close>

text \<open>
  C6. Round trip: a token issued at time \<open>t\<close> for an e-mail is accepted by
  \<open>confirm_token\<close> under the same key, at any time from \<open>t\<close> to \<open>t + expiration\<close>
  inclusive, and yields the same e-mail.
\<close>

theorem confirm_token_roundtrip:
  assumes "0 \<le> now - t" and "now - t \<le> expiration"
  shows "confirm_token secret now (generate_token secret t email) expiration = Some email"
  using assms by (simp add: confirm_generate)

theorem confirm_token_roundtrip_witness:
  "0 \<le> (10::int) - 0 \<and> (10::int) - 0 \<le> default_expiration \<and>
   confirm_token ''k'' 10 (generate_token ''k'' 0 ''a@b.com'') default_expiration = Some ''a@b.com''"
  using confirm_token_roundtrip [of 10 0 default_expiration "''k''" "''a@b.com''"]
  by (simp add: default_expiration_def)

text \<open>
  C7. Expiry: a token presented more than \<open>expiration\<close> seconds after it was issued,
  or before it was issued, is rejected: \<open>confirm_token\<close> returns \<open>False\<close> (here
  \<open>None\<close>), the same value it returns for a bad signature.
\<close>

theorem confirm_token_expired:
  assumes "expiration < now - t \<or> now < t"
  shows "confirm_token secret now (generate_token secret t email) expiration = None"
  using assms by (auto simp: confirm_generate)

theorem confirm_token_expired_witness:
  "(3600::int) < 3601 - 0 \<and>
   confirm_token ''k'' 3601 (generate_token ''k'' 0 ''a@b.com'') 3600 = None"
  using confirm_token_expired [of 3600 3601 0 "''k''" "''a@b.com''"] by simp

text \<open>
  C8. Purpose and key binding: a confirmation token is rejected with
  \<open>BadSignature\<close> by a serializer with another salt (another purpose) or another
  secret key, whatever its age.
\<close>

theorem token_purpose_bound:
  assumes "salt \<noteq> confirmation_salt \<or> secret' \<noteq> secret"
  shows "loads secret' salt max_age now (generate_token secret t email) = Inl BadSignature"
  using assms by (auto simp: loads_def generate_token_def dumps_def)

theorem token_purpose_bound_witness:
  "''password-reset-salt'' \<noteq> confirmation_salt \<and>
   loads ''k'' ''password-reset-salt'' 3600 10 (generate_token ''k'' 0 ''a@b.com'') = Inl BadSignature"
  using token_purpose_bound [of "''password-reset-salt''" "''k''" "''k''" 3600 10 0 "''a@b.com''"]
  by (simp add: confirmation_salt_def)

text \<open>
  C9. Unforgeability: an attacker who does not know the secret, and who assembles a
  token from the tokens the application issued and from signatures under secrets of
  its own, gets a token accepted only by replaying an issued one unchanged: the
  accepted e-mail and timestamp are those of an issued token.
\<close>

theorem token_unforgeable:
  assumes "secret \<notin> set atk"
    and "attacker_builds (issued secret L) atk tok"
    and "confirm_token secret now tok expiration = Some email"
  shows "(email, tok_ts tok) \<in> set L \<and> tok = generate_token secret (tok_ts tok) email"
proof -
  have tok: "tok = dumps secret confirmation_salt email (tok_ts tok)"
    using assms(3) loads_Inr by (auto simp: confirm_token_Some)
  then have sig: "tok_sig tok = sign secret confirmation_salt email (tok_ts tok)"
    by (metis token.select_convs(3) dumps_def)
  have "sig_secret (tok_sig tok) = secret"
    by (simp add: sig sign_def derive_key_def)
  with assms(1,2) have "tok_sig tok \<in> set (map tok_sig (issued secret L))"
    by (auto simp: attacker_builds_def)
  then have "(email, tok_ts tok) \<in> set L"
    by (auto simp: sig issued_def generate_token_def dumps_def)
  with tok show ?thesis by (simp add: generate_token_def)
qed

theorem token_unforgeable_witness:
  "''k'' \<notin> set [''guess''] \<and>
   attacker_builds (issued ''k'' [(''a@b.com'', 0)]) [''guess''] (generate_token ''k'' 0 ''a@b.com'') \<and>
   confirm_token ''k'' 10 (generate_token ''k'' 0 ''a@b.com'') 3600 = Some ''a@b.com'' \<and>
   (''a@b.com'', 0) \<in> set [(''a@b.com'', 0::int)]"
proof -
  have b: "attacker_builds (issued ''k'' [(''a@b.com'', 0)]) [''guess''] (generate_token ''k'' 0 ''a@b.com'')"
    by (simp add: attacker_builds_def issued_def)
  have c: "confirm_token ''k'' 10 (generate_token ''k'' 0 ''a@b.com'') 3600 = Some ''a@b.com''"
    by (simp add: confirm_generate)
  show ?thesis
    using token_unforgeable [of "''k''" "[''guess'']" "[(''a@b.com'', 0)]", OF _ b c] b c
    by (simp add: generate_token_def dumps_def)
qed

text \<open>
  The expiry window the code enforces is one hour (\<open>expiration=3600\<close>), while the
  verification e-mail of \<open>send_verification_email\<close> tells the user that the link
  expires in 24 hours: a link opened after one hour and one second is already rejected.
\<close>

theorem confirm_token_one_hour_window:
  "confirm_token secret (t + 3601) (generate_token secret t email) default_expiration = None \<and>
   (3601::int) < 24 * 3600"
  by (simp add: confirm_generate default_expiration_def)

text \<open>
  C14. When the environment does not set \<open>SECRET_KEY\<close>, the key is the default
  written in the published \<open>config.py\<close>, and anyone who reads it can mint a
  confirmation token for any e-mail that \<open>confirm_token\<close> accepts.
\<close>

theorem default_secret_key_forgeable:
  assumes "getenv ''SECRET_KEY'' = None" and "0 \<le> now - t" and "now - t \<le> expiration"
  shows "confirm_token (config_secret_key getenv) now
           (dumps ''f04ea855c1e38c32165e2c81d97abda5'' ''email-confirmation-salt'' email t) expiration = Some email"
  using assms
  by (simp add: config_secret_key_def default_secret_key_def confirm_token_def confirmation_salt_def loads_dumps)

theorem default_secret_key_forgeable_witness:
  "Map.empty ''SECRET_KEY'' = (None :: string option) \<and> 0 \<le> (5::int) - 0 \<and> (5::int) - 0 \<le> 3600 \<and>
   confirm_token (config_secret_key Map.empty) 5
     (dumps ''f04ea855c1e38c32165e2c81d97abda5'' ''email-confirmation-salt'' ''victim@example.com'' 0) 3600
   = Some ''victim@example.com''"
  using default_secret_key_forgeable [of Map.empty 5 0 3600 "''victim@example.com''"] by simp

end
