(* ===== verification/PyStr.thy ===== *)
theory PyStr
  imports Prelude
begin

text \<open>
  The Python string methods the handlers apply to form input: \<open>str.strip()\<close>,
  \<open>str.lower()\<close> and \<open>str.split(' ')\<close>, on the characters \<open>char\<close> can hold
  (code points 0--255, the Latin-1 range). Python's \<open>str.isspace\<close> holds there for the
  ASCII controls 9--13 and 28--31, the space, U+0085 and U+00A0; \<open>str.lower\<close> maps
  A--Z and the Latin-1 capitals U+00C0--U+00DE except U+00D7 to their small letters.
\<close>

definition py_isspace :: "char \<Rightarrow> bool" where
  "py_isspace c =
     (let n = (of_char c :: nat) in (9 \<le> n \<and> n \<le> 13) \<or> (28 \<le> n \<and> n \<le> 32) \<or> n = 133 \<or> n = 160)"

definition py_strip :: "string \<Rightarrow> string" where
  "py_strip s = rev (dropWhile py_isspace (rev (dropWhile py_isspace s)))"

definition py_lower_char :: "char \<Rightarrow> char" where
  "py_lower_char c =
     (let n = (of_char c :: nat)
      in if (65 \<le> n \<and> n \<le> 90) \<or> (192 \<le> n \<and> n \<le> 222 \<and> n \<noteq> 215) then char_of (n + 32) else c)"

definition py_lower :: "string \<Rightarrow> string" where
  "py_lower s = map py_lower_char s"

text \<open>\<open>email.strip().lower()\<close>, as the handlers normalise an e-mail address.\<close>

definition normalize_email :: "string \<Rightarrow> string" where
  "normalize_email s = py_lower (py_strip s)"

text \<open>
  \<open>s.split(' ')\<close>: the pieces between single spaces, empty pieces kept, so that
  \<open>''.split(' ')\<close> is \<open>['']\<close>.
\<close>

fun py_split_space :: "string \<Rightarrow> string list" where
  "py_split_space [] = [[]]"
| "py_split_space (c # cs) =
     (if c = CHR '' '' then [] # py_split_space cs
      else (case py_split_space cs of w # ws \<Rightarrow> (c # w) # ws | [] \<Rightarrow> [[c]]))"

section \<open>Lemmas\<close>

lemma py_lower_char_cases:
  "py_lower_char c = c \<or>
   (of_char (py_lower_char c) :: nat) = of_char c + 32 \<and>
   ((65 \<le> (of_char c :: nat) \<and> (of_char c :: nat) \<le> 90) \<or>
    (192 \<le> (of_char c :: nat) \<and> (of_char c :: nat) \<le> 222 \<and> (of_char c :: nat) \<noteq> 215))"
  by (auto simp: py_lower_char_def Let_def)

lemma py_lower_char_idem [simp]: "py_lower_char (py_lower_char c) = py_lower_char c"
proof (cases "py_lower_char c = c")
  case True
  then show ?thesis by simp
next
  case False
  then have n: "(of_char (py_lower_char c) :: nat) = of_char c + 32"
    and r: "(65 \<le> (of_char c :: nat) \<and> (of_char c :: nat) \<le> 90) \<or>
            (192 \<le> (of_char c :: nat) \<and> (of_char c :: nat) \<le> 222 \<and> (of_char c :: nat) \<noteq> 215)"
    using py_lower_char_cases [of c] by auto
  have "\<not> ((65 \<le> (of_char (py_lower_char c) :: nat) \<and> (of_char (py_lower_char c) :: nat) \<le> 90) \<or>
           (192 \<le> (of_char (py_lower_char c) :: nat) \<and> (of_char (py_lower_char c) :: nat) \<le> 222 \<and>
            (of_char (py_lower_char c) :: nat) \<noteq> 215))"
    using n r by auto
  then show ?thesis unfolding py_lower_char_def [of "py_lower_char c"] Let_def by auto
qed

lemma py_isspace_lower [simp]: "py_isspace (py_lower_char c) = py_isspace c"
  using py_lower_char_cases [of c] by (auto simp: py_isspace_def Let_def)

lemma py_lower_idem [simp]: "py_lower (py_lower s) = py_lower s"
  by (simp add: py_lower_def comp_def)

lemma length_py_lower [simp]: "length (py_lower s) = length s"
  by (simp add: py_lower_def)

lemma dropWhile_map_inv:
  "(\<And>x. P (f x) = P x) \<Longrightarrow> dropWhile P (map f xs) = map f (dropWhile P xs)"
  by (induction xs) auto

lemma py_strip_lower: "py_strip (py_lower s) = py_lower (py_strip s)"
  by (simp add: py_strip_def py_lower_def dropWhile_map_inv rev_map)

lemma dropWhile_idem [simp]: "dropWhile P (dropWhile P xs) = dropWhile P xs"
  by (induction xs) auto

lemma dropWhile_hd: "dropWhile P xs \<noteq> [] \<Longrightarrow> \<not> P (hd (dropWhile P xs))"
  by (induction xs) auto

lemma last_dropWhile: "dropWhile P xs \<noteq> [] \<Longrightarrow> last (dropWhile P xs) = last xs"
  by (induction xs) auto

lemma py_strip_idem [simp]: "py_strip (py_strip s) = py_strip s"
proof -
  let ?A = "dropWhile py_isspace s"
  let ?B = "dropWhile py_isspace (rev ?A)"
  have "dropWhile py_isspace (rev ?B) = rev ?B"
  proof (cases "?B = []")
    case True
    then show ?thesis by (metis dropWhile.simps(1) rev.simps(1))
  next
    case False
    then have "?A \<noteq> []" by (metis dropWhile.simps(1) rev.simps(1))
    then have "\<not> py_isspace (hd ?A)" by (rule dropWhile_hd)
    moreover have "hd (rev ?B) = hd ?A"
      using False by (simp add: hd_rev last_dropWhile last_rev)
    ultimately show ?thesis by (simp add: dropWhile_eq_self_iff)
  qed
  then show ?thesis by (simp add: py_strip_def)
qed

lemma normalize_email_idem [simp]: "normalize_email (normalize_email s) = normalize_email s"
  by (simp add: normalize_email_def py_strip_lower)

lemma normalize_email_Nil [simp]: "normalize_email s = [] \<longleftrightarrow> py_strip s = []"
  unfolding normalize_email_def by (metis length_py_lower length_0_conv)

end
