(* ===== verification/PyInt.thy ===== *)
theory PyInt
  imports PyStr
begin

text \<open>
  Python's conversions between integers and their decimal strings: \<open>str(n)\<close> and
  \<open>int(s)\<close>. \<open>int(s)\<close> strips surrounding whitespace, takes an optional sign, and
  reads decimal digits, single underscores allowed between digits; anything else raises
  \<open>ValueError\<close> (here \<open>None\<close>).
\<close>

definition py_isdigit :: "char \<Rightarrow> bool" where
  "py_isdigit c \<longleftrightarrow> 48 \<le> (of_char c :: nat) \<and> (of_char c :: nat) \<le> 57"

definition digit_of :: "nat \<Rightarrow> char" where
  "digit_of d = char_of (48 + d)"

fun py_str_nat :: "nat \<Rightarrow> string" where
  "py_str_nat n = (if n < 10 then [digit_of n] else py_str_nat (n div 10) @ [digit_of (n mod 10)])"

declare py_str_nat.simps [simp del]

definition py_str_int :: "int \<Rightarrow> string" where
  "py_str_int i = (if i < 0 then CHR ''-'' # py_str_nat (nat (- i)) else py_str_nat (nat i))"

definition decimal_value :: "string \<Rightarrow> int" where
  "decimal_value s = foldl (\<lambda>n c. 10 * n + (int (of_char c) - 48)) 0 s"

text \<open>Digits with single underscores between them.\<close>

fun digit_groups_ok :: "string \<Rightarrow> bool" where
  "digit_groups_ok [] = False"
| "digit_groups_ok [c] = py_isdigit c"
| "digit_groups_ok (c # d # cs) =
     (py_isdigit c \<and> (if d = CHR ''_'' then cs \<noteq> [] \<and> py_isdigit (hd cs) \<and> digit_groups_ok cs
                       else digit_groups_ok (d # cs)))"

definition py_int_parse :: "string \<Rightarrow> int option" where
  "py_int_parse s =
     (let t = py_strip s;
          (neg, b) = (case t of
                        c # r \<Rightarrow> if c = CHR ''-'' then (True, r) else if c = CHR ''+'' then (False, r) else (False, t)
                      | [] \<Rightarrow> (False, []))
      in if digit_groups_ok b
         then Some ((if neg then -1 else 1) * decimal_value (filter (\<lambda>c. c \<noteq> CHR ''_'') b))
         else None)"

lemma of_char_digit_of [simp]: "d < 10 \<Longrightarrow> (of_char (digit_of d) :: nat) = 48 + d"
  by (simp add: digit_of_def of_char_of)

lemma py_isdigit_digit_of [simp]: "d < 10 \<Longrightarrow> py_isdigit (digit_of d)"
  by (simp add: py_isdigit_def)

lemma py_str_nat_not_Nil [simp]: "py_str_nat n \<noteq> []"
  by (induction n rule: py_str_nat.induct) (subst py_str_nat.simps, simp)

lemma py_str_nat_digits: "c \<in> set (py_str_nat n) \<Longrightarrow> py_isdigit c"
proof (induction n rule: py_str_nat.induct)
  case (1 n)
  then show ?case by (subst (asm) py_str_nat.simps) (auto split: if_splits)
qed

lemma py_isdigit_not_special:
  "py_isdigit c \<Longrightarrow> c \<noteq> CHR ''_'' \<and> c \<noteq> CHR ''-'' \<and> c \<noteq> CHR ''+'' \<and> \<not> py_isspace c"
  by (auto simp: py_isdigit_def py_isspace_def)

lemma digit_groups_ok_digits:
  "xs \<noteq> [] \<Longrightarrow> (\<forall>c \<in> set xs. py_isdigit c) \<Longrightarrow> digit_groups_ok xs"
  by (induction xs rule: digit_groups_ok.induct) (auto dest: py_isdigit_not_special)

lemma decimal_value_snoc:
  "decimal_value (xs @ [c]) = 10 * decimal_value xs + (int (of_char c) - 48)"
  by (simp add: decimal_value_def)

lemma decimal_value_py_str_nat: "decimal_value (py_str_nat n) = int n"
proof (induction n rule: py_str_nat.induct)
  case (1 n)
  show ?case
  proof (cases "n < 10")
    case True
    then show ?thesis by (subst py_str_nat.simps) (simp add: decimal_value_def)
  next
    case False
    then have "decimal_value (py_str_nat n) = 10 * int (n div 10) + int (n mod 10)"
      using 1 by (subst py_str_nat.simps) (simp add: decimal_value_snoc)
    also have "\<dots> = int n"
      using div_mult_mod_eq [of n 10] by (metis of_nat_add of_nat_mult of_nat_numeral mult.commute)
    finally show ?thesis .
  qed
qed

lemma py_strip_no_space: "\<forall>c \<in> set s. \<not> py_isspace c \<Longrightarrow> py_strip s = s"
proof -
  assume a: "\<forall>c \<in> set s. \<not> py_isspace c"
  then have "dropWhile py_isspace s = s" by (cases s) auto
  moreover have "dropWhile py_isspace (rev s) = rev s" using a by (cases "rev s") auto
  ultimately show ?thesis by (simp add: py_strip_def)
qed

lemma py_str_nat_all_digits: "\<forall>c \<in> set (py_str_nat n). py_isdigit c"
  using py_str_nat_digits by blast

lemma py_strip_py_str_nat [simp]: "py_strip (py_str_nat n) = py_str_nat n"
  using py_str_nat_all_digits by (auto intro: py_strip_no_space dest: py_isdigit_not_special)

lemma digit_groups_ok_py_str_nat [simp]: "digit_groups_ok (py_str_nat n)"
  using py_str_nat_all_digits by (simp add: digit_groups_ok_digits)

lemma filter_py_str_nat [simp]: "filter (\<lambda>c. c \<noteq> CHR ''_'') (py_str_nat n) = py_str_nat n"
  unfolding filter_id_conv using py_str_nat_all_digits py_isdigit_not_special by blast

lemma py_str_nat_unsigned:
  "(case py_str_nat n of
      c # r \<Rightarrow> if c = CHR ''-'' then (True, r) else if c = CHR ''+'' then (False, r) else (False, py_str_nat n)
    | [] \<Rightarrow> (False, [])) = (False, py_str_nat n)"
proof (cases "py_str_nat n")
  case Nil
  then show ?thesis by simp
next
  case (Cons c r)
  then have "c \<noteq> CHR ''-'' \<and> c \<noteq> CHR ''+''"
    using py_str_nat_all_digits [of n] py_isdigit_not_special by force
  then show ?thesis using Cons by simp
qed

lemma py_int_parse_py_str_nat: "py_int_parse (py_str_nat n) = Some (int n)"
  unfolding py_int_parse_def Let_def py_strip_py_str_nat py_str_nat_unsigned
  by (simp add: decimal_value_py_str_nat)

lemma py_strip_minus_py_str_nat: "py_strip (CHR ''-'' # py_str_nat n) = CHR ''-'' # py_str_nat n"
proof (rule py_strip_no_space)
  have "\<not> py_isspace (CHR ''-'')" by (simp add: py_isspace_def)
  then show "\<forall>c \<in> set (CHR ''-'' # py_str_nat n). \<not> py_isspace c"
    using py_str_nat_all_digits [of n] py_isdigit_not_special by auto
qed

lemma py_int_parse_minus: "py_int_parse (CHR ''-'' # py_str_nat n) = Some (- int n)"
  unfolding py_int_parse_def Let_def py_strip_minus_py_str_nat
  by (simp add: decimal_value_py_str_nat)

text \<open>Round trip: \<open>int(str(i)) == i\<close> for every integer.\<close>

lemma py_int_parse_py_str_int [simp]: "py_int_parse (py_str_int i) = Some i"
  by (simp add: py_str_int_def py_int_parse_py_str_nat py_int_parse_minus)

end
