(* ===== verification/Config.thy ===== *)
theory Config
  imports Reminders Tokens PyInt
begin

text \<open>
  Configuration read from the environment when a module is imported: the class
  \<open>Config\<close> of \<open>src/focusflow/config.py\<close>, which \<open>create_app\<close> loads; the second
  class \<open>Config\<close> that \<open>src/focusflow/email_utils.py\<close> defines (lines 45--59) and nothing
  reads; the settings of \<open>src/run.py\<close>; and \<open>src/reset_db.py\<close>. The environment is a
  partial map from variable names to strings. A class body runs at import, so its
  \<open>ValueError\<close> aborts the import of its module.
\<close>

section \<open>Reading the environment\<close>

text \<open>\<open>os.getenv(k, d)\<close> for a string default \<open>d\<close>.\<close>

definition getenv_or :: "(string \<Rightarrow> string option) \<Rightarrow> string \<Rightarrow> string \<Rightarrow> string" where
  "getenv_or getenv k d = (case getenv k of Some v \<Rightarrow> v | None \<Rightarrow> d)"

text \<open>
  \<open>int(os.getenv(k, d))\<close> for an integer default \<open>d\<close>: the default is an \<open>int\<close> and
  passes through \<open>int()\<close>; a value from the environment is parsed.
\<close>

definition getenv_int :: "(string \<Rightarrow> string option) \<Rightarrow> string \<Rightarrow> int \<Rightarrow> py_exc + int" where
  "getenv_int getenv k d =
     (case getenv k of
        None \<Rightarrow> Inr d
      | Some v \<Rightarrow> (case py_int_parse v of None \<Rightarrow> Inl (ValueError k) | Some n \<Rightarrow> Inr n))"

section \<open>config.py\<close>

record app_config =
  cfg_secret_key :: string
  cfg_app_base_url :: string
  cfg_database_uri :: string
  cfg_mail_server :: string
  cfg_mail_port :: int
  cfg_mail_use_tls :: bool
  cfg_mail_use_ssl :: bool
  cfg_mail_username :: string
  cfg_mail_password :: string
  cfg_mail_default_sender :: string
  cfg_track_modifications :: bool

text \<open>The class body of \<open>Config\<close> (config.py lines 4--19), in its order.\<close>

definition load_config :: "(string \<Rightarrow> string option) \<Rightarrow> py_exc + app_config" where
  "load_config getenv =
     (case getenv_int getenv ''MAIL_PORT'' 587 of
        Inl e \<Rightarrow> Inl e
      | Inr port \<Rightarrow>
          Inr \<lparr>cfg_secret_key = getenv_or getenv ''SECRET_KEY'' default_secret_key,
               cfg_app_base_url = ''http://localhost:5000'',
               cfg_database_uri = getenv_or getenv ''DATABASE_URL'' ''sqlite:///focusflow.db'',
               cfg_mail_server = getenv_or getenv ''MAIL_SERVER'' ''smtp.gmail.com'',
               cfg_mail_port = port,
               cfg_mail_use_tls = (getenv_or getenv ''MAIL_USE_TLS'' ''True'' = ''True''),
               cfg_mail_use_ssl = (getenv_or getenv ''MAIL_USE_SSL'' ''False'' = ''True''),
               cfg_mail_username = getenv_or getenv ''MAIL_USERNAME'' ''joanouma48@gmail.com'',
               cfg_mail_password = getenv_or getenv ''MAIL_PASSWORD'' ''ebkruluctoquogly'',
               cfg_mail_default_sender = getenv_or getenv ''MAIL_DEFAULT_SENDER'' ''joanouma48@gmail.com'',
               cfg_track_modifications = False\<rparr>)"

section \<open>The second Config of email_utils.py\<close>

record mail_config =
  mc_server :: string
  mc_port :: int
  mc_use_tls :: bool
  mc_use_ssl :: bool
  mc_username :: "string option"
  mc_password :: "string option"
  mc_default_sender :: "string option"
  mc_debug :: bool
  mc_suppress_send :: bool

text \<open>
  Lines 45--59: the flags compare \<open>value.lower()\<close> with \<open>'true'\<close>; the sender is
  \<open>MAIL_DEFAULT_SENDER or MAIL_USERNAME\<close>, where an empty string is falsy.
\<close>

definition mail_flag :: "(string \<Rightarrow> string option) \<Rightarrow> string \<Rightarrow> string \<Rightarrow> bool" where
  "mail_flag getenv k d \<longleftrightarrow> py_lower (getenv_or getenv k d) = ''true''"

definition email_utils_config :: "(string \<Rightarrow> string option) \<Rightarrow> py_exc + mail_config" where
  "email_utils_config getenv =
     (case getenv_int getenv ''MAIL_PORT'' 587 of
        Inl e \<Rightarrow> Inl e
      | Inr port \<Rightarrow>
          Inr \<lparr>mc_server = getenv_or getenv ''MAIL_SERVER'' ''smtp.gmail.com'',
               mc_port = port,
               mc_use_tls = mail_flag getenv ''MAIL_USE_TLS'' ''True'',
               mc_use_ssl = mail_flag getenv ''MAIL_USE_SSL'' ''False'',
               mc_username = getenv ''MAIL_USERNAME'',
               mc_password = getenv ''MAIL_PASSWORD'',
               mc_default_sender =
                 (case getenv ''MAIL_DEFAULT_SENDER'' of
                    Some v \<Rightarrow> if v \<noteq> [] then Some v else getenv ''MAIL_USERNAME''
                  | None \<Rightarrow> getenv ''MAIL_USERNAME''),
               mc_debug = mail_flag getenv ''MAIL_DEBUG'' ''False'',
               mc_suppress_send = mail_flag getenv ''MAIL_SUPPRESS_SEND'' ''False''\<rparr>)"

section \<open>run.py and reset_db.py\<close>

text \<open>
  \<open>run.py\<close> (lines 4--9): the application is created at import; under \<open>__main__\<close>
  the port is \<open>int(os.environ.get('PORT', 5000))\<close> and debugging is on exactly when
  \<open>FLASK_ENV\<close> is \<open>development\<close>.
\<close>

definition run_settings :: "(string \<Rightarrow> string option) \<Rightarrow> py_exc + int \<times> bool" where
  "run_settings getenv =
     (case getenv_int getenv ''PORT'' 5000 of
        Inl e \<Rightarrow> Inl e
      | Inr port \<Rightarrow> Inr (port, getenv ''FLASK_ENV'' = Some ''development''))"

text \<open>
  \<open>reset_db.py\<close>: \<open>create_app()\<close> (which starts the scheduler; an exception ends the
  script), then the file \<open>focusflow.db\<close> of the instance folder is deleted and
  \<open>db.create_all()\<close> creates the missing tables. The file is the application's database
  only when \<open>SQLALCHEMY_DATABASE_URI\<close> is the default \<open>sqlite:///focusflow.db\<close>;
  with another database \<open>create_all\<close> finds the tables and keeps their rows.
\<close>

definition reset_db ::
  "tick_env \<Rightarrow> (string \<Rightarrow> string option) \<Rightarrow> sched \<Rightarrow> db \<Rightarrow> py_exc + (sched \<times> log_entry list) \<times> db" where
  "reset_db env getenv s d =
     (case create_app env s of
        None \<Rightarrow> Inl ConfigError
      | Some sl \<Rightarrow>
          Inr (sl, if getenv_or getenv ''DATABASE_URL'' ''sqlite:///focusflow.db'' = ''sqlite:///focusflow.db''
                   then empty_db else d))"

section \<open>Lemmas\<close>

lemma getenv_int_Inl: "getenv_int getenv k d = Inl e \<longleftrightarrow>
    e = ValueError k \<and> (\<exists>v. getenv k = Some v \<and> py_int_parse v = None)"
  by (auto simp: getenv_int_def split: option.splits)

lemma getenv_int_Inr: "getenv_int getenv k d = Inr n \<longleftrightarrow>
    (getenv k = None \<and> n = d) \<or> (\<exists>v. getenv k = Some v \<and> py_int_parse v = Some n)"
  by (auto simp: getenv_int_def split: option.splits)

section \<open>Properties\<close>

text \<open>
  C36. Loading the configuration: \<open>config.py\<close> raises \<open>ValueError\<close> exactly when
  \<open>MAIL_PORT\<close> is set to something \<open>int()\<close> rejects, and so does the import of
  \<open>email_utils.py\<close>; otherwise the port is the parsed value or 587, the secret key is
  \<open>Tokens.config_secret_key\<close>, and TLS is on for \<open>MAIL_USE_TLS\<close> unset or exactly
  \<open>True\<close> in \<open>config.py\<close>, but for any capitalisation of \<open>true\<close> in email_utils'
  unused class: \<open>MAIL_USE_TLS=true\<close> turns TLS off in the application.
\<close>

theorem load_config_behaviour:
  "((\<exists>e. load_config getenv = Inl e) \<longleftrightarrow> (\<exists>v. getenv ''MAIL_PORT'' = Some v \<and> py_int_parse v = None)) \<and>
   ((\<exists>e. email_utils_config getenv = Inl e) \<longleftrightarrow> (\<exists>e. load_config getenv = Inl e)) \<and>
   (\<forall>c m. load_config getenv = Inr c \<longrightarrow> email_utils_config getenv = Inr m \<longrightarrow>
      cfg_mail_port c = mc_port m \<and>
      (getenv ''MAIL_PORT'' = None \<longrightarrow> cfg_mail_port c = 587) \<and>
      cfg_secret_key c = config_secret_key getenv \<and>
      (cfg_mail_use_tls c \<longleftrightarrow> getenv ''MAIL_USE_TLS'' = None \<or> getenv ''MAIL_USE_TLS'' = Some ''True'') \<and>
      (mc_use_tls m \<longleftrightarrow> py_lower (getenv_or getenv ''MAIL_USE_TLS'' ''True'') = ''true''))"
  by (auto simp: load_config_def email_utils_config_def getenv_int_def getenv_or_def mail_flag_def
                 config_secret_key_def split: option.splits)

theorem load_config_behaviour_witness:
  "\<exists>c m. load_config [''MAIL_USE_TLS'' \<mapsto> ''true''] = Inr c \<and>
         email_utils_config [''MAIL_USE_TLS'' \<mapsto> ''true''] = Inr m \<and>
         cfg_mail_port c = 587 \<and> \<not> cfg_mail_use_tls c \<and> mc_use_tls m"
proof -
  let ?g = "[''MAIL_USE_TLS'' \<mapsto> ''true'']"
  obtain c where c: "load_config ?g = Inr c"
    by (simp add: load_config_def getenv_int_def)
  obtain m where m: "email_utils_config ?g = Inr m"
    by (simp add: email_utils_config_def getenv_int_def)
  have l: "py_lower ''true'' = ''true''" by code_simp
  have "cfg_mail_port c = mc_port m \<and> (?g ''MAIL_PORT'' = None \<longrightarrow> cfg_mail_port c = 587) \<and>
        cfg_secret_key c = config_secret_key ?g \<and>
        (cfg_mail_use_tls c \<longleftrightarrow> ?g ''MAIL_USE_TLS'' = None \<or> ?g ''MAIL_USE_TLS'' = Some ''True'') \<and>
        (mc_use_tls m \<longleftrightarrow> py_lower (getenv_or ?g ''MAIL_USE_TLS'' ''True'') = ''true'')"
    using load_config_behaviour [of ?g] c m by blast
  then show ?thesis using c m l by (auto simp: getenv_or_def)
qed

end
