(* ===== verification/Startup.thy ===== *)
theory Startup
  imports Config
begin

text \<open>
  \<open>create_app()\<close> of \<open>src/focusflow/__init__.py\<close> (lines 17--80) in full, with the
  state it reads and changes across calls: whether Firebase Admin has an initialised app
  (\<open>firebase_admin._apps\<close>) and the scheduler. The reminder job calls it on every run,
  so this is also what decides the \<open>tick_env\<close> of \<open>Reminders\<close>. Loading \<open>.env\<close>,
  creating the instance folder, the extensions and the blueprint keep no state the model
  reads; \<open>db.create_all()\<close> catches its own errors.
\<close>

section \<open>The Firebase credential\<close>

text \<open>\<open>s.replace("\\\\n", "\\n")\<close>: each backslash-n pair becomes a newline, left to right.\<close>

fun unescape_newlines :: "string \<Rightarrow> string" where
  "unescape_newlines [] = []"
| "unescape_newlines [c] = [c]"
| "unescape_newlines (c # d # cs) =
     (if c = CHR 0x5C \<and> d = CHR ''n'' then CHR 0x0A # unescape_newlines cs
      else c # unescape_newlines (d # cs))"

text \<open>
  \<open>credentials.Certificate(service_account_info)\<close> (lines 30--42): it raises
  \<open>ValueError\<close> unless the \<open>type\<close> field is \<open>service_account\<close>, and the signer built from
  \<open>private_key\<close> raises unless the key parses; whether a PEM text parses is the
  parameter \<open>pem_ok\<close>. A missing \<open>FIREBASE_PRIVATE_KEY\<close> gives the key \<open>None\<close>.
\<close>

definition firebase_private_key :: "(string \<Rightarrow> string option) \<Rightarrow> string option" where
  "firebase_private_key getenv = map_option unescape_newlines (getenv ''FIREBASE_PRIVATE_KEY'')"

definition certificate_ok :: "(string \<Rightarrow> string option) \<Rightarrow> (string \<Rightarrow> bool) \<Rightarrow> bool" where
  "certificate_ok getenv pem_ok \<longleftrightarrow>
     getenv ''FIREBASE_TYPE'' = Some ''service_account'' \<and>
     (case firebase_private_key getenv of None \<Rightarrow> False | Some k \<Rightarrow> pem_ok k)"

section \<open>create_app\<close>

text \<open>
  The state \<open>create_app\<close> carries between calls: the module-level Firebase app registry
  and the scheduler.
\<close>

record proc =
  fb_initialised :: bool
  proc_sched :: sched

definition create_app_full ::
  "(string \<Rightarrow> string option) \<Rightarrow> (string \<Rightarrow> bool) \<Rightarrow> proc \<Rightarrow> py_exc + proc \<times> log_entry list" where
  "create_app_full getenv pem_ok p =
     (case load_config getenv of
        Inl e \<Rightarrow> Inl e
      | Inr cfg \<Rightarrow>
          (if \<not> fb_initialised p \<and> \<not> certificate_ok getenv pem_ok
           then Inl (ValueError ''Failed to initialize a certificate credential'')
           else
             (let (s', l) = start_scheduler (proc_sched p)
              in Inr (\<lparr>fb_initialised = True, proc_sched = s'\<rparr>, l))))"

text \<open>The fault of one run of the job as \<open>Reminders.check_reminders\<close> sees it.\<close>

definition tick_env_of ::
  "(string \<Rightarrow> string option) \<Rightarrow> (string \<Rightarrow> bool) \<Rightarrow> bool \<Rightarrow> proc \<Rightarrow> tick_env" where
  "tick_env_of getenv pem_ok query_ok p =
     (case create_app_full getenv pem_ok p of
        Inl _ \<Rightarrow> AppInitFails
      | Inr _ \<Rightarrow> if query_ok then TickOk else QueryFails)"

section \<open>Properties\<close>

text \<open>
  C20. Starting the application: \<open>create_app()\<close> raises exactly when \<open>config.py\<close>
  raises or Firebase is not yet initialised and the certificate built from the
  environment is rejected; so without Firebase variables the application never starts,
  and once Firebase is initialised only the configuration can make a later call (one per
  run of the job) fail. When it returns, Firebase is initialised and its effect on the
  scheduler and the log is the one \<open>Reminders.create_app\<close> gives a run without fault.
\<close>

theorem create_app_full_behaviour:
  "((\<exists>e. create_app_full getenv pem_ok p = Inl e) \<longleftrightarrow>
      (\<exists>e. load_config getenv = Inl e) \<or> (\<not> fb_initialised p \<and> \<not> certificate_ok getenv pem_ok)) \<and>
   (\<forall>p' l. create_app_full getenv pem_ok p = Inr (p', l) \<longrightarrow>
      fb_initialised p' \<and> create_app TickOk (proc_sched p) = Some (proc_sched p', l))"
  by (auto simp: create_app_full_def create_app_def split: sum.splits prod.splits if_splits)

theorem create_app_full_behaviour_witness:
  "(\<exists>e. create_app_full Map.empty (\<lambda>k. True) \<lparr>fb_initialised = False, proc_sched = init_sched\<rparr> = Inl e) \<and>
   (\<exists>p' l. create_app_full Map.empty (\<lambda>k. True) \<lparr>fb_initialised = True, proc_sched = init_sched\<rparr> = Inr (p', l) \<and>
      fb_initialised p' \<and> create_app TickOk init_sched = Some (proc_sched p', l))"
proof -
  let ?p0 = "\<lparr>fb_initialised = False, proc_sched = init_sched\<rparr>"
  let ?p1 = "\<lparr>fb_initialised = True, proc_sched = init_sched\<rparr>"
  have nc: "\<not> certificate_ok Map.empty (\<lambda>k. True)" by (simp add: certificate_ok_def firebase_private_key_def)
  obtain cfg where lc: "load_config Map.empty = Inr cfg"
    by (simp add: load_config_def getenv_int_def)
  have ok: "create_app_full Map.empty (\<lambda>k. True) ?p1 =
      Inr (\<lparr>fb_initialised = True, proc_sched = fst (start_scheduler init_sched)\<rparr>, snd (start_scheduler init_sched))"
    by (simp add: create_app_full_def lc split: prod.split)
  have "\<exists>e. create_app_full Map.empty (\<lambda>k. True) ?p0 = Inl e"
    using create_app_full_behaviour [of Map.empty "\<lambda>k. True" ?p0] nc by simp
  moreover have "create_app TickOk init_sched = Some (fst (start_scheduler init_sched), snd (start_scheduler init_sched))"
    using create_app_full_behaviour [of Map.empty "\<lambda>k. True" ?p1] ok by simp
  ultimately show ?thesis using ok by auto
qed

end
