(* ===== verification/Web.thy ===== *)
theory Web
  imports Models PyStr
begin

text \<open>
  The web layer the handlers of \<open>src/focusflow/routes.py\<close> run on: the routing
  table of the blueprint \<open>main\<close> and \<open>url_for\<close>, the responses a handler returns,
  flashed messages, and Flask-Login's session (\<open>login_user\<close>, \<open>logout_user\<close>,
  \<open>current_user\<close> loaded by \<open>load_user\<close>, and \<open>@login_required\<close>).
\<close>

section \<open>Routing\<close>

text \<open>The endpoints the blueprint registers (one per \<open>@main.route\<close> of routes.py).\<close>

definition main_endpoints :: "string list" where
  "main_endpoints =
     [''main.protected'', ''main.register'', ''main.login'', ''main.index'', ''main.update'',
      ''main.logout'', ''main.delete'', ''main.resend_verification'', ''main.verify_email'',
      ''main.debug_categories'', ''main.test_simple'', ''main.test_email_route'']"

text \<open>\<open>url_for(endpoint)\<close> raises \<open>BuildError\<close> for an endpoint nobody registered.\<close>

definition url_for :: "string \<Rightarrow> py_exc + string" where
  "url_for ep = (if ep \<in> set main_endpoints then Inr ep else Inl (BuildError ep))"

section \<open>Responses and the session\<close>

datatype response =
    Redirect string                 \<comment> \<open>an endpoint, or the raw \<open>next\<close> URL\<close>
  | Render string                   \<comment> \<open>\<open>render_template(name, ...)\<close>\<close>
  | RenderTasks string "todo list"  \<comment> \<open>a template that lists tasks\<close>
  | Abort nat                       \<comment> \<open>\<open>abort(code)\<close>, \<open>get_or_404\<close>\<close>
  | Json nat string                 \<comment> \<open>\<open>jsonify(...)\<close> with a status code\<close>
  | Text string                     \<comment> \<open>a string returned by the view, status 200\<close>

text \<open>A flashed message: its category and its text (dynamic parts left out).\<close>

type_synonym flash = "string \<times> string"

text \<open>
  The application state a request sees: the database and the user id Flask-Login keeps
  in the session cookie.
\<close>

record app =
  db_of :: db
  session_user :: "int option"

type_synonym result = "app \<times> response \<times> flash list"

text \<open>
  \<open>current_user\<close>: \<open>load_user(user_id)\<close> (\<open>__init__.py\<close> lines 83--85), i.e.
  \<open>User.query.get(int(user_id))\<close>, for the id in the session; anonymous otherwise.
\<close>

definition current_user :: "app \<Rightarrow> user option" where
  "current_user st =
     (case session_user st of None \<Rightarrow> None | Some i \<Rightarrow> first_by uid i (users (db_of st)))"

text \<open>
  \<open>@login_required\<close> with \<open>login_manager.login_view = 'main.login'\<close>: an anonymous
  request is redirected to the login page with Flask-Login's default message.
\<close>

definition unauthorized :: "app \<Rightarrow> result" where
  "unauthorized st =
     (st, Redirect ''main.login'', [(''message'', ''Please log in to access this page.'')])"

definition login_user :: "user \<Rightarrow> app \<Rightarrow> app" where
  "login_user u st = st\<lparr>session_user := Some (uid u)\<rparr>"

definition logout_user :: "app \<Rightarrow> app" where
  "logout_user st = st\<lparr>session_user := None\<rparr>"

lemma url_for_registered [simp]: "ep \<in> set main_endpoints \<Longrightarrow> url_for ep = Inr ep"
  by (simp add: url_for_def)

lemma url_for_dashboard [simp]: "url_for ''main.dashboard'' = Inl (BuildError ''main.dashboard'')"
  by (simp add: url_for_def main_endpoints_def)

lemma current_user_Some:
  "current_user st = Some u \<Longrightarrow> u \<in> set (users (db_of st)) \<and> session_user st = Some (uid u)"
  by (auto simp: current_user_def dest: first_by_Some split: option.splits)

end
