(* ===== verification/Forms.thy ===== *)
theory Forms
  imports Web
begin

text \<open>
  The WTForms classes of \<open>src/focusflow/forms.py\<close> as the data a handler reads after
  \<open>validate_on_submit()\<close>, and that call itself: the request is a POST with a valid
  CSRF token and every field passes its validators. The e-mail syntax check of
  \<open>Email()\<close> (the \<open>email_validator\<close> package) is a parameter.
\<close>

section \<open>Validators\<close>

text \<open>
  \<open>DataRequired()\<close>: the data is truthy and, for a string, not only whitespace
  (\<open>field.data.strip()\<close>).
\<close>

definition data_required :: "string \<Rightarrow> bool" where
  "data_required s \<longleftrightarrow> py_strip s \<noteq> []"

text \<open>\<open>Length(min, max)\<close> on the raw field data.\<close>

definition length_between :: "nat \<Rightarrow> nat option \<Rightarrow> string \<Rightarrow> bool" where
  "length_between lo hi s \<longleftrightarrow> lo \<le> length s \<and> (case hi of None \<Rightarrow> True | Some h \<Rightarrow> length s \<le> h)"

section \<open>TaskForm\<close>

text \<open>
  \<open>TaskForm\<close> (lines 11--31). \<open>category\<close> is a \<open>SelectField(coerce=int)\<close> whose
  choices \<open>__init__\<close> fills with 0 ("Select a category...") and the id of every
  category; \<open>reminder_time\<close> is a \<open>SelectField\<close> of the strings below. A
  \<open>SelectField\<close> accepts only one of its choices. \<open>due_date\<close> is an optional
  \<open>DateTimeLocalField\<close>, here already parsed.
\<close>

record task_form =
  tf_submitted :: bool
  tf_csrf_ok :: bool
  tf_content :: string
  tf_category :: int
  tf_due_date :: "datetime option"
  tf_reminder_active :: bool
  tf_reminder_time :: string

definition reminder_choices :: "string list" where
  "reminder_choices = [''10'', ''30'', ''60'', ''120'']"

definition category_choices :: "category list \<Rightarrow> int list" where
  "category_choices cats = 0 # map cat_id cats"

definition task_form_validates :: "category list \<Rightarrow> task_form \<Rightarrow> bool" where
  "task_form_validates cats f \<longleftrightarrow>
     tf_submitted f \<and> tf_csrf_ok f \<and> data_required (tf_content f) \<and>
     tf_category f \<in> set (category_choices cats) \<and> tf_reminder_time f \<in> set reminder_choices"

text \<open>\<open>int(s)\<close> on a string of decimal digits.\<close>

definition py_int :: "string \<Rightarrow> int" where
  "py_int s = foldl (\<lambda>n c. 10 * n + (int (of_char c) - 48)) 0 s"

section \<open>RegistrationForm, LoginForm, ResendVerificationForm\<close>

text \<open>
  \<open>RegistrationForm\<close> (lines 34--55): username of 3 to 20 characters, a valid
  e-mail, a password of at least 6 characters, and a confirmation equal to it.
\<close>

record reg_form =
  rf_submitted :: bool
  rf_csrf_ok :: bool
  rf_username :: string
  rf_email :: string
  rf_password :: string
  rf_confirm :: string

definition reg_form_validates :: "(string \<Rightarrow> bool) \<Rightarrow> reg_form \<Rightarrow> bool" where
  "reg_form_validates email_ok f \<longleftrightarrow>
     rf_submitted f \<and> rf_csrf_ok f \<and>
     data_required (rf_username f) \<and> length_between 3 (Some 20) (rf_username f) \<and>
     data_required (rf_email f) \<and> email_ok (rf_email f) \<and>
     data_required (rf_password f) \<and> length_between 6 None (rf_password f) \<and>
     data_required (rf_confirm f) \<and> rf_confirm f = rf_password f"

text \<open>\<open>LoginForm\<close> (lines 59--63).\<close>

record login_form =
  lf_submitted :: bool
  lf_csrf_ok :: bool
  lf_email :: string
  lf_password :: string
  lf_remember_me :: bool

definition login_form_validates :: "(string \<Rightarrow> bool) \<Rightarrow> login_form \<Rightarrow> bool" where
  "login_form_validates email_ok f \<longleftrightarrow>
     lf_submitted f \<and> lf_csrf_ok f \<and> data_required (lf_email f) \<and> email_ok (lf_email f) \<and>
     data_required (lf_password f)"

text \<open>\<open>ResendVerificationForm\<close> (lines 66--68).\<close>

record resend_form =
  vf_submitted :: bool
  vf_csrf_ok :: bool
  vf_email :: string

definition resend_form_validates :: "(string \<Rightarrow> bool) \<Rightarrow> resend_form \<Rightarrow> bool" where
  "resend_form_validates email_ok f \<longleftrightarrow>
     vf_submitted f \<and> vf_csrf_ok f \<and> data_required (vf_email f) \<and> email_ok (vf_email f)"

section \<open>The class User of forms.py\<close>

text \<open>
  forms.py ends with a second \<open>class User(db.Model)\<close> (lines 71--114), with a
  \<open>username\<close> column, the password helpers and three \<open>validate_*\<close> methods. The
  module imports none of \<open>db\<close>, \<open>re\<close>, \<open>ValidationError\<close>,
  \<open>generate_password_hash\<close> and \<open>check_password_hash\<close>, so the class statement itself
  raises \<open>NameError\<close> on \<open>db\<close>; were it defined, each method would raise
  \<open>NameError\<close> on the first name it lacks, as modelled here. \<open>validate_email\<close>
  reaches \<open>ValidationError\<close> only when the address is taken.
\<close>

record forms_user =
  fu_id :: int
  fu_username :: string
  fu_email :: string
  fu_password_hash :: string

definition forms_names :: "string list" where
  "forms_names =
     [''StringField'', ''SubmitField'', ''BooleanField'', ''SelectField'', ''PasswordField'', ''TextAreaField'',
      ''Category'', ''DateTimeLocalField'', ''FlaskForm'', ''DataRequired'', ''Email'', ''EqualTo'', ''Length'',
      ''Optional'', ''TaskForm'', ''RegistrationForm'', ''LoginForm'', ''ResendVerificationForm'']"

text \<open>A name the method body evaluates: its value, or \<open>NameError\<close>.\<close>

definition forms_lookup :: "string \<Rightarrow> py_exc + unit" where
  "forms_lookup n = (if n \<in> set forms_names then Inr () else Inl (NameError n))"

definition fu_set_password :: "forms_user \<Rightarrow> string \<Rightarrow> py_exc + forms_user" where
  "fu_set_password u p = (case forms_lookup ''generate_password_hash'' of Inl e \<Rightarrow> Inl e | Inr _ \<Rightarrow> Inr u)"

definition fu_check_password :: "forms_user \<Rightarrow> string \<Rightarrow> py_exc + bool" where
  "fu_check_password u p = (case forms_lookup ''check_password_hash'' of Inl e \<Rightarrow> Inl e | Inr _ \<Rightarrow> Inr False)"

definition validate_username :: "forms_user list \<Rightarrow> string \<Rightarrow> py_exc + unit" where
  "validate_username us name = forms_lookup ''re''"

definition validate_email :: "forms_user list \<Rightarrow> string \<Rightarrow> py_exc + unit" where
  "validate_email us e =
     (if first_by fu_email e us \<noteq> None then forms_lookup ''ValidationError'' else Inr ())"

definition validate_password :: "string \<Rightarrow> py_exc + unit" where
  "validate_password p = forms_lookup ''re''"

section \<open>Lemmas\<close>

lemma task_form_validates_content:
  "task_form_validates cats f \<Longrightarrow> py_strip (tf_content f) \<noteq> []"
  by (simp add: task_form_validates_def data_required_def)

lemma task_form_validates_category:
  "task_form_validates cats f \<Longrightarrow> tf_category f = 0 \<or> tf_category f \<in> cat_id ` set cats"
  by (auto simp: task_form_validates_def category_choices_def)

lemma forms_user_methods_raise:
  "fu_set_password u p = Inl (NameError ''generate_password_hash'') \<and>
   fu_check_password u p = Inl (NameError ''check_password_hash'') \<and>
   validate_username us n = Inl (NameError ''re'') \<and>
   validate_password p = Inl (NameError ''re'') \<and>
   validate_email us e = (if first_by fu_email e us = None then Inr () else Inl (NameError ''ValidationError''))"
  by (simp add: fu_set_password_def fu_check_password_def validate_username_def validate_password_def
                validate_email_def forms_lookup_def forms_names_def)

end
