(* ===== verification/Mail.thy ===== *)
theory Mail
  imports Tokens Web
begin

text \<open>
  The mail side of \<open>src/focusflow/email_utils.py\<close>: \<open>send_email\<close>, the two
  definitions of \<open>send_verification_email\<close>, and the module's namespace, in which the
  second definition replaces the first. The mail extension (\<open>mail.send\<close>) either
  delivers a message to the outbox or raises; which one is the parameter \<open>mail_ok\<close>.
\<close>

section \<open>Messages\<close>

record 'tok message =
  msg_to :: string
  msg_subject :: string
  msg_token :: "'tok option"  \<comment> \<open>the token the body's link carries, if any\<close>

text \<open>
  \<open>send_email(to, subject, template)\<close> (lines 67--90): \<open>True\<close> and the message
  when \<open>mail.send\<close> succeeds, \<open>False\<close> when it raises.
\<close>

definition send_email ::
  "bool \<Rightarrow> string \<Rightarrow> string \<Rightarrow> 'tok option \<Rightarrow> bool \<times> 'tok message list" where
  "send_email mail_ok to subject link =
     (if mail_ok then (True, [\<lparr>msg_to = to, msg_subject = subject, msg_token = link\<rparr>])
      else (False, []))"

text \<open>
  The first \<open>send_verification_email(user_email, token)\<close> (lines 22--38) builds its link
  with \<open>url_for("main.confirm_email", ...)\<close> before its \<open>try\<close>, so a failing
  \<open>url_for\<close> propagates to the caller.
\<close>

definition send_verification_email_v1 ::
  "bool \<Rightarrow> string \<Rightarrow> 'tok \<Rightarrow> py_exc + bool \<times> 'tok message list" where
  "send_verification_email_v1 mail_ok user_email tok =
     (case url_for ''main.confirm_email'' of
        Inl e \<Rightarrow> Inl e
      | Inr _ \<Rightarrow>
          Inr (if mail_ok
               then (True, [\<lparr>msg_to = user_email, msg_subject = ''Please verify your email - FocusFlow'',
                             msg_token = Some tok\<rparr>])
               else (False, [])))"

text \<open>
  The second \<open>send_verification_email(user_email, token)\<close> (lines 92--126): the link
  \<open>url_for('main.verify_email', token=token)\<close> inside the \<open>try\<close> (a failure gives
  \<open>False\<close>), the body, and \<open>send_email\<close>.
\<close>

definition send_verification_email_v2 ::
  "bool \<Rightarrow> string \<Rightarrow> 'tok \<Rightarrow> bool \<times> 'tok message list" where
  "send_verification_email_v2 mail_ok user_email tok =
     (case url_for ''main.verify_email'' of
        Inl _ \<Rightarrow> (False, [])
      | Inr _ \<Rightarrow> send_email mail_ok user_email ''Verify Your Email - FocusFlow'' (Some tok))"

section \<open>The module namespace\<close>

text \<open>
  The top-level bindings of email_utils.py in the order the module executes them; a later
  \<open>def\<close> of the same name rebinds it. The imported names are listed apart.
\<close>

datatype py_def =
    GenerateToken | ConfirmToken | SendVerificationV1 | ConfigClass | SendEmail
  | SendVerificationV2 | TestEmailConfiguration

definition email_utils_defs :: "(string \<times> py_def) list" where
  "email_utils_defs =
     [(''generate_token'', GenerateToken), (''confirm_token'', ConfirmToken),
      (''send_verification_email'', SendVerificationV1), (''Config'', ConfigClass),
      (''send_email'', SendEmail), (''send_verification_email'', SendVerificationV2),
      (''test_email_configuration'', TestEmailConfiguration)]"

definition email_utils_imports :: "string list" where
  "email_utils_imports =
     [''URLSafeTimedSerializer'', ''SignatureExpired'', ''BadSignature'', ''Message'',
      ''render_template'', ''current_app'', ''url_for'', ''mail'', ''os'', ''timedelta'', ''logging'']"

definition module_lookup :: "(string \<times> py_def) list \<Rightarrow> string \<Rightarrow> py_def option" where
  "module_lookup defs n = map_of (rev defs) n"

text \<open>\<open>from focusflow.email_utils import name\<close>: \<open>ImportError\<close> for a name the module lacks.\<close>

definition email_utils_has :: "string \<Rightarrow> bool" where
  "email_utils_has n \<longleftrightarrow> n \<in> set (map fst email_utils_defs) \<or> n \<in> set email_utils_imports"

text \<open>The positional parameters of each function.\<close>

fun py_params :: "py_def \<Rightarrow> string list" where
  "py_params GenerateToken = [''email'']"
| "py_params ConfirmToken = [''token'', ''expiration'']"
| "py_params SendVerificationV1 = [''user_email'', ''token'']"
| "py_params SendVerificationV2 = [''user_email'', ''token'']"
| "py_params SendEmail = [''to'', ''subject'', ''template'']"
| "py_params TestEmailConfiguration = []"
| "py_params ConfigClass = []"

text \<open>
  \<open>success, message = send_verification_email(email)\<close>, the call the handlers make:
  with one argument the call raises \<open>TypeError\<close> (a required parameter has no value);
  were it made with enough arguments, the function would return a \<open>bool\<close>, and unpacking
  a \<open>bool\<close> into two names raises \<open>TypeError\<close> as well.
\<close>

definition call_send_verification_email :: "string list \<Rightarrow> py_exc + (bool \<times> string)" where
  "call_send_verification_email args =
     (case module_lookup email_utils_defs ''send_verification_email'' of
        None \<Rightarrow> Inl (NameError ''send_verification_email'')
      | Some f \<Rightarrow>
          (if length args < length (py_params f)
           then Inl (TypeError ''missing a required positional argument'')
           else Inl (TypeError ''cannot unpack non-iterable bool object'')))"

section \<open>Lemmas\<close>

lemma send_verification_email_binding:
  "module_lookup email_utils_defs ''send_verification_email'' = Some SendVerificationV2"
  by (simp add: module_lookup_def email_utils_defs_def)

lemma send_verification_email_v1_fails:
  "send_verification_email_v1 mail_ok e tok = Inl (BuildError ''main.confirm_email'')"
  by (simp add: send_verification_email_v1_def url_for_def main_endpoints_def)

lemma no_verify_email_token: "\<not> email_utils_has ''verify_email_token''"
  by (simp add: email_utils_has_def email_utils_defs_def email_utils_imports_def)

lemma call_send_verification_email_raises:
  "\<exists>msg. call_send_verification_email args = Inl (TypeError msg)"
  by (simp add: call_send_verification_email_def send_verification_email_binding)

end
