(* ===== verification/Routes.thy ===== *)
theory Routes
  imports Forms Mail
begin

text \<open>
  The request handlers of \<open>src/focusflow/routes.py\<close> as functions from the application
  state to the new state, the response and the flashed messages. A handler's
  collaborators are an environment: the password-hashing functions and
  \<open>verify_email_token\<close> as the handler's module resolves them (a name that is not bound
  raises when the line runs), the call to \<open>send_verification_email\<close>, whether the
  database commit succeeds, and the e-mail syntax check of the forms. \<open>repo_env\<close>
  resolves them the way the repository's modules do. Logging is not modelled.
\<close>

section \<open>Collaborators\<close>

record 'tok env =
  gen_hash :: "(string \<Rightarrow> string) option"
  check_hash :: "(string \<Rightarrow> string \<Rightarrow> bool) option"
  send_verification :: "string \<Rightarrow> py_exc + (bool \<times> string)"
  verify_token :: "('tok \<Rightarrow> string option) option"
  commit_ok :: bool
  email_ok :: "string \<Rightarrow> bool"

text \<open>The global names of routes.py: its imports (lines 1--11) and its definitions.\<close>

definition routes_globals :: "string list" where
  "routes_globals =
     [''UserNotFoundError'', ''EmailAlreadyExistsError'', ''Blueprint'', ''render_template'',
      ''redirect'', ''url_for'', ''flash'', ''abort'', ''current_app'', ''login_user'',
      ''login_required'', ''logout_user'', ''current_user'', ''UserMixin'', ''User'', ''Todo'',
      ''Category'', ''TaskForm'', ''RegistrationForm'', ''db'', ''LoginForm'',
      ''ResendVerificationForm'', ''os'', ''request'', ''jsonify'', ''g'', ''generate_token'',
      ''send_verification_email'', ''confirm_token'', ''firebase_auth'',
      ''main'', ''current_dir'', ''cred_path'', ''FirebaseUser'', ''verify_firebase_token'',
      ''protected'', ''load_firebase_user'', ''register'', ''login'', ''index'', ''update'',
      ''logout'', ''delete'', ''resend_verification'', ''verify_email'', ''debug_categories'',
      ''test_simple'', ''test_email_route'']"

definition resolve :: "string list \<Rightarrow> string \<Rightarrow> 'a \<Rightarrow> 'a option" where
  "resolve names n v = (if n \<in> set names then Some v else None)"

text \<open>
  The repository's environment, for any hash functions \<open>h\<close> and \<open>c\<close>, any verifier
  \<open>vt\<close> the import could have found, any commit outcome and any e-mail check.
\<close>

definition repo_env ::
  "(string \<Rightarrow> string) \<Rightarrow> (string \<Rightarrow> string \<Rightarrow> bool) \<Rightarrow> ('tok \<Rightarrow> string option) \<Rightarrow> bool \<Rightarrow>
   (string \<Rightarrow> bool) \<Rightarrow> 'tok env" where
  "repo_env h c vt ok eok =
     \<lparr>gen_hash = resolve routes_globals ''generate_password_hash'' h,
      check_hash = resolve routes_globals ''check_password_hash'' c,
      send_verification = (\<lambda>e. call_send_verification_email [e]),
      verify_token = (if email_utils_has ''verify_email_token'' then Some vt else None),
      commit_ok = ok,
      email_ok = eok\<rparr>"

section \<open>Handlers\<close>

text \<open>
  \<open>register()\<close> (lines 61--124). A missing \<open>generate_password_hash\<close> raises
  \<open>NameError\<close> in the outer \<open>try\<close>: rollback, error message, the form again. After
  the commit, every outcome of the verification e-mail ends in a redirect to login.
\<close>

definition register :: "'tok env \<Rightarrow> reg_form \<Rightarrow> app \<Rightarrow> result" where
  "register env f st =
     (if \<not> reg_form_validates (email_ok env) f then (st, Render ''register.html'', [])
      else
        (let addr = normalize_email (rf_email f); d = db_of st
         in case first_by email addr (users d) of
              Some u \<Rightarrow>
                (if truthy (py_of_column (email_verified u))
                 then (st, Redirect ''main.login'', [(''info'', ''This email is already registered and verified. Please login.'')])
                 else (st, Render ''register.html'', [(''warning'', ''This email is registered but not verified.'')]))
            | None \<Rightarrow>
                (case gen_hash env of
                   None \<Rightarrow> (st, Render ''register.html'', [(''error'', ''Registration failed'')])
                 | Some h \<Rightarrow>
                     (if \<not> commit_ok env
                      then (st, Render ''register.html'', [(''error'', ''Registration failed'')])
                      else
                        (let u = \<lparr>uid = next_rowid (map uid (users d)), email = addr,
                                  password_hash = h (rf_password f), email_verified = Some False\<rparr>;
                             st' = st\<lparr>db_of := d\<lparr>users := users d @ [u]\<rparr>\<rparr>
                         in (st', Redirect ''main.login'',
                             [case send_verification env addr of
                                Inl _ \<Rightarrow> (''warning'', ''Account created but email verification failed'')
                              | Inr (True, _) \<Rightarrow> (''success'', ''Registration successful! Please check your email'')
                              | Inr (False, _) \<Rightarrow> (''warning'', ''Account created but failed to send verification email'')]))))))"

text \<open>
  \<open>login()\<close> (lines 129--176). \<open>login_user\<close> runs before the redirect is built; the
  redirect to \<open>url_for('main.dashboard')\<close> names an endpoint nobody registered, so its
  \<open>BuildError\<close> lands in the \<open>except\<close>, after the session was set.
\<close>

definition login :: "'tok env \<Rightarrow> login_form \<Rightarrow> string option \<Rightarrow> app \<Rightarrow> result" where
  "login env f next_page st =
     (if \<not> login_form_validates (email_ok env) f then (st, Render ''login.html'', [])
      else
        (let addr = normalize_email (lf_email f)
         in case first_by email addr (users (db_of st)) of
              None \<Rightarrow> (st, Render ''login.html'', [(''error'', ''Invalid email or password.'')])
            | Some u \<Rightarrow>
                (case check_hash env of
                   None \<Rightarrow> (st, Render ''login.html'', [(''error'', ''An error occurred during login. Please try again.'')])
                 | Some chk \<Rightarrow>
                     (if \<not> chk (password_hash u) (lf_password f)
                      then (st, Render ''login.html'', [(''error'', ''Invalid email or password.'')])
                      else if \<not> truthy (py_of_column (email_verified u))
                      then (st, Render ''login.html'', [(''warning'', ''Please verify your email before logging in.'')])
                      else
                        (let st' = login_user u st
                         in case next_page of
                              Some n \<Rightarrow> if n \<noteq> [] then (st', Redirect n, []) else
                                (case url_for ''main.dashboard'' of
                                   Inr ep \<Rightarrow> (st', Redirect ep, [])
                                 | Inl _ \<Rightarrow> (st', Render ''login.html'', [(''error'', ''An error occurred during login. Please try again.'')]))
                            | None \<Rightarrow>
                                (case url_for ''main.dashboard'' of
                                   Inr ep \<Rightarrow> (st', Redirect ep, [])
                                 | Inl _ \<Rightarrow> (st', Render ''login.html'', [(''error'', ''An error occurred during login. Please try again.'')])))))))"

text \<open>
  The tasks \<open>index()\<close> lists: \<open>Todo.query.filter_by(user_id=...).order_by(Todo.date_created)\<close>.
  The database orders rows with equal \<open>date_created\<close> as it likes; \<open>sort_key\<close> keeps
  table order among them, one of the orders it may choose.
\<close>

definition user_tasks :: "int \<Rightarrow> todo list \<Rightarrow> todo list" where
  "user_tasks u rows = sort_key date_created (filter (\<lambda>t. user_id t = u) rows)"

text \<open>\<open>Category.query.get(category_id)\<close> if the id is truthy and non-zero, else \<open>None\<close>.\<close>

definition form_category :: "category list \<Rightarrow> int \<Rightarrow> int option" where
  "form_category cats c = (if c \<noteq> 0 then map_option cat_id (first_by cat_id c cats) else None)"

text \<open>\<open>index()\<close> (lines 181--218), behind \<open>@login_required\<close>.\<close>

definition index :: "'tok env \<Rightarrow> datetime \<Rightarrow> task_form \<Rightarrow> app \<Rightarrow> result" where
  "index env now f st =
     (case current_user st of
        None \<Rightarrow> unauthorized st
      | Some u \<Rightarrow>
          (let d = db_of st
           in if task_form_validates (categories d) f then
                (let c = py_strip (tf_content f)
                 in if c = [] then (st, Redirect ''main.index'', [(''warning'', ''Task content cannot be empty.'')])
                    else
                      (let t = \<lparr>todo_id = next_rowid (map todo_id (todos d)), content = c,
                                date_created = now, user_id = uid u,
                                category_id = form_category (categories d) (tf_category f),
                                due_date = tf_due_date f, reminder_active = Some (tf_reminder_active f),
                                reminder_time = Some (py_int (tf_reminder_time f))\<rparr>
                       in if commit_ok env
                          then (st\<lparr>db_of := d\<lparr>todos := todos d @ [t]\<rparr>\<rparr>, Redirect ''main.index'',
                                [(''success'', ''Task added successfully!'')])
                          else (st, Redirect ''main.index'', [(''danger'', ''Error adding task'')])))
              else (st, RenderTasks ''index.html'' (user_tasks (uid u) (todos d)), [])))"

text \<open>
  \<open>update(task_id)\<close> (lines 221--256): \<open>get_or_404\<close>, the ownership check, then
  \<open>form.category.data = task.category.id\<close> when the task has a category, which replaces
  the submitted category before the form is validated and read. Only content, category
  and due date are written back.
\<close>

definition update :: "'tok env \<Rightarrow> int \<Rightarrow> task_form \<Rightarrow> app \<Rightarrow> result" where
  "update env task_id f st =
     (case current_user st of
        None \<Rightarrow> unauthorized st
      | Some u \<Rightarrow>
          (let d = db_of st
           in case first_by todo_id task_id (todos d) of
                None \<Rightarrow> (st, Abort 404, [])
              | Some t \<Rightarrow>
                  (if user_id t \<noteq> uid u then (st, Abort 403, [])
                   else
                     (let f' = (case category_id t of
                                  Some c \<Rightarrow> if c \<in> set (map cat_id (categories d)) then f\<lparr>tf_category := c\<rparr> else f
                                | None \<Rightarrow> f)
                      in if task_form_validates (categories d) f' then
                           (let t' = t\<lparr>content := py_strip (tf_content f'),
                                       category_id := form_category (categories d) (tf_category f'),
                                       due_date := tf_due_date f'\<rparr>
                            in if commit_ok env
                               then (st\<lparr>db_of := d\<lparr>todos := replace_by todo_id task_id t' (todos d)\<rparr>\<rparr>,
                                     Redirect ''main.index'', [(''success'', ''Task updated successfully!'')])
                               else (st, Redirect ''main.update'', [(''danger'', ''There was an issue updating your task'')]))
                         else (st, RenderTasks ''update.html'' [t], [])))))"

text \<open>\<open>logout()\<close> (lines 259--266).\<close>

definition logout :: "app \<Rightarrow> result" where
  "logout st =
     (case current_user st of
        None \<Rightarrow> unauthorized st
      | Some u \<Rightarrow> (logout_user st, Redirect ''main.login'', [(''info'', ''You have been logged out successfully.'')]))"

text \<open>\<open>delete(task_id)\<close> (lines 271--285), a GET route.\<close>

definition delete :: "'tok env \<Rightarrow> int \<Rightarrow> app \<Rightarrow> result" where
  "delete env task_id st =
     (case current_user st of
        None \<Rightarrow> unauthorized st
      | Some u \<Rightarrow>
          (let d = db_of st
           in case first_by todo_id task_id (todos d) of
                None \<Rightarrow> (st, Abort 404, [])
              | Some t \<Rightarrow>
                  (if user_id t \<noteq> uid u then (st, Abort 403, [])
                   else if commit_ok env
                   then (st\<lparr>db_of := d\<lparr>todos := filter (\<lambda>r. todo_id r \<noteq> task_id) (todos d)\<rparr>\<rparr>,
                         Redirect ''main.index'', [(''success'', ''Task deleted successfully.'')])
                   else (st, Redirect ''main.index'', [(''danger'', ''There was a problem deleting that task'')]))))"

text \<open>\<open>resend_verification()\<close> (lines 289--337).\<close>

definition resend_verification :: "'tok env \<Rightarrow> resend_form \<Rightarrow> app \<Rightarrow> result" where
  "resend_verification env f st =
     (if \<not> resend_form_validates (email_ok env) f then (st, Render ''resend_verification.html'', [])
      else
        (let addr = normalize_email (vf_email f)
         in case first_by email addr (users (db_of st)) of
              None \<Rightarrow> (st, Render ''resend_verification.html'',
                        [(''info'', ''If an account with this email exists and is not verified, a verification email has been sent.'')])
            | Some u \<Rightarrow>
                (if truthy (py_of_column (email_verified u))
                 then (st, Redirect ''main.login'', [(''info'', ''This email is already verified. You can login normally.'')])
                 else (st, Render ''resend_verification.html'',
                       [case send_verification env addr of
                          Inl _ \<Rightarrow> (''error'', ''Failed to send verification email'')
                        | Inr (True, _) \<Rightarrow> (''success'', ''Verification email sent successfully!'')
                        | Inr (False, _) \<Rightarrow> (''error'', ''Failed to send verification email'')]))))"

text \<open>
  \<open>verify_email(token)\<close> (lines 341--381). The import of \<open>verify_email_token\<close> runs
  inside the \<open>try\<close>; its \<open>ImportError\<close>, like any other exception, ends in the generic
  error and a redirect to the resend page. \<open>if not email\<close> treats \<open>False\<close>
  (\<open>None\<close> here) and the empty string alike.
\<close>

definition verify_email :: "'tok env \<Rightarrow> 'tok \<Rightarrow> app \<Rightarrow> result" where
  "verify_email env tok st =
     (case verify_token env of
        None \<Rightarrow> (st, Redirect ''main.resend_verification'',
                  [(''error'', ''An error occurred during verification. Please try again.'')])
      | Some vt \<Rightarrow>
          (case vt tok of
             None \<Rightarrow> (st, Redirect ''main.resend_verification'',
                       [(''error'', ''The verification link is invalid or has expired. Please request a new one.'')])
           | Some addr \<Rightarrow>
               (if addr = [] then (st, Redirect ''main.resend_verification'',
                       [(''error'', ''The verification link is invalid or has expired. Please request a new one.'')])
                else
                  (let d = db_of st
                   in case first_by email addr (users d) of
                        None \<Rightarrow> (st, Redirect ''main.register'', [(''error'', ''User not found. Please register again.'')])
                      | Some u \<Rightarrow>
                          (if truthy (py_of_column (email_verified u))
                           then (st, Redirect ''main.login'', [(''info'', ''Your email is already verified. You can login normally.'')])
                           else if commit_ok env
                           then (st\<lparr>db_of := d\<lparr>users := replace_by uid (uid u) (u\<lparr>email_verified := Some True\<rparr>) (users d)\<rparr>\<rparr>,
                                 Redirect ''main.login'', [(''success'', ''Email verified successfully! You can now login.'')])
                           else (st, Redirect ''main.resend_verification'',
                                 [(''error'', ''An error occurred during verification. Please try again.'')]))))))"

end
