(* ===== verification/App.thy ===== *)
theory App
  imports Routes
begin

text \<open>
  The application as a whole, seen from the requests it serves: the view functions of
  \<open>src/focusflow/routes.py\<close> (theory \<open>Routes\<close>) dispatched on a request, a
  sequence of requests, the invariant of the application's tables that every handler
  keeps, and the contracts of the handlers: what a handler does when its collaborators
  are the intended ones (a password hasher, a token checker, a working mailer), and what
  it does with the collaborators the repository actually binds (\<open>repo_env\<close>).
\<close>

section \<open>Requests\<close>

text \<open>
  A request to one of the routes of the blueprint \<open>main\<close>, with the form data (already
  bound to the WTForms class) or the URL argument the view function receives.
\<close>

datatype 'tok request =
    ReqRegister reg_form
  | ReqLogin login_form "string option"
  | ReqIndex task_form
  | ReqUpdate int task_form
  | ReqDelete int
  | ReqLogout
  | ReqResend resend_form
  | ReqVerify 'tok

text \<open>
  Dispatch of a request to its view function, as Flask does through \<open>@main.route\<close>.
\<close>

fun handle :: "'tok env \<Rightarrow> datetime \<Rightarrow> 'tok request \<Rightarrow> app \<Rightarrow> result" where
  "handle env now (ReqRegister f) st = register env f st"
| "handle env now (ReqLogin f n) st = login env f n st"
| "handle env now (ReqIndex f) st = index env now f st"
| "handle env now (ReqUpdate i f) st = update env i f st"
| "handle env now (ReqDelete i) st = delete env i st"
| "handle env now ReqLogout st = logout st"
| "handle env now (ReqResend f) st = resend_verification env f st"
| "handle env now (ReqVerify tok) st = verify_email env tok st"

text \<open>
  A sequence of requests served one after the other by the single-threaded server.
\<close>

fun run_requests :: "'tok env \<Rightarrow> datetime \<Rightarrow> 'tok request list \<Rightarrow> app \<Rightarrow> app" where
  "run_requests env now [] st = st"
| "run_requests env now (r # rs) st = run_requests env now rs (fst (handle env now r st))"

section \<open>The invariant of the tables\<close>

text \<open>
  The database is well formed (\<open>Models.wf_db\<close>: unique ids, unique e-mails, foreign keys),
  every stored e-mail is in the normal form \<open>email.strip().lower()\<close> the handlers write,
  and every task's content is non-empty and stripped, as \<open>index\<close> and \<open>update\<close> store it.
\<close>

definition wf_app :: "app \<Rightarrow> bool" where
  "wf_app st \<longleftrightarrow>
     wf_db (db_of st) \<and>
     list_all (\<lambda>u. normalize_email (email u) = email u) (users (db_of st)) \<and>
     list_all (\<lambda>t. content t \<noteq> [] \<and> py_strip (content t) = content t) (todos (db_of st))"

section \<open>Example states\<close>

text \<open>
  Collaborators as intended: a hasher that prefixes \<open>h:\<close>, a token checker that reads
  the e-mail back from the token, a mailer that succeeds, commits that succeed.
\<close>

definition ex_env :: "string env" where
  "ex_env = \<lparr>gen_hash = Some (\<lambda>p. ''h:'' @ p), check_hash = Some (\<lambda>h p. h = ''h:'' @ p),
             send_verification = (\<lambda>e. Inr (True, [])), verify_token = Some (\<lambda>tok. Some tok),
             commit_ok = True, email_ok = (\<lambda>e. CHR ''@'' \<in> set e)\<rparr>"

definition ex_alice :: user where
  "ex_alice = \<lparr>uid = 1, email = ''alice@example.com'', password_hash = ''h:pw1'', email_verified = Some True\<rparr>"

definition ex_bob :: user where
  "ex_bob = \<lparr>uid = 2, email = ''bob@example.com'', password_hash = ''h:pw2'', email_verified = Some False\<rparr>"

definition ex_todo :: todo where
  "ex_todo = \<lparr>todo_id = 1, content = ''pay rent'', date_created = 0, user_id = 1, category_id = None,
              due_date = Some 50, reminder_active = Some True, reminder_time = Some 30\<rparr>"

definition ex_app :: app where
  "ex_app = \<lparr>db_of = \<lparr>users = [ex_alice, ex_bob], todos = [ex_todo], categories = []\<rparr>, session_user = Some 2\<rparr>"

definition ex_login :: login_form where
  "ex_login = \<lparr>lf_submitted = True, lf_csrf_ok = True, lf_email = '' Alice@Example.com'',
               lf_password = ''pw1'', lf_remember_me = False\<rparr>"

definition ex_resend :: resend_form where
  "ex_resend = \<lparr>vf_submitted = True, vf_csrf_ok = True, vf_email = ''bob@example.com''\<rparr>"

definition ex_task_form :: task_form where
  "ex_task_form = \<lparr>tf_submitted = True, tf_csrf_ok = True, tf_content = ''  buy milk '',
     tf_category = 0, tf_due_date = Some 120, tf_reminder_active = True, tf_reminder_time = ''30''\<rparr>"

definition ex_reg :: reg_form where
  "ex_reg = \<lparr>rf_submitted = True, rf_csrf_ok = True, rf_username = ''carol'',
             rf_email = ''Carol@Example.com'', rf_password = ''secret1'', rf_confirm = ''secret1''\<rparr>"

section \<open>Lemmas: the invariant is kept\<close>

lemma map_replace_by_same:
  "(\<And>r. r \<in> set rows \<Longrightarrow> key r = k \<Longrightarrow> g r = g r') \<Longrightarrow> map g (replace_by key k r' rows) = map g rows"
  unfolding replace_by_def by (induction rows) auto

lemma form_category_valid:
  "form_category cats c = Some x \<Longrightarrow> x \<in> set (map cat_id cats)"
  by (auto simp: form_category_def dest: first_by_Some split: if_splits)

lemma form_category_self:
  assumes "c \<noteq> 0" and "c \<in> set (map cat_id cats)"
  shows "form_category cats c = Some c"
proof -
  obtain r where r: "first_by cat_id c cats = Some r"
    using assms(2) first_by_None [of cat_id c cats] by (cases "first_by cat_id c cats") auto
  then show ?thesis using assms(1) first_by_Some [OF r] by (simp add: form_category_def)
qed

lemma wf_app_session [simp]: "wf_app (st\<lparr>session_user := s\<rparr>) = wf_app st"
  by (simp add: wf_app_def)

lemma wf_add_user:
  assumes "wf_app st" and "\<forall>r \<in> set (users (db_of st)). email r \<noteq> email u"
    and "uid u \<notin> set (map uid (users (db_of st)))" and "normalize_email (email u) = email u"
  shows "wf_app (st\<lparr>db_of := (db_of st)\<lparr>users := users (db_of st) @ [u]\<rparr>\<rparr>)"
  using assms by (auto simp: wf_app_def wf_db_def list_all_iff split: option.splits)

lemma wf_add_todo:
  assumes "wf_app st" and "todo_id t \<notin> set (map todo_id (todos (db_of st)))"
    and "user_id t \<in> set (map uid (users (db_of st)))"
    and "\<forall>c. category_id t = Some c \<longrightarrow> c \<in> set (map cat_id (categories (db_of st)))"
    and "content t \<noteq> []" and "py_strip (content t) = content t"
  shows "wf_app (st\<lparr>db_of := (db_of st)\<lparr>todos := todos (db_of st) @ [t]\<rparr>\<rparr>)"
  using assms by (auto simp: wf_app_def wf_db_def list_all_iff split: option.splits)

lemma wf_replace_todo:
  assumes "wf_app st" and "t \<in> set (todos (db_of st))" and "todo_id t' = todo_id t"
    and "user_id t' = user_id t"
    and "\<forall>c. category_id t' = Some c \<longrightarrow> c \<in> set (map cat_id (categories (db_of st)))"
    and "content t' \<noteq> []" and "py_strip (content t') = content t'"
  shows "wf_app (st\<lparr>db_of := (db_of st)\<lparr>todos := replace_by todo_id (todo_id t) t' (todos (db_of st))\<rparr>\<rparr>)"
proof -
  let ?d = "db_of st"
  have ids: "map todo_id (replace_by todo_id (todo_id t) t' (todos ?d)) = map todo_id (todos ?d)"
    using assms(3) by (rule replace_by_keys)
  have "todo_id t \<in> todo_id ` set (todos ?d)" using assms(2) by blast
  then have set: "set (replace_by todo_id (todo_id t) t' (todos ?d)) =
                  {r \<in> set (todos ?d). todo_id r \<noteq> todo_id t} \<union> {t'}"
    by (simp add: set_replace_by)
  have "user_id t \<in> set (map uid (users ?d))"
    using assms(1,2) by (auto simp: wf_app_def wf_db_def list_all_iff)
  then show ?thesis
    using assms ids set
    by (auto simp: wf_app_def wf_db_def list_all_iff split: option.splits)
qed

lemma wf_filter_todos:
  "wf_app st \<Longrightarrow> wf_app (st\<lparr>db_of := (db_of st)\<lparr>todos := filter P (todos (db_of st))\<rparr>\<rparr>)"
  by (auto simp: wf_app_def wf_db_def list_all_iff distinct_map_filter split: option.splits)

lemma wf_replace_user:
  assumes "wf_app st" and "u \<in> set (users (db_of st))"
  shows "wf_app (st\<lparr>db_of := (db_of st)\<lparr>users := replace_by uid (uid u) (u\<lparr>email_verified := v\<rparr>) (users (db_of st))\<rparr>\<rparr>)"
proof -
  let ?d = "db_of st" and ?u' = "u\<lparr>email_verified := v\<rparr>"
  have d: "distinct (map uid (users ?d))" using assms(1) by (simp add: wf_app_def wf_db_def)
  have same: "r \<in> set (users ?d) \<Longrightarrow> uid r = uid u \<Longrightarrow> r = u" for r
    using d assms(2) by (metis distinct_map inj_onD)
  have ids: "map uid (replace_by uid (uid u) ?u' (users ?d)) = map uid (users ?d)"
    by (rule replace_by_keys) simp
  have ems: "map email (replace_by uid (uid u) ?u' (users ?d)) = map email (users ?d)"
    by (rule map_replace_by_same) (use same in auto)
  have "uid u \<in> uid ` set (users ?d)" using assms(2) by blast
  then have set: "set (replace_by uid (uid u) ?u' (users ?d)) = {r \<in> set (users ?d). uid r \<noteq> uid u} \<union> {?u'}"
    by (simp add: set_replace_by)
  show ?thesis
    using assms ids ems set
    by (auto simp: wf_app_def wf_db_def list_all_iff split: option.splits)
qed

lemma wf_first_todo: "wf_app st \<Longrightarrow> t \<in> set (todos (db_of st)) \<Longrightarrow> first_by todo_id (todo_id t) (todos (db_of st)) = Some t"
  by (rule first_by_unique) (auto simp: wf_app_def wf_db_def)

lemma wf_first_user_email: "wf_app st \<Longrightarrow> u \<in> set (users (db_of st)) \<Longrightarrow> first_by email (email u) (users (db_of st)) = Some u"
  by (rule first_by_unique) (auto simp: wf_app_def wf_db_def)

lemma register_wf: "wf_app st \<Longrightarrow> wf_app (fst (register env f st))"
proof -
  assume wf: "wf_app st"
  let ?addr = "normalize_email (rf_email f)" and ?d = "db_of st"
  show ?thesis
  proof (cases "reg_form_validates (email_ok env) f \<and> first_by email ?addr (users ?d) = None \<and>
                gen_hash env \<noteq> None \<and> commit_ok env")
    case True
    then obtain h where h: "gen_hash env = Some h" by auto
    let ?u = "\<lparr>uid = next_rowid (map uid (users ?d)), email = ?addr,
               password_hash = h (rf_password f), email_verified = Some False\<rparr>"
    have "wf_app (st\<lparr>db_of := ?d\<lparr>users := users ?d @ [?u]\<rparr>\<rparr>)"
      by (rule wf_add_user) (use wf True in \<open>auto simp: first_by_None next_rowid_fresh next_rowid_map_fresh\<close>)
    then show ?thesis using True h by (simp add: register_def Let_def)
  next
    case False
    then show ?thesis using wf
      by (auto simp: register_def Let_def split: option.splits)
  qed
qed

lemma register_existing:
  "first_by email (normalize_email (rf_email f)) (users (db_of s)) = Some u \<Longrightarrow> fst (register env f s) = s"
  by (simp add: register_def Let_def)

lemma login_db: "db_of (fst (login env f n st)) = db_of st"
  by (simp add: login_def login_user_def Let_def split: option.splits sum.splits)

lemma login_wf: "wf_app st \<Longrightarrow> wf_app (fst (login env f n st))"
  using login_db [of env f n st] by (simp add: wf_app_def)

lemma logout_wf: "wf_app st \<Longrightarrow> wf_app (fst (logout st))"
  by (simp add: logout_def logout_user_def unauthorized_def split: option.splits)

lemma index_wf: "wf_app st \<Longrightarrow> wf_app (fst (index env now f st))"
proof (cases "current_user st")
  case None
  assume "wf_app st"
  with None show ?thesis by (simp add: index_def unauthorized_def)
next
  case (Some u)
  assume wf: "wf_app st"
  let ?d = "db_of st"
  have u: "uid u \<in> set (map uid (users ?d))" using current_user_Some [OF Some] by auto
  show ?thesis
  proof (cases "task_form_validates (categories ?d) f \<and> py_strip (tf_content f) \<noteq> [] \<and> commit_ok env")
    case True
    let ?t = "\<lparr>todo_id = next_rowid (map todo_id (todos ?d)), content = py_strip (tf_content f),
              date_created = now, user_id = uid u,
              category_id = form_category (categories ?d) (tf_category f),
              due_date = tf_due_date f, reminder_active = Some (tf_reminder_active f),
              reminder_time = Some (py_int (tf_reminder_time f))\<rparr>"
    have "wf_app (st\<lparr>db_of := ?d\<lparr>todos := todos ?d @ [?t]\<rparr>\<rparr>)"
      by (rule wf_add_todo) (use wf True u in \<open>auto simp: next_rowid_fresh next_rowid_map_fresh dest: form_category_valid\<close>)
    then show ?thesis using True Some by (simp add: index_def Let_def)
  next
    case False
    then show ?thesis using wf Some by (auto simp: index_def Let_def)
  qed
qed

lemma update_wf: "wf_app st \<Longrightarrow> wf_app (fst (update env i f st))"
proof -
  assume wf: "wf_app st"
  let ?d = "db_of st"
  show ?thesis
  proof (cases "\<exists>u t. current_user st = Some u \<and> first_by todo_id i (todos ?d) = Some t \<and> user_id t = uid u")
    case True
    then obtain u t where cu: "current_user st = Some u" and ft: "first_by todo_id i (todos ?d) = Some t"
      and own: "user_id t = uid u" by blast
    have t: "t \<in> set (todos ?d)" and ti: "todo_id t = i" using first_by_Some [OF ft] by auto
    define f' where "f' = (case category_id t of
                             Some c \<Rightarrow> if c \<in> set (map cat_id (categories ?d)) then f\<lparr>tf_category := c\<rparr> else f
                           | None \<Rightarrow> f)"
    let ?t' = "t\<lparr>content := py_strip (tf_content f'),
                 category_id := form_category (categories ?d) (tf_category f'),
                 due_date := tf_due_date f'\<rparr>"
    have res: "update env i f st =
      (if task_form_validates (categories ?d) f' then
         (if commit_ok env
          then (st\<lparr>db_of := ?d\<lparr>todos := replace_by todo_id i ?t' (todos ?d)\<rparr>\<rparr>,
                Redirect ''main.index'', [(''success'', ''Task updated successfully!'')])
          else (st, Redirect ''main.update'', [(''danger'', ''There was an issue updating your task'')]))
       else (st, RenderTasks ''update.html'' [t], []))"
      by (simp add: update_def cu ft own f'_def Let_def)
    have "wf_app (st\<lparr>db_of := ?d\<lparr>todos := replace_by todo_id (todo_id t) ?t' (todos ?d)\<rparr>\<rparr>)"
      if "task_form_validates (categories ?d) f'"
      by (rule wf_replace_todo)
         (use wf t that in \<open>auto dest: form_category_valid task_form_validates_content\<close>)
    then show ?thesis using wf res ti by auto
  next
    case False
    then show ?thesis using wf
      by (auto simp: update_def Let_def unauthorized_def split: option.splits)
  qed
qed

lemma update_result:
  "fst (update env i f st) = st \<or>
   (\<exists>t0 t'. t0 \<in> set (todos (db_of st)) \<and> todo_id t0 = i \<and> todo_id t' = i \<and>
      reminder_active t' = reminder_active t0 \<and> reminder_time t' = reminder_time t0 \<and>
      user_id t' = user_id t0 \<and> date_created t' = date_created t0 \<and>
      (\<forall>c. category_id t0 = Some c \<and> c \<noteq> 0 \<and> c \<in> set (map cat_id (categories (db_of st))) \<longrightarrow>
           category_id t' = Some c) \<and>
      fst (update env i f st) = st\<lparr>db_of := (db_of st)\<lparr>todos := replace_by todo_id i t' (todos (db_of st))\<rparr>\<rparr>)"
proof (cases "\<exists>u t. current_user st = Some u \<and> first_by todo_id i (todos (db_of st)) = Some t \<and> user_id t = uid u")
  case True
  let ?d = "db_of st"
  from True obtain u t where cu: "current_user st = Some u" and ft: "first_by todo_id i (todos ?d) = Some t"
    and own: "user_id t = uid u" by blast
  have t: "t \<in> set (todos ?d)" and ti: "todo_id t = i" using first_by_Some [OF ft] by auto
  define f' where "f' = (case category_id t of
                           Some c \<Rightarrow> if c \<in> set (map cat_id (categories ?d)) then f\<lparr>tf_category := c\<rparr> else f
                         | None \<Rightarrow> f)"
  define t' where "t' = t\<lparr>content := py_strip (tf_content f'),
                          category_id := form_category (categories ?d) (tf_category f'),
                          due_date := tf_due_date f'\<rparr>"
  have res: "fst (update env i f st) =
      (if task_form_validates (categories ?d) f' \<and> commit_ok env
       then st\<lparr>db_of := ?d\<lparr>todos := replace_by todo_id i t' (todos ?d)\<rparr>\<rparr> else st)"
    by (simp add: update_def cu ft own f'_def t'_def Let_def)
  have cat: "category_id t' = Some c"
    if "category_id t = Some c" "c \<noteq> 0" "c \<in> set (map cat_id (categories ?d))" for c
    using that form_category_self [of c "categories ?d"] by (simp add: t'_def f'_def)
  show ?thesis
  proof (cases "task_form_validates (categories ?d) f' \<and> commit_ok env")
    case True
    then show ?thesis using res t ti cat by (intro disjI2 exI [of _ t] exI [of _ t']) (simp add: t'_def)
  next
    case False
    then have "fst (update env i f st) = st" using res by auto
    then show ?thesis by (rule disjI1)
  qed
next
  case False
  then show ?thesis by (auto simp: update_def Let_def unauthorized_def split: option.splits)
qed

lemma delete_wf: "wf_app st \<Longrightarrow> wf_app (fst (delete env i st))"
  by (auto simp: delete_def Let_def unauthorized_def wf_filter_todos split: option.splits)

lemma resend_db: "fst (resend_verification env f st) = st"
  by (simp add: resend_verification_def Let_def split: option.splits)

lemma verify_email_wf: "wf_app st \<Longrightarrow> wf_app (fst (verify_email env tok st))"
  by (auto simp: verify_email_def Let_def wf_replace_user dest: first_by_Some split: option.splits)

lemma handle_wf: "wf_app st \<Longrightarrow> wf_app (fst (handle env now req st))"
  by (cases req) (simp_all add: register_wf login_wf index_wf update_wf delete_wf logout_wf
                                resend_db verify_email_wf)

lemma repo_env_fields [simp]:
  "gen_hash (repo_env h c vt ok eok) = None"
  "check_hash (repo_env h c vt ok eok) = None"
  "verify_token (repo_env h c vt ok eok) = None"
  "commit_ok (repo_env h c vt ok eok) = ok"
  "email_ok (repo_env h c vt ok eok) = eok"
  "send_verification (repo_env h c vt ok eok) e = call_send_verification_email [e]"
  by (simp_all add: repo_env_def resolve_def routes_globals_def no_verify_email_token)

lemma ex_app_wf: "wf_app ex_app"
  by code_simp

lemma ex_current_bob: "current_user ex_app = Some ex_bob"
  by code_simp

lemma ex_current_alice: "current_user (ex_app\<lparr>session_user := Some 1\<rparr>) = Some ex_alice"
  by code_simp

section \<open>Properties of the handlers\<close>

text \<open>
  C15. Every sequence of requests, whatever the collaborators, keeps the invariant
  \<open>wf_app\<close> of the tables: ids and e-mails stay unique, foreign keys stay valid, stored
  e-mails stay normalised and task contents stay non-empty and stripped.
\<close>

theorem run_requests_wf:
  "wf_app st \<Longrightarrow> wf_app (run_requests env now reqs st)"
proof (induction reqs arbitrary: st)
  case Nil
  then show ?case by simp
next
  case (Cons r rs)
  then show ?case by (simp add: handle_wf)
qed

theorem run_requests_wf_witness:
  "wf_app ex_app \<and> wf_app (run_requests ex_env 100 [ReqVerify ''bob@example.com'', ReqLogout] ex_app)"
  using run_requests_wf [of ex_app ex_env 100 "[ReqVerify ''bob@example.com'', ReqLogout]"] ex_app_wf
  by blast

text \<open>
  C16. A logged-in user can neither update nor delete another user's task (HTTP 403),
  and a task id that does not exist gives HTTP 404; in both cases nothing changes.
\<close>

theorem update_delete_ownership:
  assumes "wf_app st" and "current_user st = Some u"
  shows "(\<forall>t \<in> set (todos (db_of st)). user_id t \<noteq> uid u \<longrightarrow>
            update env (todo_id t) f st = (st, Abort 403, []) \<and> delete env (todo_id t) st = (st, Abort 403, [])) \<and>
         (i \<notin> set (map todo_id (todos (db_of st))) \<longrightarrow>
            update env i f st = (st, Abort 404, []) \<and> delete env i st = (st, Abort 404, []))"
proof -
  have "i \<notin> set (map todo_id (todos (db_of st))) \<Longrightarrow> first_by todo_id i (todos (db_of st)) = None"
    by (auto simp: first_by_None)
  then show ?thesis
    using assms wf_first_todo [OF assms(1)] by (auto simp: update_def delete_def Let_def)
qed

theorem update_delete_ownership_witness:
  "wf_app ex_app \<and> current_user ex_app = Some ex_bob \<and>
   update ex_env 1 ex_task_form ex_app = (ex_app, Abort 403, []) \<and> delete ex_env 1 ex_app = (ex_app, Abort 403, []) \<and>
   update ex_env 7 ex_task_form ex_app = (ex_app, Abort 404, []) \<and> delete ex_env 7 ex_app = (ex_app, Abort 404, [])"
proof -
  have "ex_todo \<in> set (todos (db_of ex_app))" "user_id ex_todo \<noteq> uid ex_bob"
    "(7::int) \<notin> set (map todo_id (todos (db_of ex_app)))"
    by (simp_all add: ex_app_def ex_todo_def ex_bob_def)
  then show ?thesis
    using update_delete_ownership [OF ex_app_wf ex_current_bob, of ex_env ex_task_form 7] ex_app_wf ex_current_bob
    by (auto simp: ex_todo_def)
qed

text \<open>
  C17. If \<open>login\<close> changes the session, the new session user is a stored user whose
  e-mail is the normalised form input, whose e-mail is verified, and whose password hash
  the configured checker accepts for the submitted password.
\<close>

theorem login_requires_verified:
  assumes "session_user (fst (login env f n st)) \<noteq> session_user st"
  shows "\<exists>u \<in> set (users (db_of st)).
           session_user (fst (login env f n st)) = Some (uid u) \<and>
           email u = normalize_email (lf_email f) \<and> email_verified u = Some True \<and>
           (\<exists>chk. check_hash env = Some chk \<and> chk (password_hash u) (lf_password f))"
  using assms
  by (auto simp: login_def login_user_def Let_def split: if_splits option.splits sum.splits
           dest: first_by_Some)

theorem login_requires_verified_witness:
  "session_user (fst (login ex_env ex_login None ex_app)) \<noteq> session_user ex_app \<and>
   (\<exists>u \<in> set (users (db_of ex_app)).
      session_user (fst (login ex_env ex_login None ex_app)) = Some (uid u) \<and>
      email u = normalize_email (lf_email ex_login) \<and> email_verified u = Some True \<and>
      (\<exists>chk. check_hash ex_env = Some chk \<and> chk (password_hash u) (lf_password ex_login)))"
proof -
  have h: "session_user (fst (login ex_env ex_login None ex_app)) \<noteq> session_user ex_app"
    by code_simp
  show ?thesis using login_requires_verified [OF h] h by blast
qed

text \<open>
  C18. With a working token checker, \<open>verify_email\<close> on a token for the e-mail of an
  unverified user marks exactly that user verified, leaves the other users and the tasks
  alone, and a second use of the same token reports that the e-mail is already verified.
\<close>

theorem verify_email_marks_verified:
  assumes "wf_app st" and "verify_token env = Some vt" and "vt tok = Some (email u)"
    and "email u \<noteq> []" and "u \<in> set (users (db_of st))" and "email_verified u \<noteq> Some True"
    and "commit_ok env"
  shows "first_by email (email u) (users (db_of (fst (verify_email env tok st)))) =
           Some (u\<lparr>email_verified := Some True\<rparr>) \<and>
         (\<forall>r \<in> set (users (db_of st)). uid r \<noteq> uid u \<longrightarrow> r \<in> set (users (db_of (fst (verify_email env tok st))))) \<and>
         todos (db_of (fst (verify_email env tok st))) = todos (db_of st) \<and>
         verify_email env tok (fst (verify_email env tok st)) =
           (fst (verify_email env tok st), Redirect ''main.login'',
            [(''info'', ''Your email is already verified. You can login normally.'')])"
proof -
  let ?d = "db_of st" and ?u' = "u\<lparr>email_verified := Some True\<rparr>"
  let ?st' = "st\<lparr>db_of := ?d\<lparr>users := replace_by uid (uid u) ?u' (users ?d)\<rparr>\<rparr>"
  have first: "first_by email (email u) (users ?d) = Some u"
    by (rule wf_first_user_email [OF assms(1,5)])
  have step: "fst (verify_email env tok st) = ?st'"
    using assms first by (simp add: verify_email_def Let_def)
  have wf': "wf_app ?st'" using wf_replace_user [OF assms(1,5)] by simp
  have "uid u \<in> uid ` set (users ?d)" using assms(5) by blast
  then have mem: "?u' \<in> set (users (db_of ?st'))" by (simp add: set_replace_by)
  have first': "first_by email (email u) (users (db_of ?st')) = Some ?u'"
    using wf_first_user_email [OF wf' mem] by simp
  have others: "\<forall>r \<in> set (users ?d). uid r \<noteq> uid u \<longrightarrow> r \<in> set (users (db_of ?st'))"
    using \<open>uid u \<in> uid ` set (users ?d)\<close> by (simp add: set_replace_by)
  have again: "verify_email env tok ?st' =
      (?st', Redirect ''main.login'', [(''info'', ''Your email is already verified. You can login normally.'')])"
    using assms(2-4) first' by (simp add: verify_email_def)
  show ?thesis using step first' others again by simp
qed

theorem verify_email_marks_verified_witness:
  "wf_app ex_app \<and> verify_token ex_env = Some (\<lambda>tok. Some tok) \<and> ex_bob \<in> set (users (db_of ex_app)) \<and>
   first_by email ''bob@example.com'' (users (db_of (fst (verify_email ex_env ''bob@example.com'' ex_app)))) =
     Some (ex_bob\<lparr>email_verified := Some True\<rparr>)"
proof -
  have v: "verify_token ex_env = Some (\<lambda>tok. Some tok)" by (simp add: ex_env_def)
  have t: "(\<lambda>tok. Some tok) ''bob@example.com'' = Some (email ex_bob)" by (simp add: ex_bob_def)
  have ne: "email ex_bob \<noteq> []" by (simp add: ex_bob_def)
  have m: "ex_bob \<in> set (users (db_of ex_app))" by (simp add: ex_app_def)
  have nv: "email_verified ex_bob \<noteq> Some True" by (simp add: ex_bob_def)
  have c: "commit_ok ex_env" by (simp add: ex_env_def)
  show ?thesis using verify_email_marks_verified [OF ex_app_wf v t ne m nv c] ex_app_wf v m
    by (simp add: ex_bob_def)
qed

text \<open>
  C19. With a working hasher, a valid registration for a new e-mail appends one user with
  the normalised e-mail, a fresh id, the hashed password and \<open>email_verified = False\<close>,
  and redirects to the login page; registering the same address again changes nothing.
\<close>

theorem register_creates_unverified_user:
  assumes "reg_form_validates (email_ok env) f" and "gen_hash env = Some h" and "commit_ok env"
    and "\<forall>r \<in> set (users (db_of st)). email r \<noteq> normalize_email (rf_email f)"
  shows "\<exists>u. users (db_of (fst (register env f st))) = users (db_of st) @ [u] \<and>
             email u = normalize_email (rf_email f) \<and> email_verified u = Some False \<and>
             password_hash u = h (rf_password f) \<and> uid u \<notin> set (map uid (users (db_of st))) \<and>
             todos (db_of (fst (register env f st))) = todos (db_of st) \<and>
             fst (snd (register env f st)) = Redirect ''main.login'' \<and>
             (\<forall>f'. normalize_email (rf_email f') = normalize_email (rf_email f) \<longrightarrow>
                db_of (fst (register env f' (fst (register env f st)))) = db_of (fst (register env f st)))"
proof -
  let ?addr = "normalize_email (rf_email f)" and ?d = "db_of st"
  let ?u = "\<lparr>uid = next_rowid (map uid (users ?d)), email = ?addr,
             password_hash = h (rf_password f), email_verified = Some False\<rparr>"
  have none: "first_by email ?addr (users ?d) = None" using assms(4) by (simp add: first_by_None)
  have reg: "fst (register env f st) = st\<lparr>db_of := ?d\<lparr>users := users ?d @ [?u]\<rparr>\<rparr>"
    and resp: "fst (snd (register env f st)) = Redirect ''main.login''"
    using assms(1-3) none by (simp_all add: register_def Let_def split: sum.splits bool.splits)
  have found: "first_by email ?addr (users ?d @ [?u]) = Some ?u"
    using assms(4) by (simp add: first_by_append_new)
  have again: "db_of (fst (register env f' (fst (register env f st)))) = db_of (fst (register env f st))"
    if "normalize_email (rf_email f') = ?addr" for f'
    unfolding reg by (rule arg_cong [OF register_existing]) (use found that in simp)
  show ?thesis
    using reg resp again by (intro exI [of _ ?u]) (simp add: next_rowid_map_notin)
qed

theorem register_creates_unverified_user_witness:
  "reg_form_validates (email_ok ex_env) ex_reg \<and> gen_hash ex_env = Some (\<lambda>p. ''h:'' @ p) \<and>
   (\<exists>u. users (db_of (fst (register ex_env ex_reg ex_app))) = [ex_alice, ex_bob, u] \<and>
        email u = ''carol@example.com'' \<and> email_verified u = Some False)"
proof -
  have v: "reg_form_validates (email_ok ex_env) ex_reg" by code_simp
  have g: "gen_hash ex_env = Some (\<lambda>p. ''h:'' @ p)" by (simp add: ex_env_def)
  have c: "commit_ok ex_env" by (simp add: ex_env_def)
  have n: "normalize_email (rf_email ex_reg) = ''carol@example.com''" by code_simp
  have f: "\<forall>r \<in> set (users (db_of ex_app)). email r \<noteq> normalize_email (rf_email ex_reg)"
    by (simp add: n ex_app_def ex_alice_def ex_bob_def)
  obtain u where u: "users (db_of (fst (register ex_env ex_reg ex_app))) = users (db_of ex_app) @ [u]"
    "email u = normalize_email (rf_email ex_reg)" "email_verified u = Some False"
    using register_creates_unverified_user [OF v g c f] by blast
  have e: "users (db_of ex_app) = [ex_alice, ex_bob]" by (simp add: ex_app_def)
  show ?thesis using u e v g n by auto
qed

text \<open>
  With the names routes.py actually binds, \<open>register\<close> never changes the
  state: \<open>generate_password_hash\<close> is not imported, so the handler raises
  \<open>NameError\<close> inside its \<open>try\<close>, rolls back and reports an error.
\<close>

theorem register_repo_never_creates:
  "fst (register (repo_env h c vt ok eok) f st) = st"
  by (simp add: register_def Let_def split: option.splits)

text \<open>
  With the names routes.py actually binds, \<open>login\<close> never changes the state:
  \<open>check_password_hash\<close> is not imported, so no user can log in.
\<close>

theorem login_repo_never_authenticates:
  "fst (login (repo_env h c vt ok eok) f n st) = st"
  by (simp add: login_def Let_def split: option.splits)

text \<open>
  With the names routes.py actually binds, \<open>verify_email\<close> never verifies:
  importing \<open>verify_email_token\<close> from email_utils fails, \<open>verify_token\<close> is
  \<open>None\<close>, and the handler redirects to the resend page with an error.
\<close>

theorem verify_email_repo_never_verifies:
  "verify_email (repo_env h c vt ok eok) tok st =
     (st, Redirect ''main.resend_verification'',
      [(''error'', ''An error occurred during verification. Please try again.'')])"
  by (simp add: verify_email_def)

text \<open>
  With the names routes.py actually binds, a valid resend request for an unverified
  user fails: \<open>send_verification_email(email)\<close> raises \<open>TypeError\<close>, and the page
  reports that sending failed.
\<close>

theorem resend_verification_repo_fails:
  assumes "resend_form_validates eok f"
    and "first_by email (normalize_email (vf_email f)) (users (db_of st)) = Some u"
    and "email_verified u \<noteq> Some True"
  shows "resend_verification (repo_env h c vt ok eok) f st =
           (st, Render ''resend_verification.html'', [(''error'', ''Failed to send verification email'')])"
proof -
  obtain m where "call_send_verification_email [normalize_email (vf_email f)] = Inl (TypeError m)"
    using call_send_verification_email_raises by blast
  then show ?thesis using assms by (simp add: resend_verification_def)
qed

theorem resend_verification_repo_fails_witness:
  "resend_verification (repo_env (\<lambda>p. p) (\<lambda>x y. x = y) (\<lambda>t::string. Some t) True (\<lambda>e. CHR ''@'' \<in> set e)) ex_resend ex_app =
     (ex_app, Render ''resend_verification.html'', [(''error'', ''Failed to send verification email'')])"
proof -
  have v: "resend_form_validates (\<lambda>e. CHR ''@'' \<in> set e) ex_resend" by code_simp
  have f: "first_by email (normalize_email (vf_email ex_resend)) (users (db_of ex_app)) = Some ex_bob"
    by code_simp
  have e: "email_verified ex_bob \<noteq> Some True" by (simp add: ex_bob_def)
  show ?thesis using resend_verification_repo_fails [OF v f e] .
qed

text \<open>
  C22. A successful login without a \<open>next\<close> page sets the session but then fails on
  \<open>url_for('main.dashboard')\<close>, which names no endpoint: the user sees the login page
  with an error while being logged in.
\<close>

theorem login_dashboard_build_error:
  assumes "login_form_validates (email_ok env) f"
    and "first_by email (normalize_email (lf_email f)) (users (db_of st)) = Some u"
    and "check_hash env = Some chk" and "chk (password_hash u) (lf_password f)"
    and "email_verified u = Some True"
  shows "login env f None st =
           (st\<lparr>session_user := Some (uid u)\<rparr>, Render ''login.html'',
            [(''error'', ''An error occurred during login. Please try again.'')])"
  using assms by (simp add: login_def login_user_def)

theorem login_dashboard_build_error_witness:
  "login_form_validates (email_ok ex_env) ex_login \<and>
   first_by email (normalize_email (lf_email ex_login)) (users (db_of ex_app)) = Some ex_alice \<and>
   login ex_env ex_login None ex_app =
     (ex_app\<lparr>session_user := Some 1\<rparr>, Render ''login.html'',
      [(''error'', ''An error occurred during login. Please try again.'')])"
proof -
  have v: "login_form_validates (email_ok ex_env) ex_login" by code_simp
  have f: "first_by email (normalize_email (lf_email ex_login)) (users (db_of ex_app)) = Some ex_alice"
    by code_simp
  have c: "check_hash ex_env = Some (\<lambda>h p. h = ''h:'' @ p)" by (simp add: ex_env_def)
  have p: "(\<lambda>h p. h = ''h:'' @ p) (password_hash ex_alice) (lf_password ex_login)"
    by (simp add: ex_alice_def ex_login_def)
  have e: "email_verified ex_alice = Some True" by (simp add: ex_alice_def)
  show ?thesis using login_dashboard_build_error [OF v f c p e] v f by (simp add: ex_alice_def)
qed

text \<open>
  C23. \<open>update\<close> never changes a task's reminder settings, owner or creation time,
  and it keeps a task's existing valid category whatever the form selects.
\<close>

theorem update_keeps_reminder_settings:
  assumes "wf_app st" and "t \<in> set (todos (db_of st))"
    and "t' \<in> set (todos (db_of (fst (update env i f st))))" and "todo_id t' = todo_id t"
  shows "reminder_active t' = reminder_active t \<and> reminder_time t' = reminder_time t \<and>
         user_id t' = user_id t \<and> date_created t' = date_created t \<and>
         (\<forall>c. category_id t = Some c \<and> c \<noteq> 0 \<and> c \<in> set (map cat_id (categories (db_of st))) \<longrightarrow>
              category_id t' = Some c)"
proof -
  have d: "distinct (map todo_id (todos (db_of st)))" using assms(1) by (simp add: wf_app_def wf_db_def)
  have same: "r \<in> set (todos (db_of st)) \<Longrightarrow> todo_id r = todo_id t \<Longrightarrow> r = t" for r
    using d assms(2) by (metis distinct_map inj_onD)
  from update_result [of env i f st] show ?thesis
  proof
    assume "fst (update env i f st) = st"
    then show ?thesis using assms(3,4) same by auto
  next
    assume "\<exists>t0 t''. t0 \<in> set (todos (db_of st)) \<and> todo_id t0 = i \<and> todo_id t'' = i \<and>
      reminder_active t'' = reminder_active t0 \<and> reminder_time t'' = reminder_time t0 \<and>
      user_id t'' = user_id t0 \<and> date_created t'' = date_created t0 \<and>
      (\<forall>c. category_id t0 = Some c \<and> c \<noteq> 0 \<and> c \<in> set (map cat_id (categories (db_of st))) \<longrightarrow>
           category_id t'' = Some c) \<and>
      fst (update env i f st) = st\<lparr>db_of := (db_of st)\<lparr>todos := replace_by todo_id i t'' (todos (db_of st))\<rparr>\<rparr>"
    then obtain t0 t'' where h: "t0 \<in> set (todos (db_of st))" "todo_id t0 = i" "todo_id t'' = i"
      "reminder_active t'' = reminder_active t0" "reminder_time t'' = reminder_time t0"
      "user_id t'' = user_id t0" "date_created t'' = date_created t0"
      "\<forall>c. category_id t0 = Some c \<and> c \<noteq> 0 \<and> c \<in> set (map cat_id (categories (db_of st))) \<longrightarrow>
           category_id t'' = Some c"
      and eq: "fst (update env i f st) = st\<lparr>db_of := (db_of st)\<lparr>todos := replace_by todo_id i t'' (todos (db_of st))\<rparr>\<rparr>"
      by blast
    have "i \<in> todo_id ` set (todos (db_of st))" using h(1,2) by blast
    then have "t' \<in> {r \<in> set (todos (db_of st)). todo_id r \<noteq> i} \<union> {t''}"
      using assms(3) eq by (simp add: set_replace_by)
    then show ?thesis
    proof
      assume "t' \<in> {r \<in> set (todos (db_of st)). todo_id r \<noteq> i}"
      then show ?thesis using assms(4) same by auto
    next
      assume "t' \<in> {t''}"
      moreover have "t0 = t" using same h(1,2,3) assms(4) calculation by auto
      ultimately show ?thesis using h by auto
    qed
  qed
qed

theorem update_keeps_reminder_settings_witness:
  "wf_app ex_app \<and> ex_todo \<in> set (todos (db_of ex_app)) \<and>
   (\<exists>t'. t' \<in> set (todos (db_of (fst (update ex_env 1 ex_task_form (ex_app\<lparr>session_user := Some 1\<rparr>))))) \<and>
         todo_id t' = 1 \<and> content t' = ''buy milk'' \<and> reminder_active t' = Some True)"
proof -
  let ?st = "ex_app\<lparr>session_user := Some 1\<rparr>"
  have wf: "wf_app ?st" using ex_app_wf by simp
  have m: "ex_todo \<in> set (todos (db_of ?st))" by (simp add: ex_app_def)
  have r: "todos (db_of (fst (update ex_env 1 ex_task_form ?st))) =
             [ex_todo\<lparr>content := ''buy milk'', due_date := Some 120\<rparr>]"
    by code_simp
  have m': "ex_todo\<lparr>content := ''buy milk'', due_date := Some 120\<rparr> \<in> set (todos (db_of (fst (update ex_env 1 ex_task_form ?st))))"
    by (simp add: r)
  have "reminder_active (ex_todo\<lparr>content := ''buy milk'', due_date := Some 120\<rparr>) = reminder_active ex_todo"
    using update_keeps_reminder_settings [OF wf m m'] by (simp add: ex_todo_def)
  then show ?thesis using ex_app_wf m' by (auto simp: ex_app_def ex_todo_def)
qed

text \<open>
  A valid task form posted to \<open>index\<close> by a logged-in user appends one task with a
  fresh id, owned by that user, with the stripped content, the form's due date and
  reminder flag, and the current time as creation time; the users are unchanged.
\<close>

theorem index_creates_owned_task:
  assumes "current_user st = Some u" and "task_form_validates (categories (db_of st)) f"
    and "commit_ok env"
  shows "\<exists>t. todos (db_of (fst (index env now f st))) = todos (db_of st) @ [t] \<and>
             user_id t = uid u \<and> content t = py_strip (tf_content f) \<and> content t \<noteq> [] \<and>
             reminder_active t = Some (tf_reminder_active f) \<and> due_date t = tf_due_date f \<and>
             date_created t = now \<and> todo_id t \<notin> set (map todo_id (todos (db_of st))) \<and>
             users (db_of (fst (index env now f st))) = users (db_of st)"
  using assms task_form_validates_content [OF assms(2)]
  by (simp add: index_def Let_def next_rowid_map_notin)

theorem index_creates_owned_task_witness:
  "current_user (ex_app\<lparr>session_user := Some 1\<rparr>) = Some ex_alice \<and>
   task_form_validates [] ex_task_form \<and> commit_ok ex_env \<and>
   (\<exists>t. todos (db_of (fst (index ex_env 5 ex_task_form (ex_app\<lparr>session_user := Some 1\<rparr>)))) = [ex_todo, t] \<and>
        user_id t = 1 \<and> content t = ''buy milk'' \<and> reminder_active t = Some True \<and> due_date t = Some 120)"
proof -
  have v: "task_form_validates (categories (db_of (ex_app\<lparr>session_user := Some 1\<rparr>))) ex_task_form"
    by code_simp
  have c: "commit_ok ex_env" by (simp add: ex_env_def)
  have s: "py_strip (tf_content ex_task_form) = ''buy milk''" by code_simp
  obtain t where t: "todos (db_of (fst (index ex_env 5 ex_task_form (ex_app\<lparr>session_user := Some 1\<rparr>)))) =
      todos (db_of (ex_app\<lparr>session_user := Some 1\<rparr>)) @ [t]"
    "user_id t = uid ex_alice" "content t = py_strip (tf_content ex_task_form)"
    "reminder_active t = Some (tf_reminder_active ex_task_form)" "due_date t = tf_due_date ex_task_form"
    using index_creates_owned_task [OF ex_current_alice v c, of 5] by blast
  have e: "todos (db_of (ex_app\<lparr>session_user := Some 1\<rparr>)) = [ex_todo]" "uid ex_alice = 1"
    "tf_reminder_active ex_task_form = True" "tf_due_date ex_task_form = Some 120"
    by (simp_all add: ex_app_def ex_alice_def ex_task_form_def)
  have "categories (db_of (ex_app\<lparr>session_user := Some 1\<rparr>)) = []" by (simp add: ex_app_def)
  then show ?thesis using t e s ex_current_alice v c by auto
qed

text \<open>
  Without a valid submission, \<open>index\<close> renders exactly the current user's tasks,
  ordered by creation time, and changes nothing.
\<close>

theorem index_lists_own_tasks:
  assumes "current_user st = Some u" and "\<not> task_form_validates (categories (db_of st)) f"
  shows "\<exists>ts. index env now f st = (st, RenderTasks ''index.html'' ts, []) \<and>
              mset ts = mset (filter (\<lambda>t. user_id t = uid u) (todos (db_of st))) \<and>
              sorted (map date_created ts)"
  using assms by (auto simp: index_def user_tasks_def Let_def)

theorem index_lists_own_tasks_witness:
  "current_user (ex_app\<lparr>session_user := Some 1\<rparr>) = Some ex_alice \<and>
   \<not> task_form_validates [] (ex_task_form\<lparr>tf_submitted := False\<rparr>) \<and>
   index ex_env 5 (ex_task_form\<lparr>tf_submitted := False\<rparr>) (ex_app\<lparr>session_user := Some 1\<rparr>) =
     (ex_app\<lparr>session_user := Some 1\<rparr>, RenderTasks ''index.html'' [ex_todo], [])"
proof -
  have v: "\<not> task_form_validates (categories (db_of (ex_app\<lparr>session_user := Some 1\<rparr>))) (ex_task_form\<lparr>tf_submitted := False\<rparr>)"
    by (simp add: task_form_validates_def)
  obtain ts where "index ex_env 5 (ex_task_form\<lparr>tf_submitted := False\<rparr>) (ex_app\<lparr>session_user := Some 1\<rparr>) =
      (ex_app\<lparr>session_user := Some 1\<rparr>, RenderTasks ''index.html'' ts, [])"
    and "mset ts = mset (filter (\<lambda>t. user_id t = uid ex_alice) (todos (db_of (ex_app\<lparr>session_user := Some 1\<rparr>))))"
    using index_lists_own_tasks [OF ex_current_alice v] by blast
  moreover have "mset (filter (\<lambda>t. user_id t = uid ex_alice) (todos (db_of (ex_app\<lparr>session_user := Some 1\<rparr>)))) = mset [ex_todo]"
    by (simp add: ex_app_def ex_todo_def ex_alice_def)
  ultimately show ?thesis using ex_current_alice v
    by (simp add: task_form_validates_def mset_eq_length_filter)
qed

text \<open>
  C26. Without a logged-in user, \<open>index\<close>, \<open>update\<close>, \<open>delete\<close> and \<open>logout\<close>
  change nothing and redirect to the login page (\<open>@login_required\<close>).
\<close>

theorem protected_routes_require_login:
  assumes "current_user st = None"
  shows "index env now f st = unauthorized st \<and> update env i f st = unauthorized st \<and>
         delete env i st = unauthorized st \<and> logout st = unauthorized st \<and>
         fst (unauthorized st) = st \<and> fst (snd (unauthorized st)) = Redirect ''main.login''"
  using assms by (simp add: index_def update_def delete_def logout_def unauthorized_def)

theorem protected_routes_require_login_witness:
  "current_user (ex_app\<lparr>session_user := None\<rparr>) = None \<and>
   index ex_env 5 ex_task_form (ex_app\<lparr>session_user := None\<rparr>) = unauthorized (ex_app\<lparr>session_user := None\<rparr>) \<and>
   delete ex_env 1 (ex_app\<lparr>session_user := None\<rparr>) = unauthorized (ex_app\<lparr>session_user := None\<rparr>)"
proof -
  have n: "current_user (ex_app\<lparr>session_user := None\<rparr>) = None" by (simp add: current_user_def)
  show ?thesis using protected_routes_require_login [OF n, of ex_env 5 ex_task_form 1] n by simp
qed

end
