(* ===== verification/TaskStore.thy ===== *)
theory TaskStore
  imports App
begin

text \<open>
  The task store as an abstract data type. The \<open>todo\<close> table, whose key column is
  unique, is read as the map from task id to task (\<open>Prelude.table_map\<close>); the
  specification of the store is a relation on such maps with one event per thing a
  user may do to a task: add one, edit one of their own, delete one of their own. The
  web layer refines it: every request is a step of the specification acted by the
  logged-in user, or a stutter. The column types of \<open>todo\<close> that the forms fix are
  an invariant of the table.
\<close>

section \<open>The abstract store\<close>

type_synonym task_map = "int \<rightharpoonup> todo"

definition task_store :: "app \<Rightarrow> task_map" where
  "task_store st = table_map todo_id (todos (db_of st))"

text \<open>
  The specification: the acting user (\<open>None\<close> for an anonymous request) may add a task
  under a fresh key that it owns, edit its own task keeping key, owner, creation time
  and reminder settings, or delete its own task; anything else leaves the store alone.
\<close>

inductive task_spec :: "int option \<Rightarrow> task_map \<Rightarrow> task_map \<Rightarrow> bool" where
  stutter: "task_spec a m m"
| add: "k \<notin> dom m \<Longrightarrow> todo_id t = k \<Longrightarrow> user_id t = u \<Longrightarrow> task_spec (Some u) m (m(k \<mapsto> t))"
| edit: "m k = Some t \<Longrightarrow> user_id t = u \<Longrightarrow> todo_id t' = k \<Longrightarrow> user_id t' = u \<Longrightarrow>
         date_created t' = date_created t \<Longrightarrow> reminder_active t' = reminder_active t \<Longrightarrow>
         reminder_time t' = reminder_time t \<Longrightarrow> task_spec (Some u) m (m(k \<mapsto> t'))"
| delete: "m k = Some t \<Longrightarrow> user_id t = u \<Longrightarrow> task_spec (Some u) m (m(k := None))"

text \<open>A trace of the specification, labelled with the acting user of each step.\<close>

inductive task_spec_trace :: "int option list \<Rightarrow> task_map \<Rightarrow> task_map \<Rightarrow> bool" where
  Nil: "task_spec_trace [] m m"
| Cons: "task_spec a m m' \<Longrightarrow> task_spec_trace as m' m'' \<Longrightarrow> task_spec_trace (a # as) m m''"

text \<open>The users who act in a run of requests: the session's user before each request.\<close>

fun run_actors :: "'tok env \<Rightarrow> datetime \<Rightarrow> 'tok request list \<Rightarrow> app \<Rightarrow> int option list" where
  "run_actors env now [] st = []"
| "run_actors env now (r # rs) st =
     map_option uid (current_user st) # run_actors env now rs (fst (handle env now r st))"

section \<open>Column types\<close>

text \<open>
  The values the forms allow in the reminder columns: \<open>reminder_active\<close> is a
  \<open>BooleanField\<close>, never NULL once written by a handler, and \<open>reminder_time\<close> one of
  the choices of \<open>TaskForm.reminder_time\<close> read by \<open>int()\<close>.
\<close>

definition todo_typed :: "todo \<Rightarrow> bool" where
  "todo_typed t \<longleftrightarrow>
     reminder_active t \<noteq> None \<and> reminder_time t \<in> {Some 10, Some 30, Some 60, Some 120}"

section \<open>What each handler does to the table\<close>

lemma wf_distinct_todo_ids: "wf_app st \<Longrightarrow> distinct (map todo_id (todos (db_of st)))"
  by (simp add: wf_app_def wf_db_def)

lemma handle_todos_other:
  "(\<forall>f. req \<noteq> ReqIndex f) \<Longrightarrow> (\<forall>i f. req \<noteq> ReqUpdate i f) \<Longrightarrow> (\<forall>i. req \<noteq> ReqDelete i) \<Longrightarrow>
   todos (db_of (fst (handle env now req st))) = todos (db_of st)"
  by (cases req)
     (auto simp: register_def login_def login_user_def logout_def logout_user_def unauthorized_def
                 resend_db verify_email_def Let_def split: option.splits sum.splits)

lemma index_effect:
  "fst (index env now f st) = st \<or>
   (\<exists>u t. current_user st = Some u \<and> task_form_validates (categories (db_of st)) f \<and>
      fst (index env now f st) = st\<lparr>db_of := (db_of st)\<lparr>todos := todos (db_of st) @ [t]\<rparr>\<rparr> \<and>
      todo_id t \<notin> set (map todo_id (todos (db_of st))) \<and> user_id t = uid u \<and>
      content t = py_strip (tf_content f) \<and> due_date t = tf_due_date f \<and> date_created t = now \<and>
      reminder_active t = Some (tf_reminder_active f) \<and> reminder_time t = Some (py_int (tf_reminder_time f)))"
proof (cases "current_user st")
  case None
  then show ?thesis by (simp add: index_def unauthorized_def)
next
  case (Some u)
  let ?d = "db_of st"
  let ?t = "\<lparr>todo_id = next_rowid (map todo_id (todos ?d)), content = py_strip (tf_content f),
            date_created = now, user_id = uid u,
            category_id = form_category (categories ?d) (tf_category f),
            due_date = tf_due_date f, reminder_active = Some (tf_reminder_active f),
            reminder_time = Some (py_int (tf_reminder_time f))\<rparr>"
  show ?thesis
  proof (cases "task_form_validates (categories ?d) f \<and> py_strip (tf_content f) \<noteq> [] \<and> commit_ok env")
    case True
    then show ?thesis using Some
      by (intro disjI2 exI [of _ u] exI [of _ ?t]) (simp add: index_def Let_def next_rowid_map_notin)
  next
    case False
    then show ?thesis using Some by (auto simp: index_def Let_def)
  qed
qed

lemma update_owner:
  "fst (update env i f st) \<noteq> st \<Longrightarrow>
   \<exists>u t. current_user st = Some u \<and> first_by todo_id i (todos (db_of st)) = Some t \<and> user_id t = uid u"
  by (auto simp: update_def Let_def unauthorized_def split: option.splits if_splits)

lemma delete_effect:
  "fst (delete env i st) = st \<or>
   (\<exists>u t. current_user st = Some u \<and> first_by todo_id i (todos (db_of st)) = Some t \<and> user_id t = uid u \<and>
      fst (delete env i st) = st\<lparr>db_of := (db_of st)\<lparr>todos := filter (\<lambda>r. todo_id r \<noteq> i) (todos (db_of st))\<rparr>\<rparr>)"
  by (auto simp: delete_def Let_def unauthorized_def split: option.splits)

section \<open>Refinement\<close>

lemma handle_task_spec:
  assumes wf: "wf_app st"
  shows "task_spec (map_option uid (current_user st)) (task_store st) (task_store (fst (handle env now req st)))"
proof -
  let ?d = "db_of st"
  have d: "distinct (map todo_id (todos ?d))" using wf by (rule wf_distinct_todo_ids)
  have at: "task_store st (todo_id t) = Some t" if "t \<in> set (todos ?d)" for t
    using wf_first_todo [OF wf that] d by (simp add: task_store_def table_map_first_by)
  consider (idx) f where "req = ReqIndex f" | (upd) i f where "req = ReqUpdate i f"
    | (del) i where "req = ReqDelete i"
    | (other) "\<forall>f. req \<noteq> ReqIndex f" "\<forall>i f. req \<noteq> ReqUpdate i f" "\<forall>i. req \<noteq> ReqDelete i"
    by (cases req) auto
  then show ?thesis
  proof cases
    case idx
    consider (same) "fst (index env now f st) = st"
      | (new) u t where "current_user st = Some u" "user_id t = uid u"
          "fst (index env now f st) = st\<lparr>db_of := ?d\<lparr>todos := todos ?d @ [t]\<rparr>\<rparr>"
          "todo_id t \<notin> set (map todo_id (todos ?d))"
      using index_effect [of env now f st] by blast
    then show ?thesis
    proof cases
      case same
      then show ?thesis using idx by (simp add: task_spec.stutter)
    next
      case new
      then show ?thesis using idx
        by (simp add: task_store_def table_map_append task_spec.add)
    qed
  next
    case upd
    show ?thesis
    proof (cases "fst (update env i f st) = st")
      case True
      then show ?thesis using upd by (simp add: task_spec.stutter)
    next
      case False
      obtain u t where cu: "current_user st = Some u" and ft: "first_by todo_id i (todos ?d) = Some t"
        and own: "user_id t = uid u"
        using update_owner [OF False] by blast
      obtain t0 t' where t0: "t0 \<in> set (todos ?d)" "todo_id t0 = i" and t': "todo_id t' = i"
        "reminder_active t' = reminder_active t0" "reminder_time t' = reminder_time t0"
        "user_id t' = user_id t0" "date_created t' = date_created t0"
        and eq: "fst (update env i f st) = st\<lparr>db_of := ?d\<lparr>todos := replace_by todo_id i t' (todos ?d)\<rparr>\<rparr>"
        using update_result [of env i f st] False by blast
      have "t = t0" using ft wf_first_todo [OF wf t0(1)] t0(2) by simp
      then have "task_spec (Some (uid u)) (task_store st) ((task_store st)(i \<mapsto> t'))"
        using at [OF t0(1)] t0(2) t' own by (intro task_spec.edit) auto
      moreover have "i \<in> set (map todo_id (todos ?d))" using t0 by force
      then have "task_store (fst (update env i f st)) = (task_store st)(i \<mapsto> t')"
        using eq t'(1) by (simp add: task_store_def table_map_replace)
      ultimately show ?thesis using upd cu by simp
    qed
  next
    case del
    consider (same) "fst (delete env i st) = st"
      | (gone) u t where "current_user st = Some u" "first_by todo_id i (todos ?d) = Some t"
          "user_id t = uid u"
          "fst (delete env i st) = st\<lparr>db_of := ?d\<lparr>todos := filter (\<lambda>r. todo_id r \<noteq> i) (todos ?d)\<rparr>\<rparr>"
      using delete_effect [of env i st] by blast
    then show ?thesis
    proof cases
      case same
      then show ?thesis using del by (simp add: task_spec.stutter)
    next
      case gone
      have "task_store st i = Some t"
        using gone(2) d by (simp add: task_store_def table_map_first_by)
      then show ?thesis using del gone d
        by (simp add: task_store_def table_map_filter task_spec.delete)
    qed
  next
    case other
    then show ?thesis by (simp add: task_store_def handle_todos_other task_spec.stutter)
  qed
qed

lemma py_int_reminder_choice:
  "c \<in> set reminder_choices \<Longrightarrow> Some (py_int c) \<in> {Some 10, Some 30, Some 60, Some 120}"
  by (auto simp: reminder_choices_def py_int_def)

lemma handle_typed:
  assumes "list_all todo_typed (todos (db_of st))"
  shows "list_all todo_typed (todos (db_of (fst (handle env now req st))))"
proof -
  let ?d = "db_of st"
  have old: "todo_typed t" if "t \<in> set (todos ?d)" for t using assms that by (simp add: list_all_iff)
  consider (idx) f where "req = ReqIndex f" | (upd) i f where "req = ReqUpdate i f"
    | (del) i where "req = ReqDelete i"
    | (other) "\<forall>f. req \<noteq> ReqIndex f" "\<forall>i f. req \<noteq> ReqUpdate i f" "\<forall>i. req \<noteq> ReqDelete i"
    by (cases req) auto
  then show ?thesis
  proof cases
    case idx
    consider (same) "fst (index env now f st) = st"
      | (new) t where "task_form_validates (categories ?d) f"
          "fst (index env now f st) = st\<lparr>db_of := ?d\<lparr>todos := todos ?d @ [t]\<rparr>\<rparr>"
          "reminder_active t = Some (tf_reminder_active f)" "reminder_time t = Some (py_int (tf_reminder_time f))"
      using index_effect [of env now f st] by blast
    then show ?thesis
    proof cases
      case same
      then show ?thesis using idx assms by simp
    next
      case new
      then have "todo_typed t"
        using py_int_reminder_choice [of "tf_reminder_time f"]
        by (auto simp: todo_typed_def task_form_validates_def)
      then show ?thesis using idx new(2) assms by simp
    qed
  next
    case upd
    from update_result [of env i f st] show ?thesis
    proof (elim disjE exE conjE)
      assume "fst (update env i f st) = st"
      then show ?thesis using upd assms by simp
    next
      fix t0 t'
      assume t0: "t0 \<in> set (todos ?d)" and "todo_id t0 = i" and "todo_id t' = i"
        and ra: "reminder_active t' = reminder_active t0" and rt: "reminder_time t' = reminder_time t0"
        and eq: "fst (update env i f st) = st\<lparr>db_of := ?d\<lparr>todos := replace_by todo_id i t' (todos ?d)\<rparr>\<rparr>"
      have "todo_typed t'" using old [OF t0] ra rt by (simp add: todo_typed_def)
      then show ?thesis using upd eq old by (auto simp: list_all_iff set_replace_by)
    qed
  next
    case del
    then show ?thesis using delete_effect [of env i st] assms by (auto simp: list_all_iff)
  next
    case other
    then show ?thesis using assms by (simp add: handle_todos_other)
  qed
qed

section \<open>Examples\<close>

lemma ex_delete_run: "todos (db_of (run_requests ex_env 5 [ReqDelete 1] (ex_app\<lparr>session_user := Some 1\<rparr>))) = []"
  by code_simp

section \<open>Properties\<close>

text \<open>
  C34. Refinement: every run of requests on well-formed tables is a trace of the
  abstract task store, each step acted by the user logged in before the request: a user
  only adds tasks it owns under fresh keys, and only edits or deletes its own tasks;
  editing keeps key, owner, creation time and reminder settings; an anonymous request
  never changes the store.
\<close>

theorem run_requests_refines_task_spec:
  "wf_app st \<Longrightarrow>
   task_spec_trace (run_actors env now reqs st) (task_store st) (task_store (run_requests env now reqs st))"
proof (induction reqs arbitrary: st)
  case Nil
  then show ?case by (simp add: task_spec_trace.Nil)
next
  case (Cons r rs)
  from Cons.prems have "wf_app (fst (handle env now r st))" by (rule handle_wf)
  with Cons.IH have "task_spec_trace (run_actors env now rs (fst (handle env now r st)))
      (task_store (fst (handle env now r st))) (task_store (run_requests env now rs (fst (handle env now r st))))"
    by blast
  with handle_task_spec [OF Cons.prems, of env now r] show ?case by (simp add: task_spec_trace.Cons)
qed

theorem run_requests_refines_task_spec_witness:
  "wf_app (ex_app\<lparr>session_user := Some 1\<rparr>) \<and>
   task_spec_trace (run_actors ex_env 5 [ReqDelete 1] (ex_app\<lparr>session_user := Some 1\<rparr>))
     (task_store (ex_app\<lparr>session_user := Some 1\<rparr>)) Map.empty"
proof -
  have wf: "wf_app (ex_app\<lparr>session_user := Some 1\<rparr>)" using ex_app_wf by simp
  have "task_store (run_requests ex_env 5 [ReqDelete 1] (ex_app\<lparr>session_user := Some 1\<rparr>)) = Map.empty"
    by (simp only: task_store_def ex_delete_run table_map_Nil)
  then show ?thesis
    using run_requests_refines_task_spec [OF wf, of ex_env 5 "[ReqDelete 1]"] wf by simp
qed

text \<open>
  C35. Column types: if every stored task has a non-NULL \<open>reminder_active\<close> and a
  \<open>reminder_time\<close> among the form's choices (10, 30, 60 or 120 minutes), every run of
  requests keeps it so.
\<close>

theorem run_requests_typed:
  "list_all todo_typed (todos (db_of st)) \<Longrightarrow>
   list_all todo_typed (todos (db_of (run_requests env now reqs st)))"
proof (induction reqs arbitrary: st)
  case Nil
  then show ?case by simp
next
  case (Cons r rs)
  then show ?case by (simp add: handle_typed)
qed

theorem run_requests_typed_witness:
  "list_all todo_typed (todos (db_of (ex_app\<lparr>session_user := Some 1\<rparr>))) \<and>
   list_all todo_typed (todos (db_of (run_requests ex_env 5 [ReqIndex ex_task_form] (ex_app\<lparr>session_user := Some 1\<rparr>))))"
proof -
  have t: "list_all todo_typed (todos (db_of (ex_app\<lparr>session_user := Some 1\<rparr>)))"
    by (simp add: ex_app_def ex_todo_def todo_typed_def)
  show ?thesis using run_requests_typed [OF t, of ex_env 5 "[ReqIndex ex_task_form]"] t by blast
qed

end
