(* ===== verification/World.thy ===== *)
theory World
  imports Startup TaskStore
begin

text \<open>
  The running application as one state machine: the web server serving requests
  (\<open>App.handle\<close>) and the background scheduler running the reminder job, which
  creates the application again on every run (\<open>Startup.create_app_full\<close>), interleaved
  in any order with the passing of time and the \<open>atexit\<close> shutdown. Each event of this
  system refines an event of the scheduler process \<open>Reminders.sys_step\<close> (a request
  is a change of the rows), so the properties proved there hold of the whole system.
\<close>

section \<open>The composed system\<close>

record world =
  w_app :: app
  w_proc :: proc
  w_log :: "log_entry list"
  w_clock :: datetime

definition init_world :: "app \<Rightarrow> datetime \<Rightarrow> world" where
  "init_world a t =
     \<lparr>w_app = a, w_proc = \<lparr>fb_initialised = False, proc_sched = init_sched\<rparr>, w_log = [], w_clock = t\<rparr>"

text \<open>
  The events, for an environment \<open>getenv\<close>, a key parser \<open>pem_ok\<close> and the handlers'
  collaborators \<open>env\<close>: the start of the server (\<open>run.py\<close> calling \<open>create_app\<close>),
  a request, a run of the job (whose own \<open>create_app\<close> may fail, and whose query may
  fail), time passing, and the shutdown hook.
\<close>

inductive world_step ::
  "(string \<Rightarrow> string option) \<Rightarrow> (string \<Rightarrow> bool) \<Rightarrow> 'tok env \<Rightarrow> world \<Rightarrow> world \<Rightarrow> bool"
  for getenv pem_ok env where
  boot: "create_app_full getenv pem_ok (w_proc w) = Inr (p', l) \<Longrightarrow>
     world_step getenv pem_ok env w (w\<lparr>w_proc := p', w_log := w_log w @ l\<rparr>)"
| request: "world_step getenv pem_ok env w (w\<lparr>w_app := fst (handle env (w_clock w) r (w_app w))\<rparr>)"
| fire: "running (proc_sched (w_proc w)) \<Longrightarrow> (''check_reminders'', j) \<in> set (jobs (proc_sched (w_proc w))) \<Longrightarrow>
     check_reminders (tick_env_of getenv pem_ok q (w_proc w)) (w_clock w) (proc_sched (w_proc w))
       (todos (db_of (w_app w))) = (s', l) \<Longrightarrow>
     world_step getenv pem_ok env w
       (w\<lparr>w_proc := \<lparr>fb_initialised = fb_initialised (w_proc w) \<or>
                                       tick_env_of getenv pem_ok q (w_proc w) \<noteq> AppInitFails,
                      proc_sched = s'\<rparr>,
          w_log := w_log w @ l\<rparr>)"
| advance: "w_clock w \<le> t \<Longrightarrow> world_step getenv pem_ok env w (w\<lparr>w_clock := t\<rparr>)"
| shutdown: "shutdown_scheduler (proc_sched (w_proc w)) = (s', l) \<Longrightarrow>
     world_step getenv pem_ok env w (w\<lparr>w_proc := (w_proc w)\<lparr>proc_sched := s'\<rparr>, w_log := w_log w @ l\<rparr>)"

inductive world_reach ::
  "(string \<Rightarrow> string option) \<Rightarrow> (string \<Rightarrow> bool) \<Rightarrow> 'tok env \<Rightarrow> app \<Rightarrow> datetime \<Rightarrow> world \<Rightarrow> bool"
  for getenv pem_ok env a0 t0 where
  init: "world_reach getenv pem_ok env a0 t0 (init_world a0 t0)"
| step: "world_reach getenv pem_ok env a0 t0 w \<Longrightarrow> world_step getenv pem_ok env w w' \<Longrightarrow>
     world_reach getenv pem_ok env a0 t0 w'"

text \<open>What the scheduler process of \<open>Reminders\<close> sees of the world: the rows of \<open>todo\<close>.\<close>

definition world_sys :: "world \<Rightarrow> sys" where
  "world_sys w =
     \<lparr>sched_of = proc_sched (w_proc w), store = todos (db_of (w_app w)), log = w_log w, clock = w_clock w\<rparr>"

text \<open>An environment with the Firebase variables set, and a key parser that accepts.\<close>

definition ex_getenv :: "string \<Rightarrow> string option" where
  "ex_getenv = [''FIREBASE_TYPE'' \<mapsto> ''service_account'', ''FIREBASE_PRIVATE_KEY'' \<mapsto> ''key'']"

section \<open>Each event refines an event of the scheduler process\<close>

lemma create_app_full_Inr:
  "create_app_full getenv pem_ok p = Inr (p', l) \<Longrightarrow> start_scheduler (proc_sched p) = (proc_sched p', l)"
  by (auto simp: create_app_full_def split: sum.splits if_splits prod.splits)

lemma boot_refines_boot:
  "create_app_full getenv pem_ok (w_proc w) = Inr (p', l) \<Longrightarrow>
   sys_step (world_sys w) (world_sys (w\<lparr>w_proc := p', w_log := w_log w @ l\<rparr>))"
proof -
  assume "create_app_full getenv pem_ok (w_proc w) = Inr (p', l)"
  then have "start_scheduler (sched_of (world_sys w)) = (proc_sched p', l)"
    using create_app_full_Inr by (simp add: world_sys_def)
  from sys_step.boot [OF this] show ?thesis by (simp add: world_sys_def)
qed

lemma request_refines_mutate:
  "sys_step (world_sys w) (world_sys (w\<lparr>w_app := a\<rparr>))"
  using sys_step.mutate [of "world_sys w" "todos (db_of a)"] by (simp add: world_sys_def)

lemma fire_refines_fire:
  "running (proc_sched (w_proc w)) \<Longrightarrow> (''check_reminders'', j) \<in> set (jobs (proc_sched (w_proc w))) \<Longrightarrow>
   check_reminders e (w_clock w) (proc_sched (w_proc w)) (todos (db_of (w_app w))) = (s', l) \<Longrightarrow>
   sys_step (world_sys w) (world_sys (w\<lparr>w_proc := \<lparr>fb_initialised = b, proc_sched = s'\<rparr>, w_log := w_log w @ l\<rparr>))"
  using sys_step.fire [of "world_sys w" j e s' l] by (simp add: world_sys_def)

lemma advance_refines_advance:
  "w_clock w \<le> t \<Longrightarrow> sys_step (world_sys w) (world_sys (w\<lparr>w_clock := t\<rparr>))"
  using sys_step.advance [of "world_sys w" t] by (simp add: world_sys_def)

lemma shutdown_refines_shutdown:
  "shutdown_scheduler (proc_sched (w_proc w)) = (s', l) \<Longrightarrow>
   sys_step (world_sys w) (world_sys (w\<lparr>w_proc := (w_proc w)\<lparr>proc_sched := s'\<rparr>, w_log := w_log w @ l\<rparr>))"
  using sys_step.shutdown [of "world_sys w" s' l] by (simp add: world_sys_def)

lemma world_step_refines:
  "world_step getenv pem_ok env w w' \<Longrightarrow> sys_step (world_sys w) (world_sys w')"
  by (induction rule: world_step.induct)
     (auto intro: boot_refines_boot request_refines_mutate fire_refines_fire advance_refines_advance
                  shutdown_refines_shutdown)

lemma world_step_wf:
  "world_step getenv pem_ok env w w' \<Longrightarrow> wf_app (w_app w) \<Longrightarrow> wf_app (w_app w')"
  by (induction rule: world_step.induct) (simp_all add: handle_wf)

lemma world_reach_sys:
  "world_reach getenv pem_ok env a0 t0 w \<Longrightarrow> reachable (todos (db_of a0)) t0 (world_sys w)"
proof (induction rule: world_reach.induct)
  case init
  have "world_sys (init_world a0 t0) = init_sys (todos (db_of a0)) t0"
    by (simp add: world_sys_def init_world_def init_sys_def)
  then show ?case by (simp add: reachable.init)
next
  case (step w w')
  then show ?case by (blast intro: reachable.step world_step_refines)
qed

lemma world_reach_wf:
  "world_reach getenv pem_ok env a0 t0 w \<Longrightarrow> wf_app a0 \<Longrightarrow> wf_app (w_app w)"
  by (induction rule: world_reach.induct) (auto simp: init_world_def intro: world_step_wf)

text \<open>Every reminder a reachable state has logged names a due date that has passed.\<close>

lemma world_reach_log_sound:
  assumes "world_reach getenv pem_ok env a0 t0 w" and "LogReminder c d \<in> set (w_log w)"
  shows "\<exists>d'. d = Some d' \<and> d' \<le> w_clock w"
proof -
  have "sys_inv (world_sys w)" using world_reach_sys [OF assms(1)] by (blast intro: reachable_sys_inv)
  then have "reminder_sound (w_clock w) (LogReminder c d)"
    using assms(2) by (auto simp: sys_inv_def list_all_iff world_sys_def simp del: reminder_sound.simps)
  then show ?thesis by (simp split: option.splits)
qed

lemma ex_boot:
  "create_app_full ex_getenv (\<lambda>k. True) (w_proc (init_world ex_app 0)) =
     Inr (\<lparr>fb_initialised = True, proc_sched = fst (start_scheduler init_sched)\<rparr>, snd (start_scheduler init_sched))"
  by (simp add: create_app_full_def load_config_def getenv_int_def certificate_ok_def firebase_private_key_def
                ex_getenv_def init_world_def split: prod.split)

end
