(* ===== verification/Trigger.thy ===== *)
theory Trigger
  imports Reminders
begin

text \<open>
  The interval trigger behind \<open>scheduler.add_job(func=check_reminders, trigger="interval",
  minutes=1, ...)\<close> (extensions.py, lines 86--92) and the loop of the scheduler that turns
  it into runs of the job. The trigger and the loop are APScheduler's (\<open>IntervalTrigger\<close>,
  \<open>Job._get_run_times\<close>, \<open>BaseScheduler._process_jobs\<close> with the default job options
  \<open>coalesce=True\<close>, \<open>misfire_grace_time=1\<close>); they are modelled from its documented
  behaviour, times in whole seconds, with no end date and no jitter, as the call sets none.
\<close>

section \<open>The interval trigger\<close>

record interval_trigger =
  trig_start :: datetime
  trig_interval :: int  \<comment> \<open>seconds\<close>

text \<open>
  \<open>IntervalTrigger(minutes=m)\<close> created at time \<open>now\<close>: an interval of length zero
  becomes one second, and the start date defaults to \<open>now + interval\<close>.
\<close>

definition make_interval_trigger :: "int \<Rightarrow> datetime \<Rightarrow> interval_trigger" where
  "make_interval_trigger secs now =
     (let i = (if secs = 0 then 1 else secs) in \<lparr>trig_start = now + i, trig_interval = i\<rparr>)"

text \<open>The trigger of the reminder job, \<open>minutes=1\<close>.\<close>

definition reminder_trigger :: "datetime \<Rightarrow> interval_trigger" where
  "reminder_trigger t0 = make_interval_trigger (job_interval reminder_job) t0"

text \<open>
  \<open>IntervalTrigger.get_next_fire_time(previous_fire_time, now)\<close>: one interval after the
  previous fire time; with none, the start date, or the first start date plus a whole
  number of intervals at or after \<open>now\<close> (\<open>ceil(timediff / interval_length)\<close>).
\<close>

definition get_next_fire_time :: "interval_trigger \<Rightarrow> datetime option \<Rightarrow> datetime \<Rightarrow> datetime" where
  "get_next_fire_time tr prev now =
     (case prev of
        Some p \<Rightarrow> p + trig_interval tr
      | None \<Rightarrow>
          (if now < trig_start tr then trig_start tr
           else trig_start tr + trig_interval tr * (- ((trig_start tr - now) div trig_interval tr))))"

text \<open>
  \<open>Job._get_run_times(now)\<close>: the loop \<open>while next_run_time <= now\<close> collecting every
  fire time that has passed. Whether it ends depends on the trigger, so it is a partial
  function: a loop that runs forever is the value \<open>None\<close>.
\<close>

partial_function (option) get_run_times ::
  "interval_trigger \<Rightarrow> datetime \<Rightarrow> datetime \<Rightarrow> datetime list option" where
  "get_run_times tr nxt now =
     (if nxt \<le> now
      then Option.bind (get_run_times tr (get_next_fire_time tr (Some nxt) now) now) (\<lambda>ts. Some (nxt # ts))
      else Some [])"

text \<open>The fire times of the trigger from \<open>nxt\<close> up to \<open>now\<close>, counted out.\<close>

definition run_times_upto :: "interval_trigger \<Rightarrow> datetime \<Rightarrow> datetime \<Rightarrow> datetime list" where
  "run_times_upto tr nxt now =
     (if nxt \<le> now
      then map (\<lambda>k. nxt + int k * trig_interval tr) [0..<Suc (nat ((now - nxt) div trig_interval tr))]
      else [])"

text \<open>
  One wake-up of the scheduler for a due job (\<open>_process_jobs\<close> with the defaults
  \<open>coalesce=True\<close> and \<open>misfire_grace_time=1\<close>): the passed fire times are
  coalesced into the last one, which the executor runs only if it is at most the grace
  time late, and the next run time is the fire time after it. The result is the list of
  run times actually executed and the new \<open>next_run_time\<close>.
\<close>

definition misfire_grace_time :: int where
  "misfire_grace_time = 1"

definition process_job ::
  "interval_trigger \<Rightarrow> datetime \<Rightarrow> datetime \<Rightarrow> (datetime list \<times> datetime) option" where
  "process_job tr nxt now =
     (if nxt \<le> now then
        Option.bind (get_run_times tr nxt now) (\<lambda>rts.
          (let rts' = (if rts \<noteq> [] then [last rts] else rts)
           in Some (filter (\<lambda>rt. now - rt \<le> misfire_grace_time) rts',
                    get_next_fire_time tr (Some (last rts')) now)))
      else Some ([], nxt))"

section \<open>Termination of the run-time loop\<close>

lemma run_times_upto_step:
  assumes "0 < trig_interval tr" "nxt \<le> now"
  shows "run_times_upto tr nxt now = nxt # run_times_upto tr (nxt + trig_interval tr) now"
proof -
  let ?i = "trig_interval tr"
  let ?n = "nat ((now - nxt) div ?i)"
  have shift: "(now - nxt) div ?i = (now - (nxt + ?i)) div ?i + 1"
    using div_add_self2 [of ?i "now - (nxt + ?i)"] assms(1) by simp
  show ?thesis
  proof (cases "nxt + ?i \<le> now")
    case True
    then have n: "?n = Suc (nat ((now - (nxt + ?i)) div ?i))"
      using assms(1) shift by (simp add: pos_imp_zdiv_nonneg_iff nat_add_distrib)
    show ?thesis
      unfolding run_times_upto_def using True assms(2)
      by (simp only: n map_upt_Suc if_True) (simp add: algebra_simps)
  next
    case False
    then have "(now - nxt) div ?i = 0" using assms by (simp add: div_pos_pos_trivial)
    then show ?thesis using False assms(2) by (simp add: run_times_upto_def)
  qed
qed

lemma get_run_times_terminates:
  assumes "0 < trig_interval tr"
  shows "get_run_times tr nxt now = Some (run_times_upto tr nxt now)"
proof (induction "nat (now - nxt + 1)" arbitrary: nxt rule: less_induct)
  case less
  show ?case
  proof (cases "nxt \<le> now")
    case True
    have "nat (now - (nxt + trig_interval tr) + 1) < nat (now - nxt + 1)"
      using assms True by simp
    then have "get_run_times tr (nxt + trig_interval tr) now =
               Some (run_times_upto tr (nxt + trig_interval tr) now)"
      by (rule less)
    then show ?thesis using True assms
      by (subst get_run_times.simps) (simp add: get_next_fire_time_def run_times_upto_step)
  next
    case False
    then show ?thesis by (subst get_run_times.simps) (simp add: run_times_upto_def)
  qed
qed

lemma get_run_times_diverges:
  assumes "trig_interval tr \<le> 0" "nxt \<le> now"
  shows "get_run_times tr nxt now = None"
proof -
  have "get_run_times tr n now \<noteq> Some ts" if "n \<le> now" for ts n
    using that
  proof (induction ts arbitrary: n)
    case Nil
    then show ?case by (subst get_run_times.simps) (auto simp: bind_eq_Some_conv)
  next
    case (Cons t ts)
    have "n + trig_interval tr \<le> now" using Cons.prems assms(1) by simp
    then have "get_run_times tr (n + trig_interval tr) now \<noteq> Some ts" by (rule Cons.IH)
    then show ?case using Cons.prems
      by (subst get_run_times.simps) (auto simp: bind_eq_Some_conv get_next_fire_time_def)
  qed
  then show ?thesis using assms(2) by (cases "get_run_times tr nxt now") auto
qed

lemma make_interval_trigger_pos:
  "0 \<le> secs \<Longrightarrow> 0 < trig_interval (make_interval_trigger secs t)"
  by (simp add: make_interval_trigger_def Let_def)

lemma reminder_trigger_simps [simp]:
  "trig_interval (reminder_trigger t0) = 60" "trig_start (reminder_trigger t0) = fire_time t0 1"
  by (simp_all add: reminder_trigger_def make_interval_trigger_def fire_time_def reminder_job_def)

lemma last_run_times_upto:
  assumes "0 < trig_interval tr" "nxt \<le> now"
  shows "run_times_upto tr nxt now \<noteq> [] \<and>
         last (run_times_upto tr nxt now) = nxt + (now - nxt) div trig_interval tr * trig_interval tr"
proof -
  have "0 \<le> (now - nxt) div trig_interval tr" using assms by (simp add: pos_imp_zdiv_nonneg_iff)
  then show ?thesis using assms by (simp add: run_times_upto_def)
qed

lemma process_job_next:
  assumes "0 < trig_interval tr" "nxt \<le> now" "process_job tr nxt now = Some (runs, nxt')"
  shows "nxt' = nxt + ((now - nxt) div trig_interval tr + 1) * trig_interval tr \<and> length runs \<le> 1"
proof -
  have "process_job tr nxt now =
      Some (filter (\<lambda>rt. now - rt \<le> misfire_grace_time) [last (run_times_upto tr nxt now)],
            last (run_times_upto tr nxt now) + trig_interval tr)"
    using assms(2) last_run_times_upto [OF assms(1,2)] get_run_times_terminates [OF assms(1), of nxt now]
    by (simp add: process_job_def get_next_fire_time_def)
  then show ?thesis using assms(3) last_run_times_upto [OF assms(1,2)] by (simp add: algebra_simps)
qed

lemma div_mult_bounds:
  assumes "0 < (i::int)" "0 \<le> x"
  shows "x div i * i \<le> x \<and> x < x div i * i + i"
  using assms by (simp add: mult.commute [of _ i] minus_mod_eq_mult_div [symmetric])

lemma fire_time_add: "fire_time t0 k + int n * 60 = fire_time t0 (k + n)"
  by (simp add: fire_time_def reminder_job_def algebra_simps)

text \<open>
  C13. Catching up after the scheduler thread has not run: whenever the job's next run
  time is a fire time \<open>fire_time t0 k\<close> that has passed, one wake-up runs the job at most
  once, for the latest passed fire time \<open>fire_time t0 m\<close> and only if it is at most
  \<open>misfire_grace_time\<close> (one second) late; every earlier fire time is dropped, and the next
  run is the first fire time after \<open>now\<close>.
\<close>

theorem reminder_job_catch_up:
  assumes "fire_time t0 k \<le> now"
  shows "\<exists>m. k \<le> m \<and> fire_time t0 m \<le> now \<and> now < fire_time t0 (Suc m) \<and>
           process_job (reminder_trigger t0) (fire_time t0 k) now =
             Some (if now - fire_time t0 m \<le> 1 then [fire_time t0 m] else [], fire_time t0 (Suc m))"
proof -
  let ?tr = "reminder_trigger t0" and ?nxt = "fire_time t0 k"
  define n where "n = nat ((now - ?nxt) div 60)"
  have pos: "0 < trig_interval ?tr" by simp
  have n0: "int n = (now - ?nxt) div 60"
    using assms by (simp add: n_def pos_imp_zdiv_nonneg_iff)
  have last: "run_times_upto ?tr ?nxt now \<noteq> []" "last (run_times_upto ?tr ?nxt now) = fire_time t0 (k + n)"
    using last_run_times_upto [OF pos assms] fire_time_add [of t0 k n] n0 by simp_all
  have b: "fire_time t0 (k + n) \<le> now \<and> now < fire_time t0 (Suc (k + n))"
    using div_mult_bounds [of 60 "now - ?nxt"] assms fire_time_add [of t0 k n] n0
    by (simp add: fire_time_def reminder_job_def algebra_simps)
  have pj: "process_job ?tr ?nxt now =
      Some (filter (\<lambda>rt. now - rt \<le> 1) [last (run_times_upto ?tr ?nxt now)],
            last (run_times_upto ?tr ?nxt now) + 60)"
    using assms last(1) get_run_times_terminates [OF pos, of ?nxt now]
    by (simp add: process_job_def misfire_grace_time_def get_next_fire_time_def)
  have "process_job ?tr ?nxt now =
          Some (if now - fire_time t0 (k + n) \<le> 1 then [fire_time t0 (k + n)] else [],
                fire_time t0 (Suc (k + n)))"
    unfolding pj last(2) using fire_time_add [of t0 "k + n" 1] by simp
  then show ?thesis using b by (intro exI [of _ "k + n"]) simp
qed

theorem reminder_job_catch_up_witness:
  "fire_time 0 1 \<le> 200 \<and>
   process_job (reminder_trigger 0) (fire_time 0 1) 200 = Some ([], fire_time 0 4) \<and>
   process_job (reminder_trigger 0) (fire_time 0 1) 181 = Some ([fire_time 0 3], fire_time 0 4)"
proof -
  obtain m where m: "fire_time 0 m \<le> 200" "200 < fire_time 0 (Suc m)"
    "process_job (reminder_trigger 0) (fire_time 0 1) 200 =
       Some (if 200 - fire_time 0 m \<le> 1 then [fire_time 0 m] else [], fire_time 0 (Suc m))"
    using reminder_job_catch_up [of 0 1 200] by (auto simp: fire_time_def reminder_job_def)
  obtain m' where m': "fire_time 0 m' \<le> 181" "181 < fire_time 0 (Suc m')"
    "process_job (reminder_trigger 0) (fire_time 0 1) 181 =
       Some (if 181 - fire_time 0 m' \<le> 1 then [fire_time 0 m'] else [], fire_time 0 (Suc m'))"
    using reminder_job_catch_up [of 0 1 181] by (auto simp: fire_time_def reminder_job_def)
  have "m = 3" using m(1,2) by (simp add: fire_time_def reminder_job_def)
  moreover have "m' = 3" using m'(1,2) by (simp add: fire_time_def reminder_job_def)
  ultimately
  show ?thesis using m(3) m'(3) by (simp add: fire_time_def reminder_job_def)
qed

end
