(* ===== verification/Runtime.thy ===== *)
theory Runtime
  imports World Trigger
begin

text \<open>
  The running process at the grain of its threads. The job thread runs
  \<open>check_reminders\<close> (extensions.py, lines 19--56) in two parts: it creates the
  application and queries the due tasks (\<open>Todo.query.filter(...).all()\<close> at
  \<open>datetime.utcnow()\<close>), then logs the loaded tasks one by one in its \<open>for\<close> loop and
  finally the count. Requests are served between any two of these steps. The scheduler
  wakes when the job's next run time has passed and handles it as
  \<open>Trigger.process_job\<close> says; with APScheduler's default \<open>max_instances=1\<close>, a run that
  falls due while the previous one is still in progress is skipped. \<open>shutdown()\<close>
  (\<open>wait=True\<close>) returns only once no run is in progress. The system is shown to refine
  \<open>World.world_step\<close>, the same events with each run of the job taken atomically.
\<close>

section \<open>One run of the job, split at its query\<close>

text \<open>A run in progress: the loaded tasks still to be logged, and \<open>len(due_tasks)\<close>.\<close>

record tick =
  tick_due :: "todo list"
  tick_count :: nat

text \<open>
  The first part of \<open>check_reminders\<close>: \<open>create_app()\<close> and the query. A failure of
  either is logged and ends the run; otherwise the run continues with the loaded rows.
\<close>

definition tick_read ::
  "tick_env \<Rightarrow> datetime \<Rightarrow> sched \<Rightarrow> todo list \<Rightarrow> sched \<times> log_entry list \<times> tick option" where
  "tick_read env now s rows =
     (case create_app env s of
        None \<Rightarrow> (s, [LogSchedulerError], None)
      | Some (s', l) \<Rightarrow>
          (if env = QueryFails then (s', l @ [LogDatabaseError], None)
           else
             (let due_tasks = due_query now rows
              in (s', l, Some \<lparr>tick_due = due_tasks, tick_count = length due_tasks\<rparr>))))"

text \<open>\<open>if due_tasks: logger.info(f"Processed {len(due_tasks)} due reminders")\<close>.\<close>

definition tick_processed :: "nat \<Rightarrow> log_entry list" where
  "tick_processed n = (if n \<noteq> 0 then [LogProcessed n] else [])"

text \<open>What the rest of a run in progress will log.\<close>

definition tick_report :: "tick \<Rightarrow> log_entry list" where
  "tick_report k = map reminder_log (tick_due k) @ tick_processed (tick_count k)"

definition pending :: "tick option \<Rightarrow> log_entry list" where
  "pending k = (case k of None \<Rightarrow> [] | Some k' \<Rightarrow> tick_report k')"

section \<open>The process\<close>

text \<open>
  The state: the composed system of \<open>World\<close>, the job's entry in the memory job store
  (its trigger and \<open>next_run_time\<close>; \<open>None\<close> before the job is first added), and the
  job's run in progress, of which there is at most one.
\<close>

record runtime =
  rt_world :: world
  rt_job :: "(interval_trigger \<times> datetime) option"
  rt_tick :: "tick option"

definition init_runtime :: "app \<Rightarrow> datetime \<Rightarrow> runtime" where
  "init_runtime a t = \<lparr>rt_world = init_world a t, rt_job = None, rt_tick = None\<rparr>"

text \<open>
  \<open>scheduler.add_job(..., trigger="interval", minutes=1, replace_existing=True)\<close> at
  time \<open>now\<close> (extensions.py, lines 86--92): a new trigger, and the next run time its
  \<open>get_next_fire_time(None, now)\<close> gives.
\<close>

definition add_reminder_job :: "datetime \<Rightarrow> interval_trigger \<times> datetime" where
  "add_reminder_job now = (reminder_trigger now, get_next_fire_time (reminder_trigger now) None now)"

text \<open>
  The events: a call of \<open>create_app\<close> by the server (run.py; the job's own call is part
  of \<open>wake_run\<close>), a request, a wake-up of the scheduler that starts a run, misses it
  (more than the grace time late) or skips it (a run is still in progress), one
  iteration of the job's \<open>for\<close> loop, the end of the run, time, and the shutdown hook.
\<close>

inductive rt_step ::
  "(string \<Rightarrow> string option) \<Rightarrow> (string \<Rightarrow> bool) \<Rightarrow> 'tok env \<Rightarrow> runtime \<Rightarrow> runtime \<Rightarrow> bool"
  for getenv pem_ok env where
  boot: "rt_tick r = None \<Longrightarrow> create_app_full getenv pem_ok (w_proc (rt_world r)) = Inr (p', l) \<Longrightarrow>
     rt_step getenv pem_ok env r
       (r\<lparr>rt_world := (rt_world r)\<lparr>w_proc := p', w_log := w_log (rt_world r) @ l\<rparr>,
          rt_job := (if running (proc_sched (w_proc (rt_world r))) then rt_job r
                     else Some (add_reminder_job (w_clock (rt_world r))))\<rparr>)"
| request: "rt_step getenv pem_ok env r
     (r\<lparr>rt_world := (rt_world r)\<lparr>w_app := fst (handle env (w_clock (rt_world r)) rq (w_app (rt_world r)))\<rparr>\<rparr>)"
| wake_run: "running (proc_sched (w_proc (rt_world r))) \<Longrightarrow>
     (''check_reminders'', j) \<in> set (jobs (proc_sched (w_proc (rt_world r)))) \<Longrightarrow>
     rt_job r = Some (tr, nxt) \<Longrightarrow> nxt \<le> w_clock (rt_world r) \<Longrightarrow>
     process_job tr nxt (w_clock (rt_world r)) = Some ([t], nxt') \<Longrightarrow> rt_tick r = None \<Longrightarrow>
     tick_read (tick_env_of getenv pem_ok q (w_proc (rt_world r))) (w_clock (rt_world r))
       (proc_sched (w_proc (rt_world r))) (todos (db_of (w_app (rt_world r)))) = (s', l, k) \<Longrightarrow>
     rt_step getenv pem_ok env r
       \<lparr>rt_world = (rt_world r)\<lparr>w_proc := \<lparr>fb_initialised = fb_initialised (w_proc (rt_world r)) \<or>
                                   tick_env_of getenv pem_ok q (w_proc (rt_world r)) \<noteq> AppInitFails,
                                 proc_sched = s'\<rparr>,
                                w_log := w_log (rt_world r) @ l\<rparr>,
        rt_job = Some (tr, nxt'), rt_tick = k\<rparr>"
| wake_missed: "running (proc_sched (w_proc (rt_world r))) \<Longrightarrow>
     rt_job r = Some (tr, nxt) \<Longrightarrow> nxt \<le> w_clock (rt_world r) \<Longrightarrow>
     process_job tr nxt (w_clock (rt_world r)) = Some ([], nxt') \<Longrightarrow>
     rt_step getenv pem_ok env r (r\<lparr>rt_job := Some (tr, nxt')\<rparr>)"
| wake_busy: "running (proc_sched (w_proc (rt_world r))) \<Longrightarrow>
     rt_job r = Some (tr, nxt) \<Longrightarrow> nxt \<le> w_clock (rt_world r) \<Longrightarrow>
     process_job tr nxt (w_clock (rt_world r)) = Some ([t], nxt') \<Longrightarrow> rt_tick r = Some k \<Longrightarrow>
     rt_step getenv pem_ok env r (r\<lparr>rt_job := Some (tr, nxt')\<rparr>)"
| report: "rt_tick r = Some k \<Longrightarrow> tick_due k = t # ts \<Longrightarrow>
     rt_step getenv pem_ok env r
       (r\<lparr>rt_world := (rt_world r)\<lparr>w_log := w_log (rt_world r) @ [reminder_log t]\<rparr>,
          rt_tick := Some (k\<lparr>tick_due := ts\<rparr>)\<rparr>)"
| finish: "rt_tick r = Some k \<Longrightarrow> tick_due k = [] \<Longrightarrow>
     rt_step getenv pem_ok env r
       (r\<lparr>rt_world := (rt_world r)\<lparr>w_log := w_log (rt_world r) @ tick_processed (tick_count k)\<rparr>,
          rt_tick := None\<rparr>)"
| advance: "w_clock (rt_world r) \<le> t' \<Longrightarrow>
     rt_step getenv pem_ok env r (r\<lparr>rt_world := (rt_world r)\<lparr>w_clock := t'\<rparr>\<rparr>)"
| shutdown: "rt_tick r = None \<Longrightarrow> shutdown_scheduler (proc_sched (w_proc (rt_world r))) = (s', l) \<Longrightarrow>
     rt_step getenv pem_ok env r
       (r\<lparr>rt_world := (rt_world r)\<lparr>w_proc := (w_proc (rt_world r))\<lparr>proc_sched := s'\<rparr>,
                                   w_log := w_log (rt_world r) @ l\<rparr>\<rparr>)"

inductive rt_reach ::
  "(string \<Rightarrow> string option) \<Rightarrow> (string \<Rightarrow> bool) \<Rightarrow> 'tok env \<Rightarrow> app \<Rightarrow> datetime \<Rightarrow> runtime \<Rightarrow> bool"
  for getenv pem_ok env a0 t0 where
  init: "rt_reach getenv pem_ok env a0 t0 (init_runtime a0 t0)"
| step: "rt_reach getenv pem_ok env a0 t0 r \<Longrightarrow> rt_step getenv pem_ok env r r' \<Longrightarrow>
     rt_reach getenv pem_ok env a0 t0 r'"

text \<open>
  The abstraction to \<open>World\<close>: a run in progress counts as done, its remaining log lines
  already written.
\<close>

definition rt_abs :: "runtime \<Rightarrow> world" where
  "rt_abs r = (rt_world r)\<lparr>w_log := w_log (rt_world r) @ pending (rt_tick r)\<rparr>"

text \<open>
  The job's entry is on the minute grid of its trigger; the tasks a run in progress
  still has to log are at most the ones it counted, and were due when loaded, so by
  the clock \<open>now\<close>.
\<close>

definition job_ok :: "(interval_trigger \<times> datetime) option \<Rightarrow> bool" where
  "job_ok j = (case j of
                 None \<Rightarrow> True
               | Some (tr, nxt) \<Rightarrow> trig_interval tr = 60 \<and> trig_start tr \<le> nxt \<and>
                                   (nxt - trig_start tr) mod 60 = 0)"

definition tick_ok :: "datetime \<Rightarrow> tick option \<Rightarrow> bool" where
  "tick_ok now k = (case k of
                      None \<Rightarrow> True
                    | Some k' \<Rightarrow> length (tick_due k') \<le> tick_count k' \<and>
                                list_all (\<lambda>t. is_due_spec t now) (tick_due k'))"

text \<open>
  The invariant of the process: a run is in progress only while the scheduler runs, so
  a shutdown never leaves one behind; a running scheduler has the job in its store; and
  the two conditions above.
\<close>

definition rt_inv :: "runtime \<Rightarrow> bool" where
  "rt_inv r \<longleftrightarrow>
     (rt_tick r \<noteq> None \<longrightarrow> running (proc_sched (w_proc (rt_world r)))) \<and>
     (running (proc_sched (w_proc (rt_world r))) \<longrightarrow> rt_job r \<noteq> None) \<and>
     tick_ok (w_clock (rt_world r)) (rt_tick r) \<and> job_ok (rt_job r)"

section \<open>An example run\<close>

text \<open>
  Alice logged in; the process started at time 0, and at time 60 a run of the job has
  loaded her task \<open>ex_todo\<close> (due at 50) and not yet logged it.
\<close>

definition ex_rt_app :: app where
  "ex_rt_app = ex_app\<lparr>session_user := Some 1\<rparr>"

definition ex_inflight :: runtime where
  "ex_inflight =
     \<lparr>rt_world = \<lparr>w_app = ex_rt_app,
                  w_proc = \<lparr>fb_initialised = True, proc_sched = fst (start_scheduler init_sched)\<rparr>,
                  w_log = [LogSchedulerStarted, LogSchedulerAlreadyRunning], w_clock = 60\<rparr>,
      rt_job = Some (reminder_trigger 0, 120),
      rt_tick = Some \<lparr>tick_due = [ex_todo], tick_count = 1\<rparr>\<rparr>"

section \<open>Lemmas\<close>

lemma check_reminders_tick_read:
  "check_reminders env now s rows = (case tick_read env now s rows of (s', l, k) \<Rightarrow> (s', l @ pending k))"
  by (simp add: check_reminders_def tick_read_def pending_def tick_report_def tick_processed_def
                Let_def split: option.splits)

lemma rt_step_refines:
  "rt_step getenv pem_ok env r r' \<Longrightarrow>
   world_step getenv pem_ok env (rt_abs r) (rt_abs r') \<or> rt_abs r' = rt_abs r"
proof (induction rule: rt_step.induct)
  case (boot r p' l)
  then show ?case using world_step.boot [of getenv pem_ok "rt_abs r" p' l env]
    by (simp add: rt_abs_def pending_def)
next
  case (request r rq)
  then show ?case using world_step.request [of getenv pem_ok env "rt_abs r" rq]
    by (cases "rt_world r") (simp add: rt_abs_def)
next
  case (wake_run r j tr nxt t nxt' q s' l k)
  have "check_reminders (tick_env_of getenv pem_ok q (w_proc (rt_abs r))) (w_clock (rt_abs r))
          (proc_sched (w_proc (rt_abs r))) (todos (db_of (w_app (rt_abs r)))) = (s', l @ pending k)"
    using wake_run.hyps(7) by (simp add: check_reminders_tick_read rt_abs_def)
  from world_step.fire [where env = env, OF _ _ this] wake_run.hyps(1,2,6) show ?case
    by (simp add: rt_abs_def pending_def)
next
  case (advance r t')
  then show ?case using world_step.advance [of "rt_abs r" t' getenv pem_ok env]
    by (cases "rt_world r") (simp add: rt_abs_def)
next
  case (shutdown r s' l)
  then show ?case using world_step.shutdown [of "rt_abs r" s' l getenv pem_ok env]
    by (simp add: rt_abs_def pending_def)
qed (simp_all add: rt_abs_def pending_def tick_report_def)

lemma rt_reach_abs:
  "rt_reach getenv pem_ok env a0 t0 r \<Longrightarrow> world_reach getenv pem_ok env a0 t0 (rt_abs r)"
proof (induction rule: rt_reach.induct)
  case init
  have "rt_abs (init_runtime a0 t0) = init_world a0 t0"
    by (simp add: rt_abs_def init_runtime_def init_world_def pending_def)
  then show ?case by (simp add: world_reach.init)
next
  case (step r r')
  then show ?case using rt_step_refines [OF step.hyps(2)] by (auto intro: world_reach.step)
qed

lemma tick_read_running:
  "running s \<Longrightarrow> tick_read env now s rows = (s', l, k) \<Longrightarrow> s' = s \<and> tick_ok now k"
  by (auto simp: tick_read_def create_app_def tick_ok_def due_query_spec list_all_iff Let_def
           split: if_splits)

lemma job_ok_step:
  assumes "job_ok (Some (tr, nxt))" "nxt \<le> now" "process_job tr nxt now = Some (runs, nxt')"
  shows "job_ok (Some (tr, nxt'))"
proof -
  have i: "trig_interval tr = 60" and st: "trig_start tr \<le> nxt" and g: "60 dvd nxt - trig_start tr"
    using assms(1) by (auto simp: job_ok_def)
  have "nxt' = nxt + ((now - nxt) div 60 + 1) * 60"
    using process_job_next [of tr nxt now runs nxt'] assms(2,3) i by simp
  moreover have "0 \<le> (now - nxt) div 60" using assms(2) by simp
  ultimately have eq: "nxt' - trig_start tr = (nxt - trig_start tr) + 60 * ((now - nxt) div 60 + 1)"
    and le: "trig_start tr \<le> nxt'"
    using st by (simp_all add: algebra_simps)
  have "60 dvd nxt' - trig_start tr" unfolding eq using g by (rule dvd_add) simp
  then show ?thesis using i le by (simp add: job_ok_def)
qed

lemma job_ok_add: "job_ok (Some (add_reminder_job now))"
  by (simp add: job_ok_def add_reminder_job_def get_next_fire_time_def fire_time_def reminder_job_def)

lemma tick_ok_mono: "tick_ok now k \<Longrightarrow> now \<le> now' \<Longrightarrow> tick_ok now' k"
  by (auto simp: tick_ok_def list_all_iff intro: is_due_spec_mono split: option.splits)

lemma tick_ok_report:
  "tick_ok now (Some k) \<Longrightarrow> tick_due k = t # ts \<Longrightarrow> tick_ok now (Some (k\<lparr>tick_due := ts\<rparr>))"
  by (simp add: tick_ok_def)

lemma rt_step_inv:
  "rt_step getenv pem_ok env r r' \<Longrightarrow> rt_inv r \<Longrightarrow> rt_inv r'"
proof (induction rule: rt_step.induct)
  case (boot r p' l)
  then have "start_scheduler (proc_sched (w_proc (rt_world r))) = (proc_sched p', l)"
    by (blast intro: create_app_full_Inr)
  then have "proc_sched p' = fst (start_scheduler (proc_sched (w_proc (rt_world r))))" by simp
  then have "running (proc_sched p')" by (simp add: start_scheduler_def)
  then show ?case using boot.prems boot.hyps(1) by (simp add: rt_inv_def job_ok_add)
next
  case (wake_run r j tr nxt t nxt' q s' l k)
  have "s' = proc_sched (w_proc (rt_world r))" "tick_ok (w_clock (rt_world r)) k"
    using tick_read_running [OF wake_run.hyps(1,7)] by simp_all
  moreover have "job_ok (Some (tr, nxt'))"
    using job_ok_step wake_run.prems wake_run.hyps(3,4,5) by (simp add: rt_inv_def) blast
  ultimately show ?case using wake_run.hyps(1) by (simp add: rt_inv_def)
next
  case (wake_missed r tr nxt nxt')
  then have "job_ok (Some (tr, nxt'))" using job_ok_step by (simp add: rt_inv_def) blast
  then show ?case using wake_missed.prems by (simp add: rt_inv_def)
next
  case (wake_busy r tr nxt t nxt' k)
  then have "job_ok (Some (tr, nxt'))" using job_ok_step by (simp add: rt_inv_def) blast
  then show ?case using wake_busy.prems by (simp add: rt_inv_def)
next
  case (report r k t ts)
  then show ?case using tick_ok_report [of _ k t ts] by (simp add: rt_inv_def)
next
  case (advance r t')
  then show ?case using tick_ok_mono by (simp add: rt_inv_def) blast
next
  case (shutdown r s' l)
  then show ?case by (auto simp: rt_inv_def shutdown_scheduler_def split: if_splits)
qed (simp_all add: rt_inv_def tick_ok_def)

lemma rt_reach_inv:
  "rt_reach getenv pem_ok env a0 t0 r \<Longrightarrow> rt_inv r"
proof (induction rule: rt_reach.induct)
  case init
  show ?case by (simp add: rt_inv_def tick_ok_def job_ok_def init_runtime_def init_world_def init_sched_def)
next
  case (step r r')
  from step.hyps(2) step.IH show ?case by (rule rt_step_inv)
qed

lemma rt_reach_requests:
  "rt_reach getenv pem_ok env a0 t0 r \<Longrightarrow>
   rt_reach getenv pem_ok env a0 t0
     (r\<lparr>rt_world := (rt_world r)\<lparr>w_app := run_requests env (w_clock (rt_world r)) reqs (w_app (rt_world r))\<rparr>\<rparr>)"
proof (induction reqs arbitrary: r)
  case Nil
  then show ?case by simp
next
  case (Cons rq reqs)
  have "rt_reach getenv pem_ok env a0 t0
          (r\<lparr>rt_world := (rt_world r)\<lparr>w_app := fst (handle env (w_clock (rt_world r)) rq (w_app (rt_world r)))\<rparr>\<rparr>)"
    using Cons.prems by (blast intro: rt_reach.step rt_step.request)
  from Cons.IH [OF this] show ?case by simp
qed

lemma rt_reach_reports:
  "rt_reach getenv pem_ok env a0 t0 r \<Longrightarrow> rt_tick r = Some \<lparr>tick_due = ts, tick_count = n\<rparr> \<Longrightarrow>
   rt_reach getenv pem_ok env a0 t0
     (r\<lparr>rt_world := (rt_world r)\<lparr>w_log := w_log (rt_world r) @ map reminder_log ts\<rparr>,
        rt_tick := Some \<lparr>tick_due = [], tick_count = n\<rparr>\<rparr>)"
proof (induction ts arbitrary: r)
  case Nil
  then have "r\<lparr>rt_world := (rt_world r)\<lparr>w_log := w_log (rt_world r) @ map reminder_log []\<rparr>,
               rt_tick := Some \<lparr>tick_due = [], tick_count = n\<rparr>\<rparr> = r"
    by (cases r) simp
  then show ?case using Nil.prems(1) by simp
next
  case (Cons t ts)
  let ?r1 = "r\<lparr>rt_world := (rt_world r)\<lparr>w_log := w_log (rt_world r) @ [reminder_log t]\<rparr>,
               rt_tick := Some \<lparr>tick_due = ts, tick_count = n\<rparr>\<rparr>"
  have "rt_step getenv pem_ok env r ?r1"
    using rt_step.report [OF Cons.prems(2), of t ts getenv pem_ok env] by simp
  with Cons.prems(1) have "rt_reach getenv pem_ok env a0 t0 ?r1" by (rule rt_reach.step)
  from Cons.IH [OF this] show ?case by simp
qed

text \<open>
  C21. The process with its threads refines the composed system of \<open>World\<close>: with the
  remaining log lines of a run in progress counted as written, every reachable state is
  a reachable state of \<open>World.world_reach\<close>. So the tables stay well formed, and every
  reminder in the log names a due date that is not after the clock, whatever requests
  are served while a run is in progress.
\<close>

theorem runtime_refines_world:
  assumes "rt_reach getenv pem_ok env a0 t0 r" and "wf_app a0"
  shows "world_reach getenv pem_ok env a0 t0 (rt_abs r) \<and> wf_app (w_app (rt_world r)) \<and>
         (\<forall>c d. LogReminder c d \<in> set (w_log (rt_world r)) \<longrightarrow> (\<exists>d'. d = Some d' \<and> d' \<le> w_clock (rt_world r)))"
proof -
  have w: "world_reach getenv pem_ok env a0 t0 (rt_abs r)" using assms(1) by (rule rt_reach_abs)
  have "wf_app (w_app (rt_abs r))" using world_reach_wf [OF w assms(2)] .
  moreover have "LogReminder c d \<in> set (w_log (rt_world r)) \<Longrightarrow> \<exists>d'. d = Some d' \<and> d' \<le> w_clock (rt_world r)"
    for c d using world_reach_log_sound [OF w, of c d] by (simp add: rt_abs_def)
  ultimately show ?thesis using w by (simp add: rt_abs_def)
qed

text \<open>
  C24. In every reachable state of the process: a run of the job is in progress only
  while the scheduler runs (the shutdown hook waits for it), a running scheduler has the
  job in its store, a run in progress logs only tasks that were due when it loaded them,
  and the job's next run time is on the minute grid of its trigger.
\<close>

theorem runtime_invariant:
  assumes "rt_reach getenv pem_ok env a0 t0 r"
  shows "rt_inv r"
  using assms by (rule rt_reach_inv)

text \<open>
  C25. No ordering between requests and a run in progress: whatever requests are served
  after a run has loaded the due tasks, the run still completes and logs exactly the tasks
  it loaded (even ones a request has meanwhile deleted or switched off), while the
  requests' changes take effect for the next run. With no requests, the split run logs
  what the atomic \<open>check_reminders\<close> logs.
\<close>

theorem tick_reports_snapshot:
  assumes "rt_reach getenv pem_ok env a0 t0 r" and "rt_tick r = Some k"
  shows "rt_reach getenv pem_ok env a0 t0
           (r\<lparr>rt_world := (rt_world r)\<lparr>w_app := run_requests env (w_clock (rt_world r)) reqs (w_app (rt_world r)),
                                       w_log := w_log (rt_world r) @ tick_report k\<rparr>,
              rt_tick := None\<rparr>)"
proof -
  let ?r1 = "r\<lparr>rt_world := (rt_world r)\<lparr>w_app := run_requests env (w_clock (rt_world r)) reqs (w_app (rt_world r))\<rparr>\<rparr>"
  have r1: "rt_reach getenv pem_ok env a0 t0 ?r1" using assms(1) by (rule rt_reach_requests)
  obtain ts n where k: "k = \<lparr>tick_due = ts, tick_count = n\<rparr>" by (cases k)
  have "rt_tick ?r1 = Some \<lparr>tick_due = ts, tick_count = n\<rparr>" using assms(2) k by simp
  from rt_reach_reports [OF r1 this]
  have r2: "rt_reach getenv pem_ok env a0 t0
      (?r1\<lparr>rt_world := (rt_world ?r1)\<lparr>w_log := w_log (rt_world ?r1) @ map reminder_log ts\<rparr>,
           rt_tick := Some \<lparr>tick_due = [], tick_count = n\<rparr>\<rparr>)" .
  have "rt_step getenv pem_ok env
      (?r1\<lparr>rt_world := (rt_world ?r1)\<lparr>w_log := w_log (rt_world ?r1) @ map reminder_log ts\<rparr>,
           rt_tick := Some \<lparr>tick_due = [], tick_count = n\<rparr>\<rparr>)
      (r\<lparr>rt_world := (rt_world r)\<lparr>w_app := run_requests env (w_clock (rt_world r)) reqs (w_app (rt_world r)),
                                   w_log := w_log (rt_world r) @ tick_report k\<rparr>,
         rt_tick := None\<rparr>)"
    using rt_step.finish [of "?r1\<lparr>rt_world := (rt_world ?r1)\<lparr>w_log := w_log (rt_world ?r1) @ map reminder_log ts\<rparr>,
           rt_tick := Some \<lparr>tick_due = [], tick_count = n\<rparr>\<rparr>" "\<lparr>tick_due = [], tick_count = n\<rparr>" getenv pem_ok env]
    by (simp add: tick_report_def k)
  with r2 show ?thesis by (rule rt_reach.step)
qed


lemma ex_process_job: "process_job (reminder_trigger 0) 60 60 = Some ([60], 120)"
  by (simp add: process_job_def get_run_times_terminates run_times_upto_def misfire_grace_time_def
                get_next_fire_time_def)

lemma ex_inflight_reach: "rt_reach ex_getenv (\<lambda>k. True) ex_env ex_rt_app 0 ex_inflight"
proof -
  let ?s1 = "fst (start_scheduler init_sched)"
  let ?p1 = "\<lparr>fb_initialised = True, proc_sched = ?s1\<rparr>"
  let ?r1 = "\<lparr>rt_world = \<lparr>w_app = ex_rt_app, w_proc = ?p1, w_log = [LogSchedulerStarted], w_clock = 0\<rparr>,
             rt_job = Some (reminder_trigger 0, 60), rt_tick = None\<rparr>"
  let ?r2 = "?r1\<lparr>rt_world := (rt_world ?r1)\<lparr>w_clock := 60\<rparr>\<rparr>"
  have boot: "create_app_full ex_getenv (\<lambda>k. True) (w_proc (rt_world (init_runtime ex_rt_app 0))) =
                Inr (?p1, [LogSchedulerStarted])"
    using ex_boot by (simp add: init_runtime_def init_world_def start_scheduler_def init_sched_def)
  have "rt_step ex_getenv (\<lambda>k. True) ex_env (init_runtime ex_rt_app 0) ?r1"
    using rt_step.boot [OF _ boot, of ex_env]
    by (simp add: init_runtime_def init_world_def init_sched_def add_reminder_job_def get_next_fire_time_def
                  fire_time_def reminder_job_def)
  then have r1: "rt_reach ex_getenv (\<lambda>k. True) ex_env ex_rt_app 0 ?r1" by (rule rt_reach.step [OF rt_reach.init])
  have "rt_step ex_getenv (\<lambda>k. True) ex_env ?r1 ?r2" by (rule rt_step.advance) simp
  with r1 have r2: "rt_reach ex_getenv (\<lambda>k. True) ex_env ex_rt_app 0 ?r2" by (rule rt_reach.step)
  have run: "running (proc_sched (w_proc (rt_world ?r2)))"
    and job: "(''check_reminders'', reminder_job) \<in> set (jobs (proc_sched (w_proc (rt_world ?r2))))"
    by (simp_all add: start_scheduler_def init_sched_def add_job_def)
  have env: "tick_env_of ex_getenv (\<lambda>k. True) True ?p1 = TickOk"
    by (simp add: tick_env_of_def create_app_full_def load_config_def getenv_int_def ex_getenv_def
                  split: prod.split)
  have rd: "tick_read (tick_env_of ex_getenv (\<lambda>k. True) True (w_proc (rt_world ?r2))) (w_clock (rt_world ?r2))
              (proc_sched (w_proc (rt_world ?r2))) (todos (db_of (w_app (rt_world ?r2)))) =
            (?s1, [LogSchedulerAlreadyRunning], Some \<lparr>tick_due = [ex_todo], tick_count = 1\<rparr>)"
    using env by (simp add: tick_read_def create_app_def ex_rt_app_def ex_app_def due_query_spec
                            is_due_spec_def ex_todo_def start_scheduler_def init_sched_def)
  have "rt_step ex_getenv (\<lambda>k. True) ex_env ?r2 ex_inflight"
    using rt_step.wake_run [OF run job _ _ _ _ rd, of "reminder_trigger 0" 60 60 120 ex_env] ex_process_job env
    by (simp add: ex_inflight_def)
  with r2 show ?thesis by (rule rt_reach.step)
qed

lemma ex_rt_app_wf: "wf_app ex_rt_app"
  using ex_app_wf by (simp add: ex_rt_app_def wf_app_def)

lemma ex_inflight_tick: "rt_tick ex_inflight = Some \<lparr>tick_due = [ex_todo], tick_count = 1\<rparr>"
  by (simp add: ex_inflight_def)

theorem runtime_refines_world_witness:
  "world_reach ex_getenv (\<lambda>k. True) ex_env ex_rt_app 0 (rt_abs ex_inflight) \<and>
   wf_app (w_app (rt_world ex_inflight)) \<and>
   LogReminder ''pay rent'' (Some 50) \<in> set (w_log (rt_abs ex_inflight))"
  using runtime_refines_world [OF ex_inflight_reach ex_rt_app_wf]
  by (simp add: rt_abs_def pending_def tick_report_def ex_inflight_def reminder_log_def ex_todo_def)

theorem runtime_invariant_witness:
  "rt_inv ex_inflight \<and> rt_tick ex_inflight \<noteq> None"
  using runtime_invariant [OF ex_inflight_reach] by (simp add: ex_inflight_def)

theorem tick_reports_snapshot_witness:
  "rt_reach ex_getenv (\<lambda>k. True) ex_env ex_rt_app 0
     (ex_inflight\<lparr>rt_world := (rt_world ex_inflight)\<lparr>w_app := run_requests ex_env 60 [ReqDelete 1] ex_rt_app,
                    w_log := w_log (rt_world ex_inflight) @ tick_report \<lparr>tick_due = [ex_todo], tick_count = 1\<rparr>\<rparr>,
                  rt_tick := None\<rparr>) \<and>
   todos (db_of (run_requests ex_env 60 [ReqDelete 1] ex_rt_app)) = [] \<and>
   tick_report \<lparr>tick_due = [ex_todo], tick_count = 1\<rparr> = [LogReminder ''pay rent'' (Some 50), LogProcessed 1]"
proof -
  have "rt_reach ex_getenv (\<lambda>k. True) ex_env ex_rt_app 0
     (ex_inflight\<lparr>rt_world := (rt_world ex_inflight)\<lparr>w_app := run_requests ex_env (w_clock (rt_world ex_inflight))
                       [ReqDelete 1] (w_app (rt_world ex_inflight)),
                    w_log := w_log (rt_world ex_inflight) @ tick_report \<lparr>tick_due = [ex_todo], tick_count = 1\<rparr>\<rparr>,
                  rt_tick := None\<rparr>)"
    by (rule tick_reports_snapshot [OF ex_inflight_reach ex_inflight_tick])
  moreover have "w_clock (rt_world ex_inflight) = 60" "w_app (rt_world ex_inflight) = ex_rt_app"
    by (simp_all add: ex_inflight_def)
  moreover have "todos (db_of (run_requests ex_env 60 [ReqDelete 1] ex_rt_app)) = []"
    by (simp add: delete_def current_user_def first_by_def ex_rt_app_def ex_app_def ex_alice_def ex_bob_def ex_todo_def
                  ex_env_def Let_def)
  ultimately show ?thesis
    by (simp add: tick_report_def tick_processed_def reminder_log_def ex_todo_def)
qed

end
