(* ===== verification/Firebase.thy ===== *)
theory Firebase
  imports Web
begin

text \<open>
  The Firebase helpers of \<open>src/focusflow/routes.py\<close> (lines 20--57): the bearer token
  read from the \<open>Authorization\<close> header, the route \<open>/protected\<close>, and the loader of a
  Firebase user. The identity provider (\<open>firebase_auth.verify_id_token\<close>,
  \<open>firebase_auth.get_user\<close>) is a parameter: a verifier returns the decoded claims of a
  token or \<open>None\<close> when it raises.
\<close>

section \<open>Decoded tokens\<close>

text \<open>A decoded ID token, a JSON object, as its list of fields; an empty object is falsy.\<close>

type_synonym claims = "(string \<times> string) list"

text \<open>
  \<open>verify_firebase_token()\<close> (lines 28--40): no header or an empty one gives \<open>None\<close>;
  otherwise the last space-separated word of the header (\<open>split(' ').pop()\<close>, which
  drops a \<open>Bearer\<close> prefix) is verified, and any exception of the verifier gives
  \<open>None\<close>. The claims stored in \<open>g.current_user\<close> are read by no modelled code.
\<close>

definition verify_firebase_token :: "(string \<Rightarrow> claims option) \<Rightarrow> string option \<Rightarrow> claims option" where
  "verify_firebase_token vf hdr =
     (case hdr of
        None \<Rightarrow> None
      | Some h \<Rightarrow> if h = [] then None else vf (last (py_split_space h)))"

text \<open>
  \<open>protected()\<close> (lines 43--48): 401 unless the verified claims are truthy; then a
  greeting with \<open>user['email']\<close>, whose \<open>KeyError\<close> Flask turns into a 500.
\<close>

definition protected :: "(string \<Rightarrow> claims option) \<Rightarrow> string option \<Rightarrow> response" where
  "protected vf hdr =
     (case verify_firebase_token vf hdr of
        None \<Rightarrow> Json 401 ''Unauthorized''
      | Some c \<Rightarrow>
          (if c = [] then Json 401 ''Unauthorized''
           else case map_of c ''email'' of
                  None \<Rightarrow> Abort 500
                | Some e \<Rightarrow> Json 200 (''Hello '' @ e @ ''!'')))"

section \<open>Loading a Firebase user\<close>

text \<open>\<open>FirebaseUser\<close> (lines 21--25).\<close>

record fb_user =
  fb_uid :: string
  fb_email :: string
  fb_email_verified :: bool

text \<open>What \<open>firebase_auth.get_user(uid)\<close> does: return a record, raise \<open>UserNotFoundError\<close>, or raise anything else.\<close>

datatype fb_lookup =
    FbFound string string bool  \<comment> \<open>a user record: its uid, email and email_verified\<close>
  | FbNotFound
  | FbFails py_exc

text \<open>\<open>load_firebase_user(uid)\<close> (lines 52--57): only \<open>UserNotFoundError\<close> is caught.\<close>

definition load_firebase_user :: "(string \<Rightarrow> fb_lookup) \<Rightarrow> string \<Rightarrow> py_exc + fb_user option" where
  "load_firebase_user get_user fid =
     (case get_user fid of
        FbFound i e v \<Rightarrow> Inr (Some \<lparr>fb_uid = i, fb_email = e, fb_email_verified = v\<rparr>)
      | FbNotFound \<Rightarrow> Inr None
      | FbFails e \<Rightarrow> Inl e)"

section \<open>Example\<close>

text \<open>A provider that accepts the one token \<open>abc\<close>.\<close>

definition ex_vf :: "string \<Rightarrow> claims option" where
  "ex_vf t = (if t = ''abc'' then Some [(''email'', ''a@b.com'')] else None)"

section \<open>Lemmas\<close>

lemma py_split_space_not_Nil [simp]: "py_split_space s \<noteq> []"
  by (induction s rule: py_split_space.induct) (auto split: list.splits)

lemma length_py_split_space: "length (py_split_space s) = Suc (count_list s CHR '' '')"
  by (induction s rule: py_split_space.induct) (auto split: list.splits)

lemma py_split_space_no_space: "CHR '' '' \<notin> set s \<Longrightarrow> py_split_space s = [s]"
  by (induction s rule: py_split_space.induct) auto

lemma last_py_split_space:
  "last (py_split_space (xs @ CHR '' '' # ys)) = last (py_split_space ys)"
proof (induction xs)
  case Nil
  then show ?case by simp
next
  case (Cons c xs)
  have len: "2 \<le> length (py_split_space (xs @ CHR '' '' # ys))"
    by (simp add: length_py_split_space)
  obtain w ws where ws: "py_split_space (xs @ CHR '' '' # ys) = w # ws"
    by (cases "py_split_space (xs @ CHR '' '' # ys)") auto
  with len have "ws \<noteq> []" by auto
  with ws show ?case using Cons.IH by (simp split: list.splits)
qed

section \<open>Properties\<close>

text \<open>
  C31. The token verified is the word after the last space of the header: for a token
  without spaces, \<open>Bearer tok\<close> (any scheme) and the bare \<open>tok\<close> are verified as
  \<open>tok\<close>.
\<close>

theorem bearer_token_verified:
  assumes "CHR '' '' \<notin> set tok"
  shows "verify_firebase_token vf (Some (scheme @ CHR '' '' # tok)) = vf tok \<and>
         (tok \<noteq> [] \<longrightarrow> verify_firebase_token vf (Some tok) = vf tok)"
  using assms by (simp add: verify_firebase_token_def last_py_split_space py_split_space_no_space)

theorem bearer_token_verified_witness:
  "CHR '' '' \<notin> set ''abc'' \<and>
   verify_firebase_token ex_vf (Some (''Bearer'' @ CHR '' '' # ''abc'')) = Some [(''email'', ''a@b.com'')]"
proof -
  have n: "CHR '' '' \<notin> set ''abc''" by simp
  show ?thesis using bearer_token_verified [OF n, of ex_vf "''Bearer''"] n by (simp add: ex_vf_def)
qed

text \<open>
  C32. \<open>/protected\<close> answers 200 only to a header whose last word the provider
  verifies, with non-empty claims that hold an e-mail, and greets that e-mail; without
  a header it answers 401.
\<close>

theorem protected_requires_verified_claims:
  assumes "protected vf hdr = Json 200 m"
  shows "\<exists>h c e. hdr = Some h \<and> h \<noteq> [] \<and> vf (last (py_split_space h)) = Some c \<and> c \<noteq> [] \<and>
                 map_of c ''email'' = Some e \<and> m = ''Hello '' @ e @ ''!''"
  using assms
  by (auto simp: protected_def verify_firebase_token_def split: option.splits if_splits)

theorem protected_requires_verified_claims_witness:
  "protected ex_vf (Some ''Bearer abc'') = Json 200 ''Hello a@b.com!'' \<and>
   (\<exists>h c e. Some ''Bearer abc'' = Some h \<and> h \<noteq> [] \<and> ex_vf (last (py_split_space h)) = Some c \<and>
      c \<noteq> [] \<and> map_of c ''email'' = Some e \<and> ''Hello a@b.com!'' = ''Hello '' @ e @ ''!'')"
proof -
  have p: "protected ex_vf (Some ''Bearer abc'') = Json 200 ''Hello a@b.com!''" by code_simp
  show ?thesis using protected_requires_verified_claims [OF p] p by blast
qed

end
