(* ===== verification/Session.thy ===== *)
theory Session
  imports Web PyInt
begin

text \<open>
  The session cookie of Flask-Login. \<open>login_user\<close> stores \<open>user.get_id()\<close>, which
  \<open>UserMixin\<close> defines as \<open>str(self.id)\<close>; on each request the cookie's value is
  handed to the \<open>user_loader\<close> of \<open>__init__.py\<close>, \<open>load_user(user_id)\<close>, which
  computes \<open>User.query.get(int(user_id))\<close>. The theory \<open>Web\<close> keeps the session as
  the integer id; the lemma below shows that reading it through the string cookie gives
  the same user.
\<close>

definition get_id :: "user \<Rightarrow> string" where
  "get_id u = py_str_int (uid u)"

definition load_user :: "user list \<Rightarrow> string \<Rightarrow> py_exc + user option" where
  "load_user us s =
     (case py_int_parse s of
        None \<Rightarrow> Inl (ValueError ''invalid literal for int() with base 10'')
      | Some i \<Rightarrow> Inr (first_by uid i us))"

text \<open>\<open>current_user\<close> as Flask-Login computes it from the cookie: anonymous without one.\<close>

definition current_user_cookie :: "db \<Rightarrow> string option \<Rightarrow> py_exc + user option" where
  "current_user_cookie d cookie =
     (case cookie of None \<Rightarrow> Inr None | Some c \<Rightarrow> load_user (users d) c)"

text \<open>The cookie that the integer session of \<open>Web.app\<close> stands for.\<close>

definition session_cookie :: "app \<Rightarrow> string option" where
  "session_cookie st = map_option py_str_int (session_user st)"

lemma load_user_py_str_int [simp]: "load_user us (py_str_int i) = Inr (first_by uid i us)"
  by (simp add: load_user_def)

end
