(* ===== verification/Diagnostics.thy ===== *)
theory Diagnostics
  imports Routes Config
begin

text \<open>
  The diagnostic routes at the end of \<open>src/focusflow/routes.py\<close> (lines 384--423) and
  \<open>test_email_configuration\<close> of \<open>src/focusflow/email_utils.py\<close> (lines 128--157).
  They return text; the emoji of \<open>test_email_route\<close>'s messages are left out of the
  strings, and the HTML of \<open>debug_categories\<close> is reduced to its two lists.
\<close>

text \<open>\<open>sep.join(xs)\<close>.\<close>

fun py_join :: "string \<Rightarrow> string list \<Rightarrow> string" where
  "py_join sep [] = []"
| "py_join sep [x] = x"
| "py_join sep (x # y # zs) = x @ sep @ py_join sep (y # zs)"

text \<open>\<open>f"{c.id}: {c.name}"\<close> and the \<open>repr\<close> of a list of such strings.\<close>

definition category_line :: "category \<Rightarrow> string" where
  "category_line c = py_str_int (cat_id c) @ '': '' @ cat_name c"

definition py_repr_list :: "string list \<Rightarrow> string" where
  "py_repr_list xs = ''['' @ py_join '', '' (map (\<lambda>x. CHR 0x27 # x @ [CHR 0x27]) xs) @ '']''"

text \<open>\<open>debug_categories()\<close> (lines 384--400), behind \<open>@login_required\<close>.\<close>

definition debug_categories :: "app \<Rightarrow> result" where
  "debug_categories st =
     (case current_user st of
        None \<Rightarrow> unauthorized st
      | Some u \<Rightarrow>
          (let cats = categories (db_of st)
           in (st, Text (''Categories in database: '' @ py_repr_list (map category_line cats) @
                         '' Form category choices: '' @ py_repr_list (map py_str_int (category_choices cats))), [])))"

text \<open>\<open>test_simple()\<close> (lines 401--408): the names of the categories, or a notice.\<close>

definition test_simple :: "app \<Rightarrow> result" where
  "test_simple st =
     (let cats = categories (db_of st)
      in if cats \<noteq> [] then (st, Text (''Categories found: '' @ py_repr_list (map cat_name cats)), [])
         else (st, Text ''No categories found in database!'', []))"

text \<open>
  \<open>test_email_route()\<close> (lines 411--423) calls \<open>test_email_config\<close>, a name routes.py
  neither defines nor imports; the \<open>NameError\<close> is caught and reported.
\<close>

definition test_email_route :: "app \<Rightarrow> result" where
  "test_email_route st =
     (case resolve routes_globals ''test_email_config'' () of
        None \<Rightarrow> (st, Text (''Email test error: name '' @ py_repr_list [''test_email_config''] @ '' is not defined''), [])
      | Some _ \<Rightarrow> (st, Text ''Email test successful'', []))"

text \<open>
  \<open>test_email_configuration()\<close> (email_utils.py lines 128--157): a test message to
  \<open>MAIL_USERNAME\<close> when that setting is truthy, else \<open>False\<close>.
\<close>

definition test_email_configuration :: "bool \<Rightarrow> app_config \<Rightarrow> bool \<times> 'tok message list" where
  "test_email_configuration mail_ok cfg =
     (if cfg_mail_username cfg \<noteq> []
      then send_email mail_ok (cfg_mail_username cfg) ''FocusFlow Email Test'' None
      else (False, []))"

lemma test_email_route_fails:
  "test_email_route st =
     (st, Text (''Email test error: name '' @ py_repr_list [''test_email_config''] @ '' is not defined''), [])"
  by (simp add: test_email_route_def resolve_def routes_globals_def)

end
