(* ===== verification/Spec2Isabelle.thy ===== *)
theory Spec2Isabelle
  imports Runtime Firebase Session Diagnostics
begin

text \<open>
  \<^bold>\<open>FocusFlow: a verification development of the Flask to-do application\<close>

  The program (\<open>src/focusflow/\<close>) is a Flask application: users register with an
  e-mail address, verify it through a signed link, log in, and keep a list of tasks with
  an optional category, due date and reminder; a background scheduler checks every minute
  for tasks whose reminder is due. Its parts and how they interact:
  \<^item> \<open>models.py\<close>: the tables \<open>user\<close>, \<open>todo\<close>, \<open>category\<close> and the derived
    property \<open>Todo.is_reminder_due\<close>;
  \<^item> \<open>routes.py\<close>: the view functions of the blueprint \<open>main\<close>, which read the
    forms of \<open>forms.py\<close>, read and write the tables, set the Flask-Login session, and
    call \<open>email_utils.py\<close> for verification mail and tokens;
  \<^item> \<open>email_utils.py\<close> and \<open>config.py\<close>: tokens signed with \<open>SECRET_KEY\<close>
    (itsdangerous), and mail through Flask-Mail;
  \<^item> \<open>extensions.py\<close> and \<open>__init__.py\<close>: the scheduler, started by
    \<open>create_app\<close>, whose job \<open>check_reminders\<close> creates the application again,
    queries the due tasks and logs them.

  \<^bold>\<open>Theories.\<close>
  \<^item> \<open>Prelude\<close>: Python truthiness (\<open>pyval\<close>), the exceptions, SQL three-valued
    logic (\<open>sql_and\<close>, \<open>sql_cmp\<close>, \<open>sql_where\<close>), rows of a table
    (\<open>first_by\<close> for \<open>filter_by(...).first()\<close>, \<open>replace_by\<close> for a commit of a
    changed row, \<open>next_rowid\<close> for SQLite's choice of a new key), and their lemmas.
  \<^item> \<open>Models\<close>: the records \<open>user\<close>, \<open>todo\<close>, \<open>category\<close> (models.py), nullable
    columns as options; \<open>is_reminder_due\<close> with the value Python's \<open>and\<close> returns;
    the database \<open>db\<close> and its integrity constraints \<open>wf_db\<close>.
  \<^item> \<open>Reminders\<close>: extensions.py. \<open>due_filter\<close>/\<open>due_query\<close> are the SQL filter of
    \<open>check_reminders\<close>; \<open>sched\<close> is the \<open>BackgroundScheduler\<close> (running flag, job
    store, atexit hooks); \<open>start_scheduler\<close>, \<open>shutdown_scheduler\<close>, \<open>add_job\<close>;
    \<open>check_reminders\<close> and \<open>check_reminders_with_current_app\<close> return the new scheduler
    state and the log entries a run appends, with the failures of \<open>create_app\<close> and of
    the query as the values of \<open>tick_env\<close>; \<open>send_reminder_email\<close>. The running
    process is the inductive relation \<open>sys_step\<close> (start, firing, any change of the
    rows, passing of time, shutdown) and \<open>reachable\<close> its reachable states.
  \<^item> \<open>Trigger\<close>: the interval trigger the job is added with (\<open>make_interval_trigger\<close>,
    \<open>reminder_trigger\<close>, \<open>get_next_fire_time\<close>), the loop \<open>get_run_times\<close> of
    \<open>Job._get_run_times\<close>, and one wake-up of the scheduler for the job
    (\<open>process_job\<close>: coalescing and the misfire grace time), from APScheduler's
    documented behaviour with its default job options.
  \<^item> \<open>Tokens\<close>: \<open>generate_token\<close>, \<open>confirm_token\<close>, \<open>SECRET_KEY\<close> over a
    symbolic model of \<open>URLSafeTimedSerializer\<close> (\<open>dumps\<close>, \<open>loads\<close>): a signature is
    a constructor term of key, payload and time, so the model assumes perfect
    cryptography; \<open>attacker_builds\<close> is what a party without the key can assemble.
  \<^item> \<open>PyStr\<close>: \<open>str.strip\<close>, \<open>str.lower\<close> and \<open>normalize_email\<close>
    (\<open>email.strip().lower()\<close>) on Latin-1 characters; \<open>PyInt\<close>: \<open>str(n)\<close> and
    \<open>int(s)\<close> (sign, whitespace, underscores, \<open>ValueError\<close>) and their round trip.
  \<^item> \<open>Web\<close>: the endpoints of \<open>main\<close> and \<open>url_for\<close> (\<open>BuildError\<close> for an
    unknown endpoint), the responses, the application state \<open>app\<close> (database and session
    user), \<open>current_user\<close> (\<open>load_user\<close>), \<open>@login_required\<close> (\<open>unauthorized\<close>).
  \<^item> \<open>Forms\<close>: the four form classes as their data and \<open>validate_on_submit\<close>;
    the module's second class \<open>User\<close> (\<open>forms_user\<close>) with its methods over the
    names the module binds (\<open>forms_names\<close>, \<open>forms_lookup\<close>).
  \<^item> \<open>Mail\<close>: \<open>send_email\<close>, both definitions of \<open>send_verification_email\<close>, the
    module namespace in which the later one wins, and the one-argument call the
    handlers make (\<open>call_send_verification_email\<close>).
  \<^item> \<open>Routes\<close>: the view functions \<open>register\<close>, \<open>login\<close>, \<open>index\<close>, \<open>update\<close>,
    \<open>logout\<close>, \<open>delete\<close>, \<open>resend_verification\<close>, \<open>verify_email\<close>, each a function
    from its collaborators (\<open>env\<close>), its form or URL argument and the \<open>app\<close> state to
    the new state, the response and the flashed messages, with every early return and
    every \<open>except\<close> of the source as a branch. \<open>repo_env\<close> is the environment the
    repository's modules actually bind (\<open>routes_globals\<close>, \<open>email_utils_defs\<close>).
  \<^item> \<open>Firebase\<close>: the Firebase helpers of routes.py (\<open>verify_firebase_token\<close>,
    \<open>protected\<close>, \<open>load_firebase_user\<close>) over the identity provider as a parameter.
  \<^item> \<open>Session\<close>: the session cookie \<open>str(user.id)\<close> and the user loader
    \<open>load_user\<close> of \<open>__init__.py\<close>, which justify the integer session of \<open>Web\<close>.
  \<^item> \<open>Config\<close>: \<open>config.py\<close>'s \<open>Config\<close> (\<open>load_config\<close>), the unused second
    \<open>Config\<close> of \<open>email_utils.py\<close>, the settings of \<open>run.py\<close> and \<open>reset_db.py\<close>.
  \<^item> \<open>Diagnostics\<close>: the routes \<open>debug_categories\<close>, \<open>test_simple\<close>,
    \<open>test_email_route\<close> and \<open>test_email_configuration\<close>, as the text they return.
  \<^item> \<open>TaskStore\<close>: the \<open>todo\<close> table read as a map from id to task
    (\<open>Prelude.table_map\<close>), the abstract specification \<open>task_spec\<close> of the store,
    and the column types \<open>todo_typed\<close>.
  \<^item> \<open>Startup\<close>: \<open>create_app\<close> of \<open>__init__.py\<close> in full
    (\<open>create_app_full\<close>): the configuration, the Firebase initialisation once per
    process (\<open>proc\<close>, the credential \<open>certificate_ok\<close> read from the environment,
    key parsing a parameter) and the scheduler start; \<open>tick_env_of\<close> derives the
    outcome the job's own \<open>create_app()\<close> has from the process state.
  \<^item> \<open>World\<close>: the composed system, \<open>world_step\<close>: server start, a request served
    by \<open>App.handle\<close>, a run of the job with its own \<open>create_app\<close>, time, shutdown;
    each step is shown to refine a step of \<open>Reminders.sys_step\<close>.
  \<^item> \<open>Runtime\<close>: the same process at the grain of its threads: \<open>check_reminders\<close>
    split at its query (\<open>tick_read\<close>, then one step per iteration of its \<open>for\<close>
    loop and one for the count), the scheduler's wake-ups over the job store entry
    (trigger and next run time) with \<open>Trigger.process_job\<close> and the default
    \<open>max_instances=1\<close>, requests between any two steps, and a shutdown that waits for
    a run in progress (\<open>shutdown(wait=True)\<close>). \<open>rt_abs\<close>, which counts the rest of
    a run in progress as written, maps it to \<open>World\<close>; \<open>rt_inv\<close> is its invariant.
  \<^item> \<open>App\<close>: \<open>handle\<close> dispatches a \<open>request\<close>, \<open>run_requests\<close> serves a sequence;
    \<open>wf_app\<close> is the invariant of the tables; examples.
  \<^item> this theory: properties that span the token, route and reminder components.

  \<^bold>\<open>What is proved.\<close> The SQL query of the job equals the model property (C1); the
  reminder contract (C2); every branch of one run of the job (C3); bounded latency of a
  reminder, for a run of the job that takes place (C4), and the catch-up after a late
  wake-up, which runs the job at most once and skips it when more than a second late
  (C13); soundness of the log in every reachable state (C5), always-renotify (C10) and
  the scheduler's invariant (C11); the e-mail path of reminders never sends (C12); the
  fallback runner agreeing with the job (C33); token round trip, expiry, purpose binding,
  unforgeability and the forgeable default key (C6 to C9, C14); the invariant of the
  tables under every request sequence (C15); ownership, authentication and the contracts
  of the handlers with intended collaborators (C16 to C19, C23, C26), and the login that
  fails on an unknown endpoint after setting the session (C22); with the names the
  repository binds, that no account can be created, verified or logged into (C28, C29).
  C20: when \<open>create_app\<close> fails (configuration, or Firebase variables missing) and
  what it does otherwise. C21, C24, C25: the process with its threads, where a run of
  the job loads the due tasks and logs them later while requests are served, refines the
  composed system of \<open>World\<close> (C21); a run is in progress only on a running
  scheduler, logs only tasks that were due when loaded, and the job's next run stays on
  its minute grid (C24); a run in progress logs exactly the tasks it loaded whatever
  requests are served meanwhile, so there is no ordering between a request and a run that
  has already read the rows (C25). C27 is the intended sign-up flow end to end, C30 a
  task created through the web reported by the job. C31 and C32: the bearer token
  \<open>verify_firebase_token\<close> extracts and the guard of \<open>/protected\<close>. C34: the web
  layer refines the abstract task store, every run of requests being a trace of
  \<open>task_spec\<close> labelled with the acting users; C35: the reminder columns keep their
  form types; C36: the configuration, its \<open>ValueError\<close> and its case-sensitive TLS flag.

  \<^bold>\<open>Time and bounds.\<close> Timestamps are integers in seconds (\<open>datetime\<close>). The job's
  interval is the 60 seconds of \<open>minutes=1\<close>, the token window the 3600 seconds of
  \<open>expiration=3600\<close>; both are the literals of the code, not parameters. No definition
  needs fuel: the program's own loops run over query results, and the one recursion
  that is not structural, \<open>PyInt.py_str_nat\<close> on \<open>n div 10\<close>, is total by its
  termination proof. The scheduler library's loop \<open>Job._get_run_times\<close> is
  \<open>Trigger.get_run_times\<close>, a \<open>partial_function (option)\<close>; the lemma
  \<open>get_run_times_terminates\<close> shows that it returns for a positive interval, which
  C13 uses for the job's trigger. The scheduler's unbounded run is the relation
  \<open>sys_step\<close>, and its properties are invariants of \<open>reachable\<close>; its timing is
  \<open>fire_time\<close>, which \<open>Trigger\<close> relates to the trigger's run times.

  \<^bold>\<open>Modelling choices.\<close> \<open>due_query\<close> returns the due rows in table order; the
  SQL has no \<open>ORDER BY\<close>, so only the order of the log lines rests on this choice.
  \<open>process_job\<close> applies the misfire grace time at the wake-up, where APScheduler's
  executor applies it when the run starts, a little later. \<open>reset_db\<close> reads deleting
  \<open>instance/focusflow.db\<close> and \<open>create_all()\<close> as empty tables exactly when
  \<open>DATABASE_URL\<close> names that default file. \<open>App.handle\<close> is the routing table of
  the \<open>@main.route\<close> decorators; as those lines are spread over routes.py, the map
  records it as modelled from the routing table rather than from one range of lines.
  The \<open>except\<close> branches of \<open>start_scheduler\<close> and \<open>shutdown_scheduler\<close>
  (extensions.py, lines 103--104 and 112--113) are not branches of the model: both calls
  are guarded by \<open>scheduler.running\<close>, and APScheduler's \<open>start\<close> and
  \<open>shutdown\<close> raise only when their state disagrees with that flag.

  \<^bold>\<open>Not modelled.\<close> Logging text and printing; HTML templates; the identity provider itself
  (Firebase's token verification and user store are parameters); the HTML and emoji of
  the diagnostic routes' text; the bytes of a token and real cryptography; SMTP;
  the HTTP server loop itself (\<open>app.run\<close>; \<open>World\<close> serves one request per
  step) and deleting files, which are I/O; the extension set-up and \<open>create_all\<close>
  of \<open>create_app\<close>, which keep no state the model has. forms.py, as written, does not
  import (an indentation error in \<open>RegistrationForm\<close>), so the handlers are modelled
  as they run with the form classes the code intends. In \<open>Runtime\<close>, a request is one
  step (the development server handles one at a time), and the job's submission to the
  executor and its query are one step; the executor's other threads are not modelled,
  as \<open>max_instances=1\<close> lets only one run of the only job exist. What the map leaves
  out of the sources is their \<open>import\<close> lines and the module-level construction of
  the extension objects, which have no behaviour of their own to model.
\<close>

section \<open>Examples for the properties across components\<close>

text \<open>An application with no account yet, as \<open>reset_db.py\<close> and a first start leave it.\<close>

definition fresh_app :: app where
  "fresh_app = \<lparr>db_of = empty_db, session_user = None\<rparr>"

text \<open>
  The collaborators as the code intends them, with \<open>verify_email_token\<close> taken to be
  \<open>confirm_token\<close> under the key \<open>k\<close> at clock reading 100.
\<close>

definition ex_flow_env :: "token env" where
  "ex_flow_env = \<lparr>gen_hash = Some (\<lambda>p. ''h:'' @ p), check_hash = Some (\<lambda>h p. h = ''h:'' @ p),
     send_verification = (\<lambda>e. Inr (True, [])),
     verify_token = Some (\<lambda>tok. confirm_token ''k'' 100 tok default_expiration),
     commit_ok = True, email_ok = (\<lambda>e. CHR ''@'' \<in> set e)\<rparr>"

definition ex_carol_login :: login_form where
  "ex_carol_login = \<lparr>lf_submitted = True, lf_csrf_ok = True, lf_email = ''carol@example.com '',
                     lf_password = ''secret1'', lf_remember_me = True\<rparr>"

section \<open>Lemmas\<close>

text \<open>With the names routes.py binds, no handler adds a user or logs one in.\<close>

lemma handle_repo_users:
  "users (db_of (fst (handle (repo_env h c vt ok eok) now r st))) = users (db_of st) \<and>
   (session_user (fst (handle (repo_env h c vt ok eok) now r st)) = session_user st \<or>
    session_user (fst (handle (repo_env h c vt ok eok) now r st)) = None)"
  by (cases r)
     (auto simp: register_def login_def index_def update_def delete_def logout_def logout_user_def
                 resend_db verify_email_def unauthorized_def Let_def split: option.splits)

lemma handle_repo_fresh:
  "users (db_of st) = [] \<Longrightarrow> fst (handle (repo_env h c vt ok eok) now r st) = st"
  by (cases r)
     (auto simp: register_def login_def index_def update_def delete_def logout_def current_user_def
                 resend_db verify_email_def unauthorized_def first_by_def Let_def split: option.splits)

section \<open>Properties across components\<close>

text \<open>
  C27. The sign-up flow as the code intends it (a password hasher and its checker,
  \<open>verify_email_token\<close> being \<open>confirm_token\<close>): after \<open>register\<close>, the token
  \<open>generate_token\<close> issues for the address, presented to \<open>verify_email\<close> within the
  hour, verifies the new account, and \<open>login\<close> with the same address and password then
  logs in that account, a new one.
\<close>

theorem intended_signup_flow:
  assumes wf: "wf_app st"
    and reg: "reg_form_validates (email_ok env) f"
    and new: "\<forall>r \<in> set (users (db_of st)). email r \<noteq> normalize_email (rf_email f)"
    and hash: "gen_hash env = Some h" and chk: "check_hash env = Some chk" and ok: "\<forall>p. chk (h p) p"
    and commit: "commit_ok env"
    and vt: "verify_token env = Some (\<lambda>tok. confirm_token secret now tok default_expiration)"
    and time: "0 \<le> now - t" "now - t \<le> default_expiration"
    and lf: "login_form_validates (email_ok env) lf"
      "normalize_email (lf_email lf) = normalize_email (rf_email f)" "lf_password lf = rf_password f"
  shows "\<exists>u. current_user (fst (login env lf None
                (fst (verify_email env (generate_token secret t (normalize_email (rf_email f)))
                  (fst (register env f st)))))) = Some u \<and>
             email u = normalize_email (rf_email f) \<and> email_verified u = Some True \<and>
             uid u \<notin> set (map uid (users (db_of st)))"
proof -
  let ?addr = "normalize_email (rf_email f)" and ?d = "db_of st"
  let ?u = "\<lparr>uid = next_rowid (map uid (users ?d)), email = ?addr,
             password_hash = h (rf_password f), email_verified = Some False\<rparr>"
  let ?u' = "?u\<lparr>email_verified := Some True\<rparr>"
  let ?st1 = "st\<lparr>db_of := ?d\<lparr>users := users ?d @ [?u]\<rparr>\<rparr>"
  let ?st2 = "?st1\<lparr>db_of := (db_of ?st1)\<lparr>users := replace_by uid (uid ?u) ?u' (users ?d @ [?u])\<rparr>\<rparr>"
  let ?tok = "generate_token secret t ?addr"
  have none: "first_by email ?addr (users ?d) = None" using new by (simp add: first_by_None)
  have st1: "fst (register env f st) = ?st1"
    using reg hash commit none by (simp add: register_def Let_def)
  have wf1: "wf_app ?st1" using register_wf [OF wf, of env f] st1 by simp
  have ne: "?addr \<noteq> []"
    using reg by (simp add: reg_form_validates_def data_required_def)
  have tok: "confirm_token secret now ?tok default_expiration = Some ?addr"
    using time by (simp add: confirm_generate)
  have found: "first_by email ?addr (users ?d @ [?u]) = Some ?u"
    using new by (simp add: first_by_append_new)
  have st2: "fst (verify_email env ?tok ?st1) = ?st2"
    using vt tok ne found commit by (simp add: verify_email_def)
  have wf2: "wf_app ?st2" using wf_replace_user [OF wf1, of ?u "Some True"] by simp
  have "uid ?u \<in> uid ` set (users ?d @ [?u])" by simp
  then have mem: "?u' \<in> set (users (db_of ?st2))" by (simp add: set_replace_by)
  have login_found: "first_by email ?addr (users (db_of ?st2)) = Some ?u'"
    using wf_first_user_email [OF wf2 mem] by simp
  have st3: "session_user (fst (login env lf None ?st2)) = Some (uid ?u')"
    using lf(1) login_found chk ok lf(2,3) by (simp add: login_def login_user_def)
  have "distinct (map uid (users (db_of ?st2)))" using wf2 by (simp add: wf_app_def wf_db_def)
  then have "first_by uid (uid ?u') (users (db_of ?st2)) = Some ?u'"
    using mem by (rule first_by_unique)
  then have "current_user (fst (login env lf None ?st2)) = Some ?u'"
    using st3 login_db [of env lf None ?st2] by (simp add: current_user_def)
  then show ?thesis using st1 st2 by (auto simp: next_rowid_map_notin)
qed

theorem intended_signup_flow_witness:
  "\<exists>u. current_user (fst (login ex_flow_env ex_carol_login None
          (fst (verify_email ex_flow_env (generate_token ''k'' 50 ''carol@example.com'')
            (fst (register ex_flow_env ex_reg ex_app)))))) = Some u \<and>
       email u = ''carol@example.com'' \<and> email_verified u = Some True"
proof -
  have reg: "reg_form_validates (email_ok ex_flow_env) ex_reg" by code_simp
  have n: "normalize_email (rf_email ex_reg) = ''carol@example.com''" by code_simp
  have new: "\<forall>r \<in> set (users (db_of ex_app)). email r \<noteq> normalize_email (rf_email ex_reg)"
    by (simp add: n ex_app_def ex_alice_def ex_bob_def)
  have hash: "gen_hash ex_flow_env = Some (\<lambda>p. ''h:'' @ p)"
    and chk: "check_hash ex_flow_env = Some (\<lambda>h p. h = ''h:'' @ p)"
    and commit: "commit_ok ex_flow_env"
    and vt: "verify_token ex_flow_env = Some (\<lambda>tok. confirm_token ''k'' 100 tok default_expiration)"
    by (simp_all add: ex_flow_env_def)
  have ok: "\<forall>p. (\<lambda>h p. h = ''h:'' @ p) ((\<lambda>p. ''h:'' @ p) p) p" by simp
  have time: "0 \<le> (100::int) - 50" "(100::int) - 50 \<le> default_expiration"
    by (simp_all add: default_expiration_def)
  have lv: "login_form_validates (email_ok ex_flow_env) ex_carol_login" by code_simp
  have le: "normalize_email (lf_email ex_carol_login) = normalize_email (rf_email ex_reg)" by code_simp
  have lp: "lf_password ex_carol_login = rf_password ex_reg" by (simp add: ex_carol_login_def ex_reg_def)
  show ?thesis
    using intended_signup_flow [OF ex_app_wf reg new hash chk ok commit vt time lv le lp] n
    by (simp only: n) blast
qed

text \<open>
  C28. The application as the repository binds its names: started with no account, it is
  inert; every sequence of requests leaves the database and the session exactly as they were.
\<close>

theorem repo_fresh_app_inert:
  assumes "users (db_of st) = []"
  shows "run_requests (repo_env h c vt ok eok) now reqs st = st"
  using assms
proof (induction reqs arbitrary: st)
  case Nil
  then show ?case by simp
next
  case (Cons r rs)
  then show ?case by (simp add: handle_repo_fresh)
qed

theorem repo_fresh_app_inert_witness:
  "users (db_of fresh_app) = [] \<and>
   run_requests (repo_env (\<lambda>p. p) (\<lambda>x y. x = y) (\<lambda>t::string. Some t) True (\<lambda>e. True)) 0
     [ReqRegister ex_reg, ReqVerify ''carol@example.com'', ReqLogin ex_login None, ReqIndex ex_task_form]
     fresh_app = fresh_app"
proof -
  have e: "users (db_of fresh_app) = []" by (simp add: fresh_app_def empty_db_def)
  show ?thesis using repo_fresh_app_inert [OF e] e by blast
qed

text \<open>
  C29. With the names the repository binds, no sequence of requests ever adds or changes a
  user, and the session is only ever kept or cleared, never set: nobody can sign up,
  verify or log in.
\<close>

theorem repo_no_account_ever:
  "users (db_of (run_requests (repo_env h c vt ok eok) now reqs st)) = users (db_of st) \<and>
   (session_user (run_requests (repo_env h c vt ok eok) now reqs st) = session_user st \<or>
    session_user (run_requests (repo_env h c vt ok eok) now reqs st) = None)"
proof (induction reqs arbitrary: st)
  case Nil
  then show ?case by simp
next
  case (Cons r rs)
  let ?st' = "fst (handle (repo_env h c vt ok eok) now r st)"
  from Cons.IH [of ?st'] handle_repo_users [of h c vt ok eok now r st] show ?case by auto
qed

text \<open>
  C30. A task that a logged-in user creates through \<open>index\<close> with a reminder and due date
  \<open>d\<close> is owned by that user and reported by the reminder job at every run at or after
  \<open>d\<close> while the scheduler runs.
\<close>

theorem created_task_reminded:
  assumes "current_user st = Some u" and "task_form_validates (categories (db_of st)) f"
    and "commit_ok env" and "tf_reminder_active f" and "tf_due_date f = Some d"
    and "running s" and "d \<le> now'"
  shows "\<exists>t \<in> set (todos (db_of (fst (index env now f st)))).
           user_id t = uid u \<and>
           LogReminder (py_strip (tf_content f)) (Some d) \<in>
             set (snd (check_reminders TickOk now' s (todos (db_of (fst (index env now f st))))))"
proof -
  let ?d = "db_of st"
  let ?t = "\<lparr>todo_id = next_rowid (map todo_id (todos ?d)), content = py_strip (tf_content f),
            date_created = now, user_id = uid u,
            category_id = form_category (categories ?d) (tf_category f),
            due_date = tf_due_date f, reminder_active = Some (tf_reminder_active f),
            reminder_time = Some (py_int (tf_reminder_time f))\<rparr>"
  have idx: "todos (db_of (fst (index env now f st))) = todos ?d @ [?t]"
    using assms(1-3) task_form_validates_content [OF assms(2)] by (simp add: index_def Let_def)
  have "is_due_spec ?t now'" using assms(4,5,7) by (simp add: is_due_spec_def)
  then have "reminder_log ?t \<in> set (snd (check_reminders TickOk now' s (todos ?d @ [?t])))"
    using assms(6) by (simp add: check_reminders_ok due_query_spec)
  then show ?thesis using idx assms(5) by (auto simp: reminder_log_def)
qed

theorem created_task_reminded_witness:
  "current_user (ex_app\<lparr>session_user := Some 1\<rparr>) = Some ex_alice \<and>
   (\<exists>t \<in> set (todos (db_of (fst (index ex_env 5 ex_task_form (ex_app\<lparr>session_user := Some 1\<rparr>))))).
      user_id t = 1 \<and>
      LogReminder ''buy milk'' (Some 120) \<in>
        set (snd (check_reminders TickOk 120 ex_sched
                   (todos (db_of (fst (index ex_env 5 ex_task_form (ex_app\<lparr>session_user := Some 1\<rparr>))))))))"
proof -
  let ?st = "ex_app\<lparr>session_user := Some 1\<rparr>"
  have v: "task_form_validates (categories (db_of ?st)) ex_task_form" by code_simp
  have c: "commit_ok ex_env" by (simp add: ex_env_def)
  have r: "tf_reminder_active ex_task_form" and d: "tf_due_date ex_task_form = Some 120"
    by (simp_all add: ex_task_form_def)
  have run: "running ex_sched" by simp
  have p: "py_strip (tf_content ex_task_form) = ''buy milk''" by code_simp
  have a: "uid ex_alice = 1" by (simp add: ex_alice_def)
  show ?thesis
    using created_task_reminded [OF ex_current_alice v c r d run, of 120 5] ex_current_alice p a
    by auto
qed

end
